theory Spec2Isabelle
  imports Complex_Main
begin

section \<open>Frustum geometry of math.frustum.ts\<close>

text \<open>
  The module math.frustum.ts derives the six bounding planes of a camera frustum from a
  4x4 transform and tests a point against six planes. Its functions write into Plane
  objects that the caller passes by reference, and they write the normal of a plane
  through the reference frustumPlane.normal. The embedding therefore keeps an explicit
  store: a list of objects, a reference being an index into it, in which a Plane holds
  the reference of its normal Vector3. JavaScript numbers are modelled as the reals
  (exact arithmetic); rounding, infinities and NaN are outside the model.
\<close>

subsection \<open>Data model\<close>

type_synonym ref = nat

text \<open>
  Modelled from the spec: the classes Vector3 and Matrix (math.vector.ts) and Plane
  (math.plane.ts) are imported by math.frustum.ts and are not among the sources. The
  spec gives a Vector3 as a triple of scalars, a Plane as a normal with a scalar offset
  d, and a Matrix as 16 scalars in a flat array; the field names are the ones
  math.frustum.ts reads and writes (normal.x, normal.y, normal.z, d, transform.m). The
  member normal of a Plane is an object of its own, so two Plane objects may hold the
  same normal.
\<close>

record Vector3 =
  x :: real
  y :: real
  z :: real

record Plane =
  normal :: ref
  d :: real

record Matrix =
  m :: "real list"

datatype obj = PlaneObj Plane | MatrixObj Matrix | Vector3Obj Vector3

type_synonym store = "obj list"

text \<open>
  The only failure JavaScript can raise in this module is the TypeError of reading a
  property of undefined (an array slot that does not exist) or of an object of the wrong
  class. An error result carries no store: what had been written before the exception is
  not part of any statement below.
\<close>

datatype error = TypeError

definition lookup :: "store \<Rightarrow> ref \<Rightarrow> obj option" where
  "lookup h r = (if r < length h then Some (h ! r) else None)"

definition get_Matrix :: "store \<Rightarrow> ref \<Rightarrow> error + Matrix" where
  "get_Matrix h r = (case lookup h r of Some (MatrixObj t) \<Rightarrow> Inr t | _ \<Rightarrow> Inl TypeError)"

definition get_Plane :: "store \<Rightarrow> ref \<Rightarrow> error + Plane" where
  "get_Plane h r = (case lookup h r of Some (PlaneObj p) \<Rightarrow> Inr p | _ \<Rightarrow> Inl TypeError)"

definition get_Vector3 :: "store \<Rightarrow> ref \<Rightarrow> error + Vector3" where
  "get_Vector3 h r = (case lookup h r of Some (Vector3Obj v) \<Rightarrow> Inr v | _ \<Rightarrow> Inl TypeError)"

text \<open>Reading slot i of a JavaScript array: undefined beyond its length.\<close>

definition slot :: "ref list \<Rightarrow> nat \<Rightarrow> ref option" where
  "slot a i = (if i < length a then Some (a ! i) else None)"

text \<open>A sequence of statements: an exception ends it.\<close>

definition and_then :: "error + 'a \<Rightarrow> ('a \<Rightarrow> error + 'b) \<Rightarrow> error + 'b" where
  "and_then r f = (case r of Inl e \<Rightarrow> Inl e | Inr v \<Rightarrow> f v)"

subsection \<open>The members of Plane that the module uses\<close>

text \<open>
  The four assignments of the source, frustumPlane.normal.x = v, frustumPlane.normal.y =
  v, frustumPlane.normal.z = v and frustumPlane.d = v: the first three write into the
  Vector3 that frustumPlane.normal refers to, the last into the Plane itself.
\<close>

definition set_normal_x :: "ref \<Rightarrow> real \<Rightarrow> store \<Rightarrow> error + store" where
  "set_normal_x frustumPlane v h =
     (case get_Plane h frustumPlane of
        Inl e \<Rightarrow> Inl e
      | Inr p \<Rightarrow>
         (case get_Vector3 h (normal p) of
            Inl e \<Rightarrow> Inl e
          | Inr n \<Rightarrow> Inr (h[normal p := Vector3Obj (n\<lparr>x := v\<rparr>)])))"

definition set_normal_y :: "ref \<Rightarrow> real \<Rightarrow> store \<Rightarrow> error + store" where
  "set_normal_y frustumPlane v h =
     (case get_Plane h frustumPlane of
        Inl e \<Rightarrow> Inl e
      | Inr p \<Rightarrow>
         (case get_Vector3 h (normal p) of
            Inl e \<Rightarrow> Inl e
          | Inr n \<Rightarrow> Inr (h[normal p := Vector3Obj (n\<lparr>y := v\<rparr>)])))"

definition set_normal_z :: "ref \<Rightarrow> real \<Rightarrow> store \<Rightarrow> error + store" where
  "set_normal_z frustumPlane v h =
     (case get_Plane h frustumPlane of
        Inl e \<Rightarrow> Inl e
      | Inr p \<Rightarrow>
         (case get_Vector3 h (normal p) of
            Inl e \<Rightarrow> Inl e
          | Inr n \<Rightarrow> Inr (h[normal p := Vector3Obj (n\<lparr>z := v\<rparr>)])))"

definition set_d :: "ref \<Rightarrow> real \<Rightarrow> store \<Rightarrow> error + store" where
  "set_d frustumPlane v h =
     (case get_Plane h frustumPlane of
        Inl e \<Rightarrow> Inl e
      | Inr p \<Rightarrow> Inr (h[frustumPlane := PlaneObj (p\<lparr>d := v\<rparr>)]))"

text \<open>
  Modelled from the spec: the constructor of Plane (math.plane.ts is not among the
  sources). new Plane(a, b, c, e) allocates a plane with normal (a, b, c) and offset e;
  the plane gets a new Vector3 of its own as its normal. The result is the reference of
  the new Plane and the extended store.
\<close>

definition new_Plane :: "real \<Rightarrow> real \<Rightarrow> real \<Rightarrow> real \<Rightarrow> store \<Rightarrow> ref \<times> store" where
  "new_Plane a b c e h =
     (length h + 1,
      h @ [Vector3Obj \<lparr>x = a, y = b, z = c\<rparr>, PlaneObj \<lparr>normal = length h, d = e\<rparr>])"

text \<open>
  The value of a plane, apart from where it is stored: its normal vector and its offset.
\<close>

record plane_value =
  normal_v :: Vector3
  d_v :: real

definition plane_value :: "real \<Rightarrow> real \<Rightarrow> real \<Rightarrow> real \<Rightarrow> plane_value" where
  "plane_value a b c e = \<lparr>normal_v = \<lparr>x = a, y = b, z = c\<rparr>, d_v = e\<rparr>"

text \<open>
  Modelled from the spec: the length of a normal, sqrt(nx^2 + ny^2 + nz^2).
\<close>

definition Vector3_length :: "Vector3 \<Rightarrow> real" where
  "Vector3_length v = sqrt (x v * x v + y v * y v + z v * z v)"

text \<open>
  Modelled from the spec: what Plane.normalize computes (math.plane.ts is not among the
  sources). The spec: compute len = sqrt(nx^2 + ny^2 + nz^2); when len is nonzero divide
  the normal components and d by len. For a zero length the spec asks for a defensive
  policy and names the zero plane (zero normal, d zero) as one; that policy is taken
  here. Over the reals a length is always finite.
\<close>

definition normalized :: "plane_value \<Rightarrow> plane_value" where
  "normalized p =
     (let len = Vector3_length (normal_v p) in
      if len = 0 then p\<lparr>normal_v := \<lparr>x = 0, y = 0, z = 0\<rparr>, d_v := 0\<rparr>
      else p\<lparr>normal_v := \<lparr>x = x (normal_v p) / len, y = y (normal_v p) / len,
                             z = z (normal_v p) / len\<rparr>,
             d_v := d_v p / len\<rparr>)"

text \<open>
  Modelled from the spec: the method call frustumPlane.normalize() of Plane. The spec
  gives its effect as the in-place mutation of the target plane and no other side effect:
  the normal of the receiver and its d are replaced by their normalized values and every
  other object is left alone.
\<close>

definition Plane_normalize :: "ref \<Rightarrow> store \<Rightarrow> error + store" where
  "Plane_normalize this h =
     (case get_Plane h this of
        Inl e \<Rightarrow> Inl e
      | Inr p \<Rightarrow>
         (case get_Vector3 h (normal p) of
            Inl e \<Rightarrow> Inl e
          | Inr n \<Rightarrow>
             Inr (h[normal p := Vector3Obj (normal_v (normalized \<lparr>normal_v = n, d_v = d p\<rparr>)),
                    this := PlaneObj (p\<lparr>d := d_v (normalized \<lparr>normal_v = n, d_v = d p\<rparr>)\<rparr>)])))"

text \<open>
  Modelled from the spec: the signed distance dot(plane.normal, point) + plane.d that
  Plane.dotCoordinate computes (math.plane.ts is not among the sources).
\<close>

definition signed_distance :: "plane_value \<Rightarrow> Vector3 \<Rightarrow> real" where
  "signed_distance p v =
     x (normal_v p) * x v + y (normal_v p) * y v + z (normal_v p) * z v + d_v p"

text \<open>
  Modelled from the spec: the method call plane.dotCoordinate(point). The spec describes
  the containment test, which calls nothing else, as pure (no mutation), so the method
  returns the store as it was. The signature makes the point a Vector3; a reference to
  anything else is given the TypeError here.
\<close>

definition dotCoordinate :: "ref \<Rightarrow> ref \<Rightarrow> store \<Rightarrow> error + real \<times> store" where
  "dotCoordinate this point h =
     (case get_Plane h this of
        Inl e \<Rightarrow> Inl e
      | Inr p \<Rightarrow>
         (case get_Vector3 h (normal p) of
            Inl e \<Rightarrow> Inl e
          | Inr n \<Rightarrow>
             (case get_Vector3 h point of
                Inl e \<Rightarrow> Inl e
              | Inr v \<Rightarrow> Inr (signed_distance \<lparr>normal_v = n, d_v = d p\<rparr> v, h))))"

subsection \<open>The six single-plane extractions\<close>

text \<open>
  Each function reads transform.m, assigns normal.x, normal.y, normal.z and d of the
  target plane, in this order, and calls normalize on it.
\<close>

definition GetNearPlaneToRef :: "ref \<Rightarrow> ref \<Rightarrow> store \<Rightarrow> error + store" where
  "GetNearPlaneToRef transform frustumPlane h =
     and_then (get_Matrix h transform) (\<lambda>t.
     and_then (set_normal_x frustumPlane (m t ! 3 + m t ! 2) h) (\<lambda>h1.
     and_then (set_normal_y frustumPlane (m t ! 7 + m t ! 6) h1) (\<lambda>h2.
     and_then (set_normal_z frustumPlane (m t ! 11 + m t ! 10) h2) (\<lambda>h3.
     and_then (set_d frustumPlane (m t ! 15 + m t ! 14) h3) (\<lambda>h4.
     Plane_normalize frustumPlane h4)))))"

definition GetFarPlaneToRef :: "ref \<Rightarrow> ref \<Rightarrow> store \<Rightarrow> error + store" where
  "GetFarPlaneToRef transform frustumPlane h =
     and_then (get_Matrix h transform) (\<lambda>t.
     and_then (set_normal_x frustumPlane (m t ! 3 - m t ! 2) h) (\<lambda>h1.
     and_then (set_normal_y frustumPlane (m t ! 7 - m t ! 6) h1) (\<lambda>h2.
     and_then (set_normal_z frustumPlane (m t ! 11 - m t ! 10) h2) (\<lambda>h3.
     and_then (set_d frustumPlane (m t ! 15 - m t ! 14) h3) (\<lambda>h4.
     Plane_normalize frustumPlane h4)))))"

definition GetLeftPlaneToRef :: "ref \<Rightarrow> ref \<Rightarrow> store \<Rightarrow> error + store" where
  "GetLeftPlaneToRef transform frustumPlane h =
     and_then (get_Matrix h transform) (\<lambda>t.
     and_then (set_normal_x frustumPlane (m t ! 3 + m t ! 0) h) (\<lambda>h1.
     and_then (set_normal_y frustumPlane (m t ! 7 + m t ! 4) h1) (\<lambda>h2.
     and_then (set_normal_z frustumPlane (m t ! 11 + m t ! 8) h2) (\<lambda>h3.
     and_then (set_d frustumPlane (m t ! 15 + m t ! 12) h3) (\<lambda>h4.
     Plane_normalize frustumPlane h4)))))"

definition GetRightPlaneToRef :: "ref \<Rightarrow> ref \<Rightarrow> store \<Rightarrow> error + store" where
  "GetRightPlaneToRef transform frustumPlane h =
     and_then (get_Matrix h transform) (\<lambda>t.
     and_then (set_normal_x frustumPlane (m t ! 3 - m t ! 0) h) (\<lambda>h1.
     and_then (set_normal_y frustumPlane (m t ! 7 - m t ! 4) h1) (\<lambda>h2.
     and_then (set_normal_z frustumPlane (m t ! 11 - m t ! 8) h2) (\<lambda>h3.
     and_then (set_d frustumPlane (m t ! 15 - m t ! 12) h3) (\<lambda>h4.
     Plane_normalize frustumPlane h4)))))"

definition GetTopPlaneToRef :: "ref \<Rightarrow> ref \<Rightarrow> store \<Rightarrow> error + store" where
  "GetTopPlaneToRef transform frustumPlane h =
     and_then (get_Matrix h transform) (\<lambda>t.
     and_then (set_normal_x frustumPlane (m t ! 3 - m t ! 1) h) (\<lambda>h1.
     and_then (set_normal_y frustumPlane (m t ! 7 - m t ! 5) h1) (\<lambda>h2.
     and_then (set_normal_z frustumPlane (m t ! 11 - m t ! 9) h2) (\<lambda>h3.
     and_then (set_d frustumPlane (m t ! 15 - m t ! 13) h3) (\<lambda>h4.
     Plane_normalize frustumPlane h4)))))"

definition GetBottomPlaneToRef :: "ref \<Rightarrow> ref \<Rightarrow> store \<Rightarrow> error + store" where
  "GetBottomPlaneToRef transform frustumPlane h =
     and_then (get_Matrix h transform) (\<lambda>t.
     and_then (set_normal_x frustumPlane (m t ! 3 + m t ! 1) h) (\<lambda>h1.
     and_then (set_normal_y frustumPlane (m t ! 7 + m t ! 5) h1) (\<lambda>h2.
     and_then (set_normal_z frustumPlane (m t ! 11 + m t ! 9) h2) (\<lambda>h3.
     and_then (set_d frustumPlane (m t ! 15 + m t ! 13) h3) (\<lambda>h4.
     Plane_normalize frustumPlane h4)))))"

subsection \<open>All six planes, in place and allocating\<close>

text \<open>
  GetPlanesToRef passes frustumPlanes[0] to frustumPlanes[5] to the six extractions, in
  the order near, far, left, right, top, bottom. A slot that does not exist is undefined
  in JavaScript, and the extraction that receives it raises the TypeError; an exception
  ends the sequence of calls.
\<close>

definition with_slot ::
  "ref list \<Rightarrow> nat \<Rightarrow> (ref \<Rightarrow> store \<Rightarrow> error + store) \<Rightarrow> store \<Rightarrow> error + store" where
  "with_slot a i f h = (case slot a i of None \<Rightarrow> Inl TypeError | Some p \<Rightarrow> f p h)"

definition GetPlanesToRef :: "ref \<Rightarrow> ref list \<Rightarrow> store \<Rightarrow> error + store" where
  "GetPlanesToRef transform frustumPlanes h =
     and_then (with_slot frustumPlanes 0 (GetNearPlaneToRef transform) h) (\<lambda>h1.
     and_then (with_slot frustumPlanes 1 (GetFarPlaneToRef transform) h1) (\<lambda>h2.
     and_then (with_slot frustumPlanes 2 (GetLeftPlaneToRef transform) h2) (\<lambda>h3.
     and_then (with_slot frustumPlanes 3 (GetRightPlaneToRef transform) h3) (\<lambda>h4.
     and_then (with_slot frustumPlanes 4 (GetTopPlaneToRef transform) h4) (\<lambda>h5.
     with_slot frustumPlanes 5 (GetBottomPlaneToRef transform) h5)))))"

text \<open>
  The loop of GetPlanes: for index from 0 while index < 6, push a new Plane(0, 0, 0, 0).
\<close>

function GetPlanes_loop :: "nat \<Rightarrow> ref list \<Rightarrow> store \<Rightarrow> ref list \<times> store" where
  "GetPlanes_loop index frustumPlanes h =
     (if index < 6 then
        GetPlanes_loop (index + 1) (frustumPlanes @ [fst (new_Plane 0 0 0 0 h)])
          (snd (new_Plane 0 0 0 0 h))
      else (frustumPlanes, h))"
  by pat_completeness auto
termination
  by (relation "measure (\<lambda>(index, frustumPlanes, h). 6 - index)") auto

declare GetPlanes_loop.simps [simp del]

definition GetPlanes :: "ref \<Rightarrow> store \<Rightarrow> error + ref list \<times> store" where
  "GetPlanes transform h =
     (case GetPlanes_loop 0 [] h of (frustumPlanes, h1) \<Rightarrow>
        (case GetPlanesToRef transform frustumPlanes h1 of
           Inl e \<Rightarrow> Inl e
         | Inr h2 \<Rightarrow> Inr (frustumPlanes, h2)))"

subsection \<open>Point containment\<close>

text \<open>
  The loop of IsPointInFrustum: for i from 0 while i < 6, return false as soon as
  frustumPlanes[i].dotCoordinate(point) is negative; return true after the loop. The
  test v < 0 is the order of the reals on the exact distance. What the comparison of
  JavaScript gives for a NaN or for a rounded distance is outside the model, so the
  theorems below use the loop for the slots it reads, for the error it raises and for
  the store it leaves, and state nothing about which points of floating-point
  coordinates are reported inside.
\<close>

function IsPointInFrustum_loop :: "ref \<Rightarrow> ref list \<Rightarrow> nat \<Rightarrow> store \<Rightarrow> error + bool \<times> store" where
  "IsPointInFrustum_loop point frustumPlanes i h =
     (if i < 6 then
        (case slot frustumPlanes i of
           None \<Rightarrow> Inl TypeError
         | Some p \<Rightarrow>
            (case dotCoordinate p point h of
               Inl e \<Rightarrow> Inl e
             | Inr (v, h') \<Rightarrow>
                if v < 0 then Inr (False, h')
                else IsPointInFrustum_loop point frustumPlanes (i + 1) h'))
      else Inr (True, h))"
  by pat_completeness auto
termination
  by (relation "measure (\<lambda>(point, frustumPlanes, i, h). 6 - i)") auto

declare IsPointInFrustum_loop.simps [simp del]

definition IsPointInFrustum :: "ref \<Rightarrow> ref list \<Rightarrow> store \<Rightarrow> error + bool \<times> store" where
  "IsPointInFrustum point frustumPlanes h = IsPointInFrustum_loop point frustumPlanes 0 h"

subsection \<open>Well-typed arguments and the coefficient table of the specification\<close>

text \<open>
  The TypeScript signatures fix the class of every argument: transform is a Matrix, a
  target is a Plane whose member normal is a Vector3, the point is a Vector3. A Matrix
  has 16 entries, so every read m[i] of the extractions is in range.
\<close>

definition is_Matrix :: "store \<Rightarrow> ref \<Rightarrow> Matrix \<Rightarrow> bool" where
  "is_Matrix h r t \<longleftrightarrow> lookup h r = Some (MatrixObj t) \<and> length (m t) = 16"

definition is_Plane :: "store \<Rightarrow> ref \<Rightarrow> bool" where
  "is_Plane h r =
     (case lookup h r of
        Some (PlaneObj p) \<Rightarrow>
          (case lookup h (normal p) of Some (Vector3Obj n) \<Rightarrow> True | _ \<Rightarrow> False)
      | _ \<Rightarrow> False)"

definition is_Vector3 :: "store \<Rightarrow> ref \<Rightarrow> Vector3 \<Rightarrow> bool" where
  "is_Vector3 h r v \<longleftrightarrow> lookup h r = Some (Vector3Obj v)"

text \<open>
  The value of the plane a reference holds, read through its normal. The theorems read
  it only at references that hold a Plane; elsewhere it is the zero plane, whose normal
  has length 0.
\<close>

definition plane_of :: "store \<Rightarrow> ref \<Rightarrow> plane_value" where
  "plane_of h r =
     (case lookup h r of
        Some (PlaneObj p) \<Rightarrow>
          (case lookup h (normal p) of
             Some (Vector3Obj n) \<Rightarrow> \<lparr>normal_v = n, d_v = d p\<rparr>
           | _ \<Rightarrow> plane_value 0 0 0 0)
      | _ \<Rightarrow> plane_value 0 0 0 0)"

text \<open>
  The store in which the plane at a reference has a given value: the value's normal is
  written into the Vector3 the plane refers to and its offset into the plane.
\<close>

definition put_plane :: "ref \<Rightarrow> plane_value \<Rightarrow> store \<Rightarrow> store" where
  "put_plane r v h =
     (case lookup h r of
        Some (PlaneObj p) \<Rightarrow>
          h[normal p := Vector3Obj (normal_v v), r := PlaneObj (p\<lparr>d := d_v v\<rparr>)]
      | _ \<Rightarrow> h)"

text \<open>
  The references a plane occupies: its normal and itself. Six plane slots: the sequence
  has the slots 0 to 5 and each of them refers to a Plane of the store. The six planes
  are separate when no two of them share the Plane object or the normal.
\<close>

definition storage :: "store \<Rightarrow> ref \<Rightarrow> ref list" where
  "storage h r = (case lookup h r of Some (PlaneObj p) \<Rightarrow> [normal p, r] | _ \<Rightarrow> [r])"

definition six_planes :: "store \<Rightarrow> ref list \<Rightarrow> bool" where
  "six_planes h a \<longleftrightarrow> 6 \<le> length a \<and> list_all (is_Plane h) (take 6 a)"

definition separate :: "store \<Rightarrow> ref list \<Rightarrow> bool" where
  "separate h a \<longleftrightarrow> distinct (concat (map (storage h) (take 6 a)))"

text \<open>
  The references that an object holds, and whether some object of a store holds a given
  reference. In a closed store every reference held by an object is a reference of the
  store.
\<close>

definition refs_of :: "obj \<Rightarrow> ref list" where
  "refs_of v = (case v of PlaneObj p \<Rightarrow> [normal p] | _ \<Rightarrow> [])"

definition referenced :: "store \<Rightarrow> ref \<Rightarrow> bool" where
  "referenced h r = list_ex (\<lambda>v. r \<in> set (refs_of v)) h"

definition closed :: "store \<Rightarrow> bool" where
  "closed h = list_all (\<lambda>v. list_all (\<lambda>r. r < length h) (refs_of v)) h"

text \<open>
  The raw coefficients as the table of section 4.1 of the specification lists them,
  for comparison with what the six functions write.
\<close>

definition spec_near :: "Matrix \<Rightarrow> plane_value" where
  "spec_near t = plane_value (m t ! 3 + m t ! 2) (m t ! 7 + m t ! 6) (m t ! 11 + m t ! 10)
     (m t ! 15 + m t ! 14)"

definition spec_far :: "Matrix \<Rightarrow> plane_value" where
  "spec_far t = plane_value (m t ! 3 - m t ! 2) (m t ! 7 - m t ! 6) (m t ! 11 - m t ! 10)
     (m t ! 15 - m t ! 14)"

definition spec_left :: "Matrix \<Rightarrow> plane_value" where
  "spec_left t = plane_value (m t ! 3 + m t ! 0) (m t ! 7 + m t ! 4) (m t ! 11 + m t ! 8)
     (m t ! 15 + m t ! 12)"

definition spec_right :: "Matrix \<Rightarrow> plane_value" where
  "spec_right t = plane_value (m t ! 3 - m t ! 0) (m t ! 7 - m t ! 4) (m t ! 11 - m t ! 8)
     (m t ! 15 - m t ! 12)"

definition spec_top :: "Matrix \<Rightarrow> plane_value" where
  "spec_top t = plane_value (m t ! 3 - m t ! 1) (m t ! 7 - m t ! 5) (m t ! 11 - m t ! 9)
     (m t ! 15 - m t ! 13)"

definition spec_bottom :: "Matrix \<Rightarrow> plane_value" where
  "spec_bottom t = plane_value (m t ! 3 + m t ! 1) (m t ! 7 + m t ! 5) (m t ! 11 + m t ! 9)
     (m t ! 15 + m t ! 13)"

text \<open>A matrix is non-degenerate when each of the six raw normals has nonzero length.\<close>

definition nondegenerate :: "Matrix \<Rightarrow> bool" where
  "nondegenerate t \<longleftrightarrow>
     Vector3_length (normal_v (spec_near t)) \<noteq> 0 \<and> Vector3_length (normal_v (spec_far t)) \<noteq> 0 \<and>
     Vector3_length (normal_v (spec_left t)) \<noteq> 0 \<and> Vector3_length (normal_v (spec_right t)) \<noteq> 0 \<and>
     Vector3_length (normal_v (spec_top t)) \<noteq> 0 \<and> Vector3_length (normal_v (spec_bottom t)) \<noteq> 0"

text \<open>
  The six normalized table entries in the order of the slots.
\<close>

definition planes_table :: "Matrix \<Rightarrow> plane_value list" where
  "planes_table t =
     [normalized (spec_near t), normalized (spec_far t), normalized (spec_left t),
      normalized (spec_right t), normalized (spec_top t), normalized (spec_bottom t)]"

text \<open>
  A list of writes, applied from left to right, and the two writes that give the plane
  at a reference a value. The store after the six extractions is the store after the
  twelve writes of the six normalized table entries, in the order of the calls.
\<close>

fun apply_writes :: "(ref \<times> obj) list \<Rightarrow> store \<Rightarrow> store" where
  "apply_writes [] h = h"
| "apply_writes (w # ws) h = apply_writes ws (h[fst w := snd w])"

definition plane_writes :: "store \<Rightarrow> ref \<Rightarrow> plane_value \<Rightarrow> (ref \<times> obj) list" where
  "plane_writes h r v =
     (case lookup h r of
        Some (PlaneObj p) \<Rightarrow>
          [(normal p, Vector3Obj (normal_v v)), (r, PlaneObj \<lparr>normal = normal p, d = d_v v\<rparr>)]
      | _ \<Rightarrow> [])"

definition all_writes :: "Matrix \<Rightarrow> store \<Rightarrow> ref list \<Rightarrow> (ref \<times> obj) list" where
  "all_writes t h a = concat (map (\<lambda>i. plane_writes h (a ! i) (planes_table t ! i)) [0..<6])"

definition write_all :: "Matrix \<Rightarrow> ref list \<Rightarrow> store \<Rightarrow> store" where
  "write_all t a h = apply_writes (all_writes t h a) h"

text \<open>
  What the writes of the module never change: the class of each object and, for a Plane,
  the reference of its normal.
\<close>

datatype kind = KPlane ref | KMatrix Matrix | KVector

definition kind_of :: "obj \<Rightarrow> kind" where
  "kind_of v = (case v of PlaneObj p \<Rightarrow> KPlane (normal p) | MatrixObj t \<Rightarrow> KMatrix t
     | Vector3Obj n \<Rightarrow> KVector)"

definition layout :: "store \<Rightarrow> kind list" where
  "layout h = map kind_of h"

subsection \<open>Example matrices and stores\<close>

text \<open>
  The identity, a uniform scaling by 2, and a singular matrix whose near plane is
  degenerate while the other five are not.
\<close>

definition identity_Matrix :: Matrix where
  "identity_Matrix = \<lparr>m = [1, 0, 0, 0,  0, 1, 0, 0,  0, 0, 1, 0,  0, 0, 0, 1]\<rparr>"

definition ex_scale :: Matrix where
  "ex_scale = \<lparr>m = [2, 0, 0, 0,  0, 2, 0, 0,  0, 0, 2, 0,  0, 0, 0, 1]\<rparr>"

definition ex_singular :: Matrix where
  "ex_singular = \<lparr>m = [0, 0, 0, 0,  0, 0, 0, 0,  0, 0, - 1, 1,  0, 0, 0, 1]\<rparr>"

text \<open>
  A store with the three matrices at the references 0 to 2, six planes at the references
  9 to 14 with their normals at the references 3 to 8 (the first plane with arbitrary
  earlier contents), a seventh plane at reference 16 with its normal at reference 15,
  and a point at reference 17.
\<close>

definition ex_store :: store where
  "ex_store =
     [MatrixObj ex_scale, MatrixObj identity_Matrix, MatrixObj ex_singular,
      Vector3Obj \<lparr>x = 9, y = 8, z = 7\<rparr>, Vector3Obj \<lparr>x = 0, y = 0, z = 0\<rparr>,
      Vector3Obj \<lparr>x = 0, y = 0, z = 0\<rparr>, Vector3Obj \<lparr>x = 0, y = 0, z = 0\<rparr>,
      Vector3Obj \<lparr>x = 0, y = 0, z = 0\<rparr>, Vector3Obj \<lparr>x = 0, y = 0, z = 0\<rparr>,
      PlaneObj \<lparr>normal = 3, d = 6\<rparr>, PlaneObj \<lparr>normal = 4, d = 0\<rparr>,
      PlaneObj \<lparr>normal = 5, d = 0\<rparr>, PlaneObj \<lparr>normal = 6, d = 0\<rparr>,
      PlaneObj \<lparr>normal = 7, d = 0\<rparr>, PlaneObj \<lparr>normal = 8, d = 0\<rparr>,
      Vector3Obj \<lparr>x = 0, y = 0, z = - 1\<rparr>, PlaneObj \<lparr>normal = 15, d = - 5\<rparr>,
      Vector3Obj \<lparr>x = 0, y = 0, z = 0\<rparr>]"

text \<open>
  A store with the scaling at reference 0 and six distinct Plane objects at the
  references 2 to 7 that all hold the Vector3 at reference 1 as their normal.
\<close>

definition ex_shared :: store where
  "ex_shared =
     [MatrixObj ex_scale, Vector3Obj \<lparr>x = 0, y = 0, z = 0\<rparr>,
      PlaneObj \<lparr>normal = 1, d = 0\<rparr>, PlaneObj \<lparr>normal = 1, d = 0\<rparr>,
      PlaneObj \<lparr>normal = 1, d = 0\<rparr>, PlaneObj \<lparr>normal = 1, d = 0\<rparr>,
      PlaneObj \<lparr>normal = 1, d = 0\<rparr>, PlaneObj \<lparr>normal = 1, d = 0\<rparr>]"

text \<open>
  A store with the six planes of the cube from -1 to 1 at the references 6 to 11 (their
  normals at the references 0 to 5), a seventh plane at reference 13 that rejects every
  point near the origin, the point (1, 0, 0) on the boundary at reference 14 and the
  point (2, 0, 0) outside at reference 15.
\<close>

definition ex_cube :: store where
  "ex_cube =
     [Vector3Obj \<lparr>x = 0, y = 0, z = 1\<rparr>, Vector3Obj \<lparr>x = 0, y = 0, z = - 1\<rparr>,
      Vector3Obj \<lparr>x = 1, y = 0, z = 0\<rparr>, Vector3Obj \<lparr>x = - 1, y = 0, z = 0\<rparr>,
      Vector3Obj \<lparr>x = 0, y = - 1, z = 0\<rparr>, Vector3Obj \<lparr>x = 0, y = 1, z = 0\<rparr>,
      PlaneObj \<lparr>normal = 0, d = 1\<rparr>, PlaneObj \<lparr>normal = 1, d = 1\<rparr>,
      PlaneObj \<lparr>normal = 2, d = 1\<rparr>, PlaneObj \<lparr>normal = 3, d = 1\<rparr>,
      PlaneObj \<lparr>normal = 4, d = 1\<rparr>, PlaneObj \<lparr>normal = 5, d = 1\<rparr>,
      Vector3Obj \<lparr>x = 0, y = 0, z = - 1\<rparr>, PlaneObj \<lparr>normal = 12, d = - 5\<rparr>,
      Vector3Obj \<lparr>x = 1, y = 0, z = 0\<rparr>, Vector3Obj \<lparr>x = 2, y = 0, z = 0\<rparr>]"

section \<open>Auxiliary facts\<close>

subsection \<open>Records, the store and arithmetic\<close>

lemma Plane_d_overwrite: "(p::Plane)\<lparr>d := e\<rparr> = \<lparr>normal = normal p, d = e\<rparr>"
  by (cases p) simp

lemma plane_value_overwrite:
  "(p::plane_value)\<lparr>normal_v := n, d_v := e\<rparr> = \<lparr>normal_v = n, d_v = e\<rparr>"
  by (cases p) simp

lemma Vector3_overwrite: "(v::Vector3)\<lparr>x := a, y := b, z := c\<rparr> = \<lparr>x = a, y = b, z = c\<rparr>"
  by (cases v) simp

lemma lookup_update:
  "lookup (h[r := v]) r' = (if r' = r \<and> r < length h then Some v else lookup h r')"
  by (auto simp: lookup_def)

lemma nth_update_if: "j < length xs \<Longrightarrow> xs[i := v] ! j = (if i = j then v else xs ! j)"
  by (simp add: nth_list_update)

lemma all_less_6: "(\<forall>i<6. P i) \<longleftrightarrow> P (0::nat) \<and> P 1 \<and> P 2 \<and> P 3 \<and> P 4 \<and> P 5"
proof -
  have "i < 6 \<longleftrightarrow> i = 0 \<or> i = 1 \<or> i = 2 \<or> i = 3 \<or> i = 4 \<or> i = 5" for i :: nat
    by presburger
  then show ?thesis by auto
qed

lemma is_MatrixD: "is_Matrix h t M \<Longrightarrow> get_Matrix h t = Inr M"
  by (simp add: is_Matrix_def get_Matrix_def)

text \<open>A Plane of the store, with the object it holds and the vector of its normal.\<close>

lemma is_Plane_iff:
  "is_Plane h p \<longleftrightarrow>
     (\<exists>pl n. lookup h p = Some (PlaneObj pl) \<and> lookup h (normal pl) = Some (Vector3Obj n))"
proof (cases "lookup h p")
  case None
  then show ?thesis by (simp add: is_Plane_def)
next
  case (Some v)
  show ?thesis
  proof (cases v)
    case (PlaneObj pl)
    show ?thesis
    proof (cases "lookup h (normal pl)")
      case None
      with Some PlaneObj show ?thesis by (simp add: is_Plane_def)
    next
      case inner: (Some w)
      with Some PlaneObj show ?thesis by (cases w) (simp_all add: is_Plane_def)
    qed
  qed (use Some in \<open>simp_all add: is_Plane_def\<close>)
qed

lemma is_PlaneE:
  assumes "is_Plane h p"
  obtains pl n where "lookup h p = Some (PlaneObj pl)" and "lookup h (normal pl) = Some (Vector3Obj n)"
    and "p < length h" and "normal pl < length h" and "normal pl \<noteq> p"
proof -
  from assms obtain pl n where 1: "lookup h p = Some (PlaneObj pl)"
    and 2: "lookup h (normal pl) = Some (Vector3Obj n)"
    unfolding is_Plane_iff by blast
  then have "p < length h" "normal pl < length h" "normal pl \<noteq> p"
    by (auto simp: lookup_def split: if_splits)
  with 1 2 that show ?thesis by blast
qed

lemma is_PlaneI:
  "lookup h p = Some (PlaneObj pl) \<Longrightarrow> lookup h (normal pl) = Some (Vector3Obj n) \<Longrightarrow> is_Plane h p"
  unfolding is_Plane_iff by blast

lemma and_then_Inr: "and_then (Inr v) f = f v"
  by (simp add: and_then_def)

lemma and_then_InrD: "and_then r f = Inr w \<Longrightarrow> \<exists>v. r = Inr v \<and> f v = Inr w"
  by (auto simp: and_then_def split: sum.splits)

lemma unit_after_scaling:
  fixes a b c :: real
  assumes "sqrt (a * a + b * b + c * c) \<noteq> 0"
  shows "sqrt (a / sqrt (a * a + b * b + c * c) * (a / sqrt (a * a + b * b + c * c)) +
               b / sqrt (a * a + b * b + c * c) * (b / sqrt (a * a + b * b + c * c)) +
               c / sqrt (a * a + b * b + c * c) * (c / sqrt (a * a + b * b + c * c))) = 1"
proof -
  define s where "s = a * a + b * b + c * c"
  have s0: "0 \<le> s" by (simp add: s_def)
  have nz: "s \<noteq> 0" using assms by (auto simp: s_def)
  have sq: "sqrt s * sqrt s = s" using s0 by simp
  have "a / sqrt s * (a / sqrt s) + b / sqrt s * (b / sqrt s) + c / sqrt s * (c / sqrt s)
      = (a * a + b * b + c * c) / (sqrt s * sqrt s)"
    by (simp add: add_divide_distrib)
  also have "\<dots> = 1" using nz by (simp only: sq) (simp add: s_def)
  finally show ?thesis by (simp add: s_def)
qed

subsection \<open>Normalization\<close>

lemma normalized_unit:
  assumes "Vector3_length (normal_v q) \<noteq> 0"
  shows "Vector3_length (normal_v (normalized q)) = 1"
  using assms unit_after_scaling [of "x (normal_v q)" "y (normal_v q)" "z (normal_v q)"]
  by (simp add: normalized_def Let_def Vector3_length_def)

lemma normalized_nonzero:
  assumes "Vector3_length (normal_v q) \<noteq> 0"
  shows "normalized q =
     plane_value (x (normal_v q) / Vector3_length (normal_v q))
       (y (normal_v q) / Vector3_length (normal_v q))
       (z (normal_v q) / Vector3_length (normal_v q))
       (d_v q / Vector3_length (normal_v q))"
  using assms by (simp add: normalized_def Let_def plane_value_def plane_value_overwrite)

lemma normalized_degenerate:
  assumes "Vector3_length (normal_v q) = 0"
  shows "normalized q = plane_value 0 0 0 0"
  using assms by (simp add: normalized_def plane_value_def plane_value_overwrite)

subsection \<open>Writing a plane\<close>

lemma put_plane_eq:
  assumes "lookup h p = Some (PlaneObj pl)"
  shows "put_plane p v h =
     h[normal pl := Vector3Obj (normal_v v), p := PlaneObj \<lparr>normal = normal pl, d = d_v v\<rparr>]"
  using assms by (simp add: put_plane_def Plane_d_overwrite)

lemma put_plane_writes: "put_plane p v h = apply_writes (plane_writes h p v) h"
  by (simp add: put_plane_def plane_writes_def Plane_d_overwrite split: option.splits obj.splits)

text \<open>The four assignments and the call of normalize, on a Plane of the store.\<close>

lemma assign_and_normalize:
  assumes "is_Plane h p"
  shows "and_then (set_normal_x p a h) (\<lambda>h1.
     and_then (set_normal_y p b h1) (\<lambda>h2.
     and_then (set_normal_z p c h2) (\<lambda>h3.
     and_then (set_d p e h3) (\<lambda>h4.
     Plane_normalize p h4)))) = Inr (put_plane p (normalized (plane_value a b c e)) h)"
proof -
  from assms obtain pl n where pl: "lookup h p = Some (PlaneObj pl)"
    and n: "lookup h (normal pl) = Some (Vector3Obj n)"
    and len: "p < length h" "normal pl < length h" and ne: "normal pl \<noteq> p"
    by (rule is_PlaneE)
  define h1 where "h1 = h[normal pl := Vector3Obj (n\<lparr>x := a\<rparr>)]"
  define h2 where "h2 = h1[normal pl := Vector3Obj (n\<lparr>x := a, y := b\<rparr>)]"
  define h3 where "h3 = h2[normal pl := Vector3Obj (n\<lparr>x := a, y := b, z := c\<rparr>)]"
  define h4 where "h4 = h3[p := PlaneObj (pl\<lparr>d := e\<rparr>)]"
  have s1: "set_normal_x p a h = Inr h1"
    using pl n by (simp add: set_normal_x_def get_Plane_def get_Vector3_def h1_def)
  have s2: "set_normal_y p b h1 = Inr h2"
    using pl n len ne
    by (simp add: set_normal_y_def get_Plane_def get_Vector3_def h1_def h2_def lookup_update)
  have s3: "set_normal_z p c h2 = Inr h3"
    using pl n len ne
    by (simp add: set_normal_z_def get_Plane_def get_Vector3_def h1_def h2_def h3_def lookup_update)
  have s4: "set_d p e h3 = Inr h4"
    using pl n len ne
    by (simp add: set_d_def get_Plane_def h1_def h2_def h3_def h4_def lookup_update)
  have s5: "Plane_normalize p h4 =
     Inr (h4[normal pl := Vector3Obj (normal_v (normalized (plane_value a b c e))),
             p := PlaneObj \<lparr>normal = normal pl, d = d_v (normalized (plane_value a b c e))\<rparr>])"
    using pl n len ne
    by (simp add: Plane_normalize_def get_Plane_def get_Vector3_def h1_def h2_def h3_def h4_def
        lookup_update plane_value_def Vector3_overwrite Plane_d_overwrite)
  have "h4[normal pl := Vector3Obj (normal_v (normalized (plane_value a b c e))),
           p := PlaneObj \<lparr>normal = normal pl, d = d_v (normalized (plane_value a b c e))\<rparr>]
      = put_plane p (normalized (plane_value a b c e)) h"
    unfolding put_plane_eq [OF pl] h1_def h2_def h3_def h4_def
    by (rule nth_equalityI) (simp_all add: nth_update_if)
  with s1 s2 s3 s4 s5 show ?thesis by (simp add: and_then_Inr)
qed

subsection \<open>Lists of writes\<close>

lemma length_apply_writes [simp]: "length (apply_writes ws h) = length h"
  by (induction ws arbitrary: h) simp_all

lemma apply_writes_append: "apply_writes (ws @ ws') h = apply_writes ws' (apply_writes ws h)"
  by (induction ws arbitrary: h) simp_all

text \<open>The last write to a reference decides what it holds.\<close>

lemma apply_writes_nth:
  "r < length h \<Longrightarrow>
   apply_writes ws h ! r = (case map_of (rev ws) r of Some v \<Rightarrow> v | None \<Rightarrow> h ! r)"
proof (induction ws arbitrary: h)
  case Nil
  then show ?case by simp
next
  case (Cons w ws)
  obtain u v where w: "w = (u, v)" by (cases w)
  from Cons.prems have "r < length (h[u := v])" by simp
  from Cons.IH [OF this] Cons.prems show ?case
    by (auto simp: w map_of_append map_add_def nth_update_if split: option.splits)
qed

lemma apply_writes_outside:
  assumes "r \<notin> fst ` set ws"
  shows "lookup (apply_writes ws h) r = lookup h r"
proof -
  have "map_of (rev ws) r = None"
    using assms by (simp add: map_of_eq_None_iff)
  then show ?thesis
    by (simp add: lookup_def apply_writes_nth)
qed

lemma apply_writes_member:
  assumes "r \<in> fst ` set ws" and "r < length h"
  shows "(r, apply_writes ws h ! r) \<in> set ws"
proof -
  from assms(1) obtain v where v: "map_of (rev ws) r = Some v"
    by (metis map_of_eq_None_iff not_None_eq set_rev)
  then have "(r, v) \<in> set ws" by (metis map_of_SomeD set_rev)
  with v assms(2) show ?thesis by (simp add: apply_writes_nth)
qed

lemma apply_writes_distinct:
  assumes "distinct (map fst ws)" and "(r, v) \<in> set ws" and "r < length h"
  shows "lookup (apply_writes ws h) r = Some v"
proof -
  have "distinct (map fst (rev ws))" using assms(1) by (simp add: rev_map [symmetric])
  moreover have "(r, v) \<in> set (rev ws)" using assms(2) by simp
  ultimately have "map_of (rev ws) r = Some v" by (rule map_of_is_SomeI)
  with assms(3) show ?thesis by (simp add: lookup_def apply_writes_nth)
qed

lemma apply_writes_idem: "apply_writes ws (apply_writes ws h) = apply_writes ws h"
  by (rule nth_equalityI) (simp_all add: apply_writes_nth split: option.splits)

lemma apply_writes_absorb:
  assumes "fst ` set ws' \<subseteq> fst ` set ws"
  shows "apply_writes ws (apply_writes ws' h) = apply_writes ws h"
proof (rule nth_equalityI)
  show "length (apply_writes ws (apply_writes ws' h)) = length (apply_writes ws h)" by simp
next
  fix r assume "r < length (apply_writes ws (apply_writes ws' h))"
  then have r: "r < length h" by simp
  show "apply_writes ws (apply_writes ws' h) ! r = apply_writes ws h ! r"
  proof (cases "map_of (rev ws) r")
    case None
    then have "r \<notin> fst ` set ws" by (simp add: map_of_eq_None_iff)
    with assms have "r \<notin> fst ` set ws'" by blast
    then have "map_of (rev ws') r = None" by (simp add: map_of_eq_None_iff)
    with None r show ?thesis by (simp add: apply_writes_nth)
  next
    case (Some v)
    with r show ?thesis by (simp add: apply_writes_nth)
  qed
qed

subsection \<open>The layout of a store\<close>

lemma layout_length: "layout h' = layout h \<Longrightarrow> length h' = length h"
  by (metis layout_def length_map)

lemma layout_nth: "layout h' = layout h \<Longrightarrow> r < length h \<Longrightarrow> kind_of (h' ! r) = kind_of (h ! r)"
  by (metis layout_def layout_length nth_map)

lemma kind_of_simps [simp]:
  "kind_of (PlaneObj p) = KPlane (normal p)" "kind_of (MatrixObj t) = KMatrix t"
  "kind_of (Vector3Obj n) = KVector"
  by (simp_all add: kind_of_def)

lemma kind_of_PlaneD: "kind_of v = KPlane n \<Longrightarrow> \<exists>p. v = PlaneObj p \<and> normal p = n"
  by (cases v) auto

lemma kind_of_MatrixD: "kind_of v = KMatrix t \<Longrightarrow> v = MatrixObj t"
  by (cases v) auto

lemma kind_of_VectorD: "kind_of v = KVector \<Longrightarrow> \<exists>n. v = Vector3Obj n"
  by (cases v) auto

lemma lookup_kind:
  assumes "layout h' = layout h"
  shows "map_option kind_of (lookup h' r) = map_option kind_of (lookup h r)"
  using layout_length [OF assms] layout_nth [OF assms] by (simp add: lookup_def)

lemma lookup_Plane_layout:
  assumes "layout h' = layout h" and "lookup h r = Some (PlaneObj p)"
  shows "\<exists>p'. lookup h' r = Some (PlaneObj p') \<and> normal p' = normal p"
  using lookup_kind [OF assms(1), of r] assms(2) by (auto dest: kind_of_PlaneD)

lemma lookup_Vector_layout:
  assumes "layout h' = layout h" and "lookup h r = Some (Vector3Obj n)"
  shows "\<exists>n'. lookup h' r = Some (Vector3Obj n')"
  using lookup_kind [OF assms(1), of r] assms(2) by (auto dest: kind_of_VectorD)

lemma is_Plane_layout_imp:
  assumes "layout h' = layout h" and "is_Plane h p"
  shows "is_Plane h' p"
proof -
  from assms(2) obtain pl n where "lookup h p = Some (PlaneObj pl)"
    and "lookup h (normal pl) = Some (Vector3Obj n)"
    by (rule is_PlaneE)
  with lookup_Plane_layout [OF assms(1)] lookup_Vector_layout [OF assms(1)]
  show ?thesis unfolding is_Plane_iff by metis
qed

lemma is_Plane_layout: "layout h' = layout h \<Longrightarrow> is_Plane h' p = is_Plane h p"
  using is_Plane_layout_imp [of h' h p] is_Plane_layout_imp [of h h' p] by auto

lemma get_Matrix_layout:
  assumes "layout h' = layout h"
  shows "get_Matrix h' t = get_Matrix h t"
proof -
  have "map_option kind_of (lookup h' t) = map_option kind_of (lookup h t)"
    using assms by (rule lookup_kind)
  then show ?thesis
    by (cases "lookup h' t"; cases "lookup h t")
       (auto simp: get_Matrix_def kind_of_def split: obj.splits)
qed

lemma storage_layout:
  assumes "layout h' = layout h"
  shows "storage h' r = storage h r"
proof -
  have "map_option kind_of (lookup h' r) = map_option kind_of (lookup h r)"
    using assms by (rule lookup_kind)
  then show ?thesis
    by (cases "lookup h' r"; cases "lookup h r")
       (auto simp: storage_def kind_of_def split: obj.splits)
qed

lemma plane_writes_layout:
  assumes "layout h' = layout h"
  shows "plane_writes h' r v = plane_writes h r v"
proof -
  have "map_option kind_of (lookup h' r) = map_option kind_of (lookup h r)"
    using assms by (rule lookup_kind)
  then show ?thesis
    by (cases "lookup h' r"; cases "lookup h r")
       (auto simp: plane_writes_def kind_of_def split: obj.splits)
qed

lemma six_planes_layout:
  assumes "layout h' = layout h"
  shows "six_planes h' a = six_planes h a"
proof -
  have "is_Plane h' = is_Plane h" by (rule ext) (rule is_Plane_layout [OF assms])
  then show ?thesis by (simp only: six_planes_def)
qed

lemma separate_layout:
  assumes "layout h' = layout h"
  shows "separate h' a = separate h a"
proof -
  have "storage h' = storage h" by (rule ext) (rule storage_layout [OF assms])
  then show ?thesis by (simp only: separate_def)
qed

lemma all_writes_layout:
  assumes "layout h' = layout h"
  shows "all_writes M h' a = all_writes M h a"
proof -
  have "plane_writes h' = plane_writes h" by (intro ext) (rule plane_writes_layout [OF assms])
  then show ?thesis by (simp only: all_writes_def)
qed

lemma referenced_layout:
  assumes "layout h' = layout h"
  shows "referenced h' r = referenced h r"
proof -
  have refs: "refs_of v = (case kind_of v of KPlane n \<Rightarrow> [n] | _ \<Rightarrow> [])" for v
    by (cases v) (simp_all add: refs_of_def)
  have "map refs_of h' = map refs_of h"
  proof (rule nth_equalityI)
    show "length (map refs_of h') = length (map refs_of h)"
      using layout_length [OF assms] by simp
  next
    fix i assume "i < length (map refs_of h')"
    then have "i < length h" "i < length h'" using layout_length [OF assms] by simp_all
    then show "map refs_of h' ! i = map refs_of h ! i"
      using layout_nth [OF assms, of i] by (simp add: refs)
  qed
  then have "list_ex (\<lambda>l. r \<in> set l) (map refs_of h') = list_ex (\<lambda>l. r \<in> set l) (map refs_of h)"
    by simp
  then show ?thesis by (simp add: referenced_def list_ex_iff)
qed

text \<open>Writes that keep the layout.\<close>

lemma layout_update:
  assumes "r < length h \<Longrightarrow> kind_of v = kind_of (h ! r)"
  shows "layout (h[r := v]) = layout h"
  using assms by (auto simp: layout_def list_eq_iff_nth_eq nth_update_if)

lemma layout_apply_writes:
  assumes "\<And>r v. (r, v) \<in> set ws \<Longrightarrow> r < length h \<Longrightarrow> kind_of v = kind_of (h ! r)"
  shows "layout (apply_writes ws h) = layout h"
  using assms
proof (induction ws arbitrary: h)
  case Nil
  then show ?case by simp
next
  case (Cons w ws)
  have 1: "layout (h[fst w := snd w]) = layout h"
    using Cons.prems [of "fst w" "snd w"] by (intro layout_update) simp
  have "layout (apply_writes ws (h[fst w := snd w])) = layout (h[fst w := snd w])"
  proof (rule Cons.IH)
    fix r v assume rv: "(r, v) \<in> set ws" and len: "r < length (h[fst w := snd w])"
    then have "kind_of v = kind_of (h ! r)" using Cons.prems [of r v] by simp
    moreover have "kind_of (h[fst w := snd w] ! r) = kind_of (h ! r)"
      using layout_nth [OF 1, of r] len by simp
    ultimately show "kind_of v = kind_of (h[fst w := snd w] ! r)" by simp
  qed
  with 1 show ?case by simp
qed

lemma plane_writes_kind:
  assumes "is_Plane h p" and "(r, v) \<in> set (plane_writes h p w)" and "r < length h"
  shows "kind_of v = kind_of (h ! r)"
proof -
  from assms(1) obtain pl n where "lookup h p = Some (PlaneObj pl)"
    and "lookup h (normal pl) = Some (Vector3Obj n)"
    by (rule is_PlaneE)
  with assms(2,3) show ?thesis
    by (auto simp: plane_writes_def lookup_def split: if_splits)
qed

lemma layout_put_plane: "is_Plane h p \<Longrightarrow> layout (put_plane p v h) = layout h"
  unfolding put_plane_writes by (rule layout_apply_writes) (rule plane_writes_kind)

subsection \<open>The six extractions in closed form\<close>

lemma set_normal_x_InrD: "set_normal_x p v h = Inr h' \<Longrightarrow> is_Plane h p"
  unfolding is_Plane_iff
  by (auto simp: set_normal_x_def get_Plane_def get_Vector3_def
      split: sum.splits option.splits obj.splits)

lemma length_put_plane [simp]: "length (put_plane p v h) = length h"
  by (simp add: put_plane_writes)

lemma plane_value_eta: "\<lparr>normal_v = normal_v v, d_v = d_v v\<rparr> = (v::plane_value)"
  by (cases v) simp

lemma plane_of_put_plane:
  assumes "is_Plane h p"
  shows "plane_of (put_plane p v h) p = v"
proof -
  from assms obtain pl n where 1: "lookup h p = Some (PlaneObj pl)"
    and 2: "lookup h (normal pl) = Some (Vector3Obj n)"
    and 3: "p < length h" "normal pl < length h" "normal pl \<noteq> p"
    by (rule is_PlaneE)
  show ?thesis
    using 3 by (simp add: put_plane_eq [OF 1] plane_of_def lookup_update plane_value_eta)
qed

lemma put_plane_outside:
  assumes "r \<notin> set (storage h p)"
  shows "lookup (put_plane p v h) r = lookup h r"
  using assms
  by (auto simp: put_plane_def storage_def lookup_update split: option.splits obj.splits)

lemma matrix_not_in_storage:
  assumes "get_Matrix h t = Inr M" and "is_Plane h p"
  shows "t \<notin> set (storage h p)"
proof -
  from assms(2) obtain pl n where 1: "lookup h p = Some (PlaneObj pl)"
    and 2: "lookup h (normal pl) = Some (Vector3Obj n)"
    by (rule is_PlaneE)
  from assms(1) have "lookup h t \<noteq> Some (PlaneObj pl)" "lookup h t \<noteq> Some (Vector3Obj n)"
    by (auto simp: get_Matrix_def)
  with 1 2 show ?thesis by (auto simp: storage_def)
qed

lemma map_fst_plane_writes: "map fst (plane_writes h p v) = map fst (plane_writes h p w)"
  by (simp add: plane_writes_def split: option.splits obj.splits)

lemma fst_plane_writes: "fst ` set (plane_writes h p v) = fst ` set (plane_writes h p w)"
  using map_fst_plane_writes [of h p v w] by (metis set_map)

lemma put_plane_absorb:
  assumes "is_Plane h p"
  shows "put_plane p v (put_plane p q h) = put_plane p v h"
proof -
  have "plane_writes (put_plane p q h) p v = plane_writes h p v"
    using assms by (intro plane_writes_layout layout_put_plane)
  moreover have "put_plane p v (put_plane p q h)
      = apply_writes (plane_writes (put_plane p q h) p v) (put_plane p q h)"
    by (rule put_plane_writes)
  ultimately have "put_plane p v (put_plane p q h)
      = apply_writes (plane_writes h p v) (apply_writes (plane_writes h p q) h)"
    by (simp add: put_plane_writes [of p q h])
  also have "\<dots> = apply_writes (plane_writes h p v) h"
    by (rule apply_writes_absorb) (simp add: fst_plane_writes [of h p q v])
  finally show ?thesis by (simp only: put_plane_writes [of p v h])
qed

lemma put_plane_idem: "is_Plane h p \<Longrightarrow> put_plane p v (put_plane p v h) = put_plane p v h"
  by (rule put_plane_absorb)

lemma GetNearPlaneToRef_eq:
  assumes "get_Matrix h t = Inr M" and "is_Plane h p"
  shows "GetNearPlaneToRef t p h = Inr (put_plane p (normalized (spec_near M)) h)"
  by (simp only: GetNearPlaneToRef_def assms(1) and_then_Inr assign_and_normalize [OF assms(2)]
      spec_near_def)

lemma GetNearPlaneToRef_InrD:
  assumes "GetNearPlaneToRef t p h = Inr h'"
  shows "\<exists>M. get_Matrix h t = Inr M \<and> is_Plane h p"
proof -
  from assms obtain M h1 where "get_Matrix h t = Inr M"
    and "set_normal_x p (m M ! 3 + m M ! 2) h = Inr h1"
    unfolding GetNearPlaneToRef_def by (blast dest!: and_then_InrD)
  then show ?thesis by (blast dest: set_normal_x_InrD)
qed

lemma GetFarPlaneToRef_eq:
  assumes "get_Matrix h t = Inr M" and "is_Plane h p"
  shows "GetFarPlaneToRef t p h = Inr (put_plane p (normalized (spec_far M)) h)"
  by (simp only: GetFarPlaneToRef_def assms(1) and_then_Inr assign_and_normalize [OF assms(2)]
      spec_far_def)

lemma GetFarPlaneToRef_InrD:
  assumes "GetFarPlaneToRef t p h = Inr h'"
  shows "\<exists>M. get_Matrix h t = Inr M \<and> is_Plane h p"
proof -
  from assms obtain M h1 where "get_Matrix h t = Inr M"
    and "set_normal_x p (m M ! 3 - m M ! 2) h = Inr h1"
    unfolding GetFarPlaneToRef_def by (blast dest!: and_then_InrD)
  then show ?thesis by (blast dest: set_normal_x_InrD)
qed

lemma GetLeftPlaneToRef_eq:
  assumes "get_Matrix h t = Inr M" and "is_Plane h p"
  shows "GetLeftPlaneToRef t p h = Inr (put_plane p (normalized (spec_left M)) h)"
  by (simp only: GetLeftPlaneToRef_def assms(1) and_then_Inr assign_and_normalize [OF assms(2)]
      spec_left_def)

lemma GetLeftPlaneToRef_InrD:
  assumes "GetLeftPlaneToRef t p h = Inr h'"
  shows "\<exists>M. get_Matrix h t = Inr M \<and> is_Plane h p"
proof -
  from assms obtain M h1 where "get_Matrix h t = Inr M"
    and "set_normal_x p (m M ! 3 + m M ! 0) h = Inr h1"
    unfolding GetLeftPlaneToRef_def by (blast dest!: and_then_InrD)
  then show ?thesis by (blast dest: set_normal_x_InrD)
qed

lemma GetRightPlaneToRef_eq:
  assumes "get_Matrix h t = Inr M" and "is_Plane h p"
  shows "GetRightPlaneToRef t p h = Inr (put_plane p (normalized (spec_right M)) h)"
  by (simp only: GetRightPlaneToRef_def assms(1) and_then_Inr assign_and_normalize [OF assms(2)]
      spec_right_def)

lemma GetRightPlaneToRef_InrD:
  assumes "GetRightPlaneToRef t p h = Inr h'"
  shows "\<exists>M. get_Matrix h t = Inr M \<and> is_Plane h p"
proof -
  from assms obtain M h1 where "get_Matrix h t = Inr M"
    and "set_normal_x p (m M ! 3 - m M ! 0) h = Inr h1"
    unfolding GetRightPlaneToRef_def by (blast dest!: and_then_InrD)
  then show ?thesis by (blast dest: set_normal_x_InrD)
qed

lemma GetTopPlaneToRef_eq:
  assumes "get_Matrix h t = Inr M" and "is_Plane h p"
  shows "GetTopPlaneToRef t p h = Inr (put_plane p (normalized (spec_top M)) h)"
  by (simp only: GetTopPlaneToRef_def assms(1) and_then_Inr assign_and_normalize [OF assms(2)]
      spec_top_def)

lemma GetTopPlaneToRef_InrD:
  assumes "GetTopPlaneToRef t p h = Inr h'"
  shows "\<exists>M. get_Matrix h t = Inr M \<and> is_Plane h p"
proof -
  from assms obtain M h1 where "get_Matrix h t = Inr M"
    and "set_normal_x p (m M ! 3 - m M ! 1) h = Inr h1"
    unfolding GetTopPlaneToRef_def by (blast dest!: and_then_InrD)
  then show ?thesis by (blast dest: set_normal_x_InrD)
qed

lemma GetBottomPlaneToRef_eq:
  assumes "get_Matrix h t = Inr M" and "is_Plane h p"
  shows "GetBottomPlaneToRef t p h = Inr (put_plane p (normalized (spec_bottom M)) h)"
  by (simp only: GetBottomPlaneToRef_def assms(1) and_then_Inr assign_and_normalize [OF assms(2)]
      spec_bottom_def)

lemma GetBottomPlaneToRef_InrD:
  assumes "GetBottomPlaneToRef t p h = Inr h'"
  shows "\<exists>M. get_Matrix h t = Inr M \<and> is_Plane h p"
proof -
  from assms obtain M h1 where "get_Matrix h t = Inr M"
    and "set_normal_x p (m M ! 3 + m M ! 1) h = Inr h1"
    unfolding GetBottomPlaneToRef_def by (blast dest!: and_then_InrD)
  then show ?thesis by (blast dest: set_normal_x_InrD)
qed

subsection \<open>The six extractions in sequence\<close>

lemma with_slot_eq: "i < length a \<Longrightarrow> with_slot a i f h = f (a ! i) h"
  by (simp add: with_slot_def slot_def)

lemma with_slot_InrD: "with_slot a i f h = Inr h' \<Longrightarrow> i < length a \<and> f (a ! i) h = Inr h'"
  by (auto simp: with_slot_def slot_def split: if_splits)

lemma six_planes_nth: "six_planes h a \<Longrightarrow> i < 6 \<Longrightarrow> is_Plane h (a ! i)"
  by (simp add: six_planes_def list_all_length)

lemma six_planesD:
  assumes "six_planes h a"
  shows "6 \<le> length a" and "is_Plane h (a ! 0)" and "is_Plane h (a ! 1)" and "is_Plane h (a ! 2)"
    and "is_Plane h (a ! 3)" and "is_Plane h (a ! 4)" and "is_Plane h (a ! 5)"
proof -
  show len: "6 \<le> length a" using assms by (simp add: six_planes_def)
  have "\<And>i. i < 6 \<Longrightarrow> is_Plane h (a ! i)"
    using assms by (rule six_planes_nth)
  then show "is_Plane h (a ! 0)" and "is_Plane h (a ! 1)" and "is_Plane h (a ! 2)"
    and "is_Plane h (a ! 3)" and "is_Plane h (a ! 4)" and "is_Plane h (a ! 5)"
    by simp_all
qed

lemma six_planesI:
  assumes "6 \<le> length a" and "is_Plane h (a ! 0)" and "is_Plane h (a ! 1)" and "is_Plane h (a ! 2)"
    and "is_Plane h (a ! 3)" and "is_Plane h (a ! 4)" and "is_Plane h (a ! 5)"
  shows "six_planes h a"
proof -
  have "\<forall>i<6. is_Plane h (a ! i)"
    using assms(2-) by (simp add: all_less_6)
  then show ?thesis
    using assms(1) by (simp add: six_planes_def list_all_length)
qed

lemma upt_6: "[0..<6] = [0, 1, 2, 3, 4, 5]"
  by (simp add: upt_rec)

lemma take_6:
  assumes "6 \<le> length a"
  shows "take 6 a = map ((!) a) [0..<6]"
  using assms by (intro nth_equalityI) simp_all

lemma all_writes_unfold:
  "all_writes M h a =
     plane_writes h (a ! 0) (normalized (spec_near M)) @
     plane_writes h (a ! 1) (normalized (spec_far M)) @
     plane_writes h (a ! 2) (normalized (spec_left M)) @
     plane_writes h (a ! 3) (normalized (spec_right M)) @
     plane_writes h (a ! 4) (normalized (spec_top M)) @
     plane_writes h (a ! 5) (normalized (spec_bottom M))"
  by (simp add: all_writes_def upt_6 planes_table_def)

lemma all_writes_member:
  "(r, v) \<in> set (all_writes M h a) \<longleftrightarrow>
     (\<exists>i<6. (r, v) \<in> set (plane_writes h (a ! i) (planes_table M ! i)))"
  by (auto simp: all_writes_def)

lemma layout_write_all:
  assumes "six_planes h a"
  shows "layout (write_all M a h) = layout h"
  unfolding write_all_def
proof (rule layout_apply_writes)
  fix r v assume "(r, v) \<in> set (all_writes M h a)" and r: "r < length h"
  then obtain i where "i < 6" and "(r, v) \<in> set (plane_writes h (a ! i) (planes_table M ! i))"
    unfolding all_writes_member by blast
  with six_planes_nth [OF assms] r show "kind_of v = kind_of (h ! r)"
    by (blast intro: plane_writes_kind)
qed

lemma length_write_all [simp]: "length (write_all M a h) = length h"
  by (simp add: write_all_def)

lemma GetPlanesToRef_eq:
  assumes M: "get_Matrix h t = Inr M" and a: "six_planes h a"
  shows "GetPlanesToRef t a h = Inr (write_all M a h)"
proof -
  note P = six_planesD [OF a]
  have len: "(0::nat) < length a" "(1::nat) < length a" "(2::nat) < length a"
    "(3::nat) < length a" "(4::nat) < length a" "(5::nat) < length a"
    using P(1) by auto
  define h1 where "h1 = put_plane (a ! 0) (normalized (spec_near M)) h"
  define h2 where "h2 = put_plane (a ! 1) (normalized (spec_far M)) h1"
  define h3 where "h3 = put_plane (a ! 2) (normalized (spec_left M)) h2"
  define h4 where "h4 = put_plane (a ! 3) (normalized (spec_right M)) h3"
  define h5 where "h5 = put_plane (a ! 4) (normalized (spec_top M)) h4"
  define h6 where "h6 = put_plane (a ! 5) (normalized (spec_bottom M)) h5"
  have L1: "layout h1 = layout h"
    unfolding h1_def using P(2) by (rule layout_put_plane)
  have L2: "layout h2 = layout h"
    unfolding h2_def using P(3) L1 by (simp add: layout_put_plane is_Plane_layout [OF L1])
  have L3: "layout h3 = layout h"
    unfolding h3_def using P(4) L2 by (simp add: layout_put_plane is_Plane_layout [OF L2])
  have L4: "layout h4 = layout h"
    unfolding h4_def using P(5) L3 by (simp add: layout_put_plane is_Plane_layout [OF L3])
  have L5: "layout h5 = layout h"
    unfolding h5_def using P(6) L4 by (simp add: layout_put_plane is_Plane_layout [OF L4])
  have s1: "with_slot a 0 (GetNearPlaneToRef t) h = Inr h1"
    using GetNearPlaneToRef_eq [OF M P(2)] by (simp only: with_slot_eq [OF len(1)] h1_def)
  have s2: "with_slot a 1 (GetFarPlaneToRef t) h1 = Inr h2"
    using GetFarPlaneToRef_eq [of h1 t M "a ! 1"] M P(3)
    by (simp only: with_slot_eq [OF len(2)] h2_def get_Matrix_layout [OF L1]
        is_Plane_layout [OF L1])
  have s3: "with_slot a 2 (GetLeftPlaneToRef t) h2 = Inr h3"
    using GetLeftPlaneToRef_eq [of h2 t M "a ! 2"] M P(4)
    by (simp only: with_slot_eq [OF len(3)] h3_def get_Matrix_layout [OF L2]
        is_Plane_layout [OF L2])
  have s4: "with_slot a 3 (GetRightPlaneToRef t) h3 = Inr h4"
    using GetRightPlaneToRef_eq [of h3 t M "a ! 3"] M P(5)
    by (simp only: with_slot_eq [OF len(4)] h4_def get_Matrix_layout [OF L3]
        is_Plane_layout [OF L3])
  have s5: "with_slot a 4 (GetTopPlaneToRef t) h4 = Inr h5"
    using GetTopPlaneToRef_eq [of h4 t M "a ! 4"] M P(6)
    by (simp only: with_slot_eq [OF len(5)] h5_def get_Matrix_layout [OF L4]
        is_Plane_layout [OF L4])
  have s6: "with_slot a 5 (GetBottomPlaneToRef t) h5 = Inr h6"
    using GetBottomPlaneToRef_eq [of h5 t M "a ! 5"] M P(7)
    by (simp only: with_slot_eq [OF len(6)] h6_def get_Matrix_layout [OF L5]
        is_Plane_layout [OF L5])
  have "GetPlanesToRef t a h = Inr h6"
    unfolding GetPlanesToRef_def by (simp only: s1 s2 s3 s4 s5 s6 and_then_Inr)
  moreover have "h6 = write_all M a h"
    unfolding write_all_def all_writes_unfold apply_writes_append
    unfolding h6_def put_plane_writes [of _ _ h5] plane_writes_layout [OF L5]
    unfolding h5_def put_plane_writes [of _ _ h4] plane_writes_layout [OF L4]
    unfolding h4_def put_plane_writes [of _ _ h3] plane_writes_layout [OF L3]
    unfolding h3_def put_plane_writes [of _ _ h2] plane_writes_layout [OF L2]
    unfolding h2_def put_plane_writes [of _ _ h1] plane_writes_layout [OF L1]
    unfolding h1_def put_plane_writes [of _ _ h]
    by (rule refl)
  ultimately show ?thesis by simp
qed

lemma GetPlanesToRef_InrD:
  assumes "GetPlanesToRef t a h = Inr h'"
  shows "\<exists>M. get_Matrix h t = Inr M \<and> six_planes h a \<and> h' = write_all M a h"
proof -
  from assms obtain h1 h2 h3 h4 h5 where
    s1: "with_slot a 0 (GetNearPlaneToRef t) h = Inr h1" and
    s2: "with_slot a 1 (GetFarPlaneToRef t) h1 = Inr h2" and
    s3: "with_slot a 2 (GetLeftPlaneToRef t) h2 = Inr h3" and
    s4: "with_slot a 3 (GetRightPlaneToRef t) h3 = Inr h4" and
    s5: "with_slot a 4 (GetTopPlaneToRef t) h4 = Inr h5" and
    s6: "with_slot a 5 (GetBottomPlaneToRef t) h5 = Inr h'"
    unfolding GetPlanesToRef_def by (blast dest!: and_then_InrD)
  from with_slot_InrD [OF s1] obtain M where M: "get_Matrix h t = Inr M" and p0: "is_Plane h (a ! 0)"
    using GetNearPlaneToRef_InrD by blast
  have e1: "h1 = put_plane (a ! 0) (normalized (spec_near M)) h"
    using with_slot_InrD [OF s1] GetNearPlaneToRef_eq [OF M p0] by simp
  have L1: "layout h1 = layout h"
    unfolding e1 using p0 by (rule layout_put_plane)
  have p1: "is_Plane h1 (a ! 1)" and M1: "get_Matrix h1 t = Inr M"
    using with_slot_InrD [OF s2] GetFarPlaneToRef_InrD [of t "a ! 1" h1 h2] M
    by (simp_all add: get_Matrix_layout [OF L1])
  have e2: "h2 = put_plane (a ! 1) (normalized (spec_far M)) h1"
    using with_slot_InrD [OF s2] GetFarPlaneToRef_eq [OF M1 p1] by simp
  have L2: "layout h2 = layout h"
    unfolding e2 using p1 L1 by (simp add: layout_put_plane)
  have p2: "is_Plane h2 (a ! 2)" and M2: "get_Matrix h2 t = Inr M"
    using with_slot_InrD [OF s3] GetLeftPlaneToRef_InrD [of t "a ! 2" h2 h3] M
    by (simp_all add: get_Matrix_layout [OF L2])
  have e3: "h3 = put_plane (a ! 2) (normalized (spec_left M)) h2"
    using with_slot_InrD [OF s3] GetLeftPlaneToRef_eq [OF M2 p2] by simp
  have L3: "layout h3 = layout h"
    unfolding e3 using p2 L2 by (simp add: layout_put_plane)
  have p3: "is_Plane h3 (a ! 3)" and M3: "get_Matrix h3 t = Inr M"
    using with_slot_InrD [OF s4] GetRightPlaneToRef_InrD [of t "a ! 3" h3 h4] M
    by (simp_all add: get_Matrix_layout [OF L3])
  have e4: "h4 = put_plane (a ! 3) (normalized (spec_right M)) h3"
    using with_slot_InrD [OF s4] GetRightPlaneToRef_eq [OF M3 p3] by simp
  have L4: "layout h4 = layout h"
    unfolding e4 using p3 L3 by (simp add: layout_put_plane)
  have p4: "is_Plane h4 (a ! 4)" and M4: "get_Matrix h4 t = Inr M"
    using with_slot_InrD [OF s5] GetTopPlaneToRef_InrD [of t "a ! 4" h4 h5] M
    by (simp_all add: get_Matrix_layout [OF L4])
  have e5: "h5 = put_plane (a ! 4) (normalized (spec_top M)) h4"
    using with_slot_InrD [OF s5] GetTopPlaneToRef_eq [OF M4 p4] by simp
  have L5: "layout h5 = layout h"
    unfolding e5 using p4 L4 by (simp add: layout_put_plane)
  have p5: "is_Plane h5 (a ! 5)"
    using with_slot_InrD [OF s6] GetBottomPlaneToRef_InrD [of t "a ! 5" h5 h'] by simp
  have "5 < length a" using with_slot_InrD [OF s6] by simp
  then have "6 \<le> length a" by simp
  then have six: "six_planes h a"
    using p0 p1 p2 p3 p4 p5
    by (intro six_planesI)
       (simp_all only: is_Plane_layout [OF L1] is_Plane_layout [OF L2] is_Plane_layout [OF L3]
          is_Plane_layout [OF L4] is_Plane_layout [OF L5])
  with M assms show ?thesis by (simp add: GetPlanesToRef_eq)
qed

subsection \<open>The store after the six extractions\<close>

lemma six_planes_write_all:
  "six_planes h a \<Longrightarrow> six_planes (write_all M a h) b = six_planes h b"
  by (intro six_planes_layout layout_write_all)

lemma write_all_idem:
  assumes "six_planes h a"
  shows "write_all M a (write_all M a h) = write_all M a h"
proof -
  have "all_writes M (write_all M a h) a = all_writes M h a"
    using assms by (intro all_writes_layout layout_write_all)
  then show ?thesis
    by (simp add: write_all_def apply_writes_idem)
qed

lemma keys_plane_writes:
  assumes "is_Plane h p"
  shows "map fst (plane_writes h p v) = storage h p"
proof -
  from assms obtain pl n where "lookup h p = Some (PlaneObj pl)" by (rule is_PlaneE)
  then show ?thesis by (simp add: plane_writes_def storage_def)
qed

lemma keys_all_writes:
  assumes "six_planes h a"
  shows "map fst (all_writes M h a) = concat (map (storage h) (take 6 a))"
proof -
  note P = six_planesD [OF assms]
  show ?thesis
    unfolding all_writes_unfold take_6 [OF P(1)] upt_6
    using P(2-) by (simp add: keys_plane_writes)
qed

lemma storage_in_slots:
  assumes "six_planes h a" and "i < 6"
  shows "set (storage h (a ! i)) \<subseteq> set (concat (map (storage h) (take 6 a)))"
proof -
  have "6 \<le> length a" using assms(1) by (simp add: six_planes_def)
  then have "a ! i \<in> set (take 6 a)"
    using assms(2) by (simp add: take_6)
  then show ?thesis by auto
qed

lemma write_all_prior:
  assumes "six_planes h a" and "i < 6"
  shows "write_all M a (put_plane (a ! i) q h) = write_all M a h"
proof -
  have p: "is_Plane h (a ! i)" using assms by (rule six_planes_nth)
  have L: "layout (put_plane (a ! i) q h) = layout h"
    using p by (rule layout_put_plane)
  have "fst ` set (plane_writes h (a ! i) q) \<subseteq> fst ` set (all_writes M h a)"
    using storage_in_slots [OF assms] keys_plane_writes [OF p, of q]
      keys_all_writes [OF assms(1), of M]
    by (metis set_map)
  then have "apply_writes (all_writes M h a) (apply_writes (plane_writes h (a ! i) q) h)
      = apply_writes (all_writes M h a) h"
    by (rule apply_writes_absorb)
  moreover have "write_all M a (put_plane (a ! i) q h)
      = apply_writes (all_writes M h a) (put_plane (a ! i) q h)"
    by (simp only: write_all_def all_writes_layout [OF L])
  ultimately show ?thesis
    by (simp only: write_all_def put_plane_writes [of "a ! i" q h])
qed

lemma write_all_outside:
  assumes "six_planes h a" and "r \<notin> set (concat (map (storage h) (take 6 a)))"
  shows "lookup (write_all M a h) r = lookup h r"
proof -
  have "r \<notin> fst ` set (all_writes M h a)"
    using assms(2) keys_all_writes [OF assms(1), of M] by (metis set_map)
  then show ?thesis unfolding write_all_def by (rule apply_writes_outside)
qed

lemma get_Matrix_write_all:
  "six_planes h a \<Longrightarrow> get_Matrix (write_all M a h) t = get_Matrix h t"
  by (intro get_Matrix_layout layout_write_all)

lemma matrix_not_in_slots:
  assumes "get_Matrix h t = Inr M" and "six_planes h a"
  shows "t \<notin> set (concat (map (storage h) (take 6 a)))"
proof
  assume "t \<in> set (concat (map (storage h) (take 6 a)))"
  then obtain p where "p \<in> set (take 6 a)" and t: "t \<in> set (storage h p)" by auto
  then have "is_Plane h p" using assms(2) by (simp add: six_planes_def list_all_iff)
  with matrix_not_in_storage [OF assms(1)] t show False by blast
qed

text \<open>
  Separate planes: each slot holds its own table entry after the six extractions.
\<close>

lemma write_all_slot:
  assumes six: "six_planes h a" and sep: "separate h a" and i: "i < 6"
  shows "plane_of (write_all M a h) (a ! i) = planes_table M ! i"
proof -
  have p: "is_Plane h (a ! i)" using six i by (rule six_planes_nth)
  then obtain pl n where 1: "lookup h (a ! i) = Some (PlaneObj pl)"
    and 3: "a ! i < length h" "normal pl < length h"
    by (rule is_PlaneE)
  have d: "distinct (map fst (all_writes M h a))"
    using sep by (simp add: keys_all_writes [OF six] separate_def)
  have w: "set (plane_writes h (a ! i) (planes_table M ! i)) \<subseteq> set (all_writes M h a)"
    using i by (auto simp: all_writes_def)
  have "(normal pl, Vector3Obj (normal_v (planes_table M ! i))) \<in> set (all_writes M h a)"
    using w by (simp add: plane_writes_def 1)
  from apply_writes_distinct [OF d this 3(2)]
  have n: "lookup (write_all M a h) (normal pl) = Some (Vector3Obj (normal_v (planes_table M ! i)))"
    by (simp add: write_all_def)
  have "(a ! i, PlaneObj \<lparr>normal = normal pl, d = d_v (planes_table M ! i)\<rparr>) \<in> set (all_writes M h a)"
    using w by (simp add: plane_writes_def 1)
  from apply_writes_distinct [OF d this 3(1)]
  have "lookup (write_all M a h) (a ! i)
      = Some (PlaneObj \<lparr>normal = normal pl, d = d_v (planes_table M ! i)\<rparr>)"
    by (simp add: write_all_def)
  with n show ?thesis by (simp add: plane_of_def plane_value_eta)
qed

lemma write_all_slots:
  assumes "six_planes h a" and "separate h a"
  shows "plane_of (write_all M a h) (a ! 0) = normalized (spec_near M)"
    and "plane_of (write_all M a h) (a ! 1) = normalized (spec_far M)"
    and "plane_of (write_all M a h) (a ! 2) = normalized (spec_left M)"
    and "plane_of (write_all M a h) (a ! 3) = normalized (spec_right M)"
    and "plane_of (write_all M a h) (a ! 4) = normalized (spec_top M)"
    and "plane_of (write_all M a h) (a ! 5) = normalized (spec_bottom M)"
  using write_all_slot [OF assms, of 0 M] write_all_slot [OF assms, of 1 M]
    write_all_slot [OF assms, of 2 M] write_all_slot [OF assms, of 3 M]
    write_all_slot [OF assms, of 4 M] write_all_slot [OF assms, of 5 M]
  by (simp_all add: planes_table_def)

text \<open>
  Without separation a slot still holds the normal of one table entry and the offset of
  one table entry: every object of a written plane holds what the last extraction that
  reached it wrote.
\<close>

lemma write_all_slot_cases:
  assumes six: "six_planes h a" and i: "i < 6"
  shows "\<exists>j<6. \<exists>k<6. plane_of (write_all M a h) (a ! i)
     = \<lparr>normal_v = normal_v (planes_table M ! j), d_v = d_v (planes_table M ! k)\<rparr>"
proof -
  have p: "is_Plane h (a ! i)" using six i by (rule six_planes_nth)
  then obtain pl n where 1: "lookup h (a ! i) = Some (PlaneObj pl)"
    and 2: "lookup h (normal pl) = Some (Vector3Obj n)"
    and 3: "a ! i < length h" "normal pl < length h"
    by (rule is_PlaneE)
  have keys: "fst ` set (all_writes M h a) = set (concat (map (storage h) (take 6 a)))"
    using keys_all_writes [OF six, of M] by (metis set_map)
  have in_keys: "a ! i \<in> fst ` set (all_writes M h a)" "normal pl \<in> fst ` set (all_writes M h a)"
    using storage_in_slots [OF six i] 1 unfolding keys by (auto simp: storage_def)
  have written: "\<exists>j<6. (\<exists>q. lookup h (a ! j) = Some (PlaneObj q) \<and>
        (r = normal q \<and> v = Vector3Obj (normal_v (planes_table M ! j)) \<or>
         r = a ! j \<and> v = PlaneObj \<lparr>normal = normal q, d = d_v (planes_table M ! j)\<rparr>))"
    if "(r, v) \<in> set (all_writes M h a)" for r v
  proof -
    from that obtain j where j: "j < 6"
      and "(r, v) \<in> set (plane_writes h (a ! j) (planes_table M ! j))"
      unfolding all_writes_member by blast
    moreover obtain q where "lookup h (a ! j) = Some (PlaneObj q)"
      using six_planes_nth [OF six j] by (rule is_PlaneE)
    ultimately show ?thesis by (auto simp: plane_writes_def)
  qed
  from apply_writes_member [OF in_keys(1) 3(1)] written
  obtain k q where k: "k < 6" and q: "lookup h (a ! k) = Some (PlaneObj q)"
    and "a ! i = normal q \<and> apply_writes (all_writes M h a) h ! (a ! i)
           = Vector3Obj (normal_v (planes_table M ! k)) \<or>
         a ! i = a ! k \<and> apply_writes (all_writes M h a) h ! (a ! i)
           = PlaneObj \<lparr>normal = normal q, d = d_v (planes_table M ! k)\<rparr>"
    by blast
  moreover have "a ! i \<noteq> normal q"
  proof -
    obtain n' where "lookup h (normal q) = Some (Vector3Obj n')"
      using six_planes_nth [OF six k] q by (auto elim!: is_PlaneE)
    with 1 show ?thesis by auto
  qed
  ultimately have eq: "a ! i = a ! k"
    and "apply_writes (all_writes M h a) h ! (a ! i)
           = PlaneObj \<lparr>normal = normal q, d = d_v (planes_table M ! k)\<rparr>"
    by auto
  moreover have "normal q = normal pl" using q 1 eq by simp
  ultimately have P: "lookup (write_all M a h) (a ! i)
      = Some (PlaneObj \<lparr>normal = normal pl, d = d_v (planes_table M ! k)\<rparr>)"
    using 3(1) by (simp add: lookup_def write_all_def)
  from apply_writes_member [OF in_keys(2) 3(2)] written
  obtain j q' where j: "j < 6" and q': "lookup h (a ! j) = Some (PlaneObj q')"
    and "normal pl = normal q' \<and> apply_writes (all_writes M h a) h ! (normal pl)
           = Vector3Obj (normal_v (planes_table M ! j)) \<or>
         normal pl = a ! j \<and> apply_writes (all_writes M h a) h ! (normal pl)
           = PlaneObj \<lparr>normal = normal q', d = d_v (planes_table M ! j)\<rparr>"
    by blast
  moreover have "normal pl \<noteq> a ! j" using q' 2 by auto
  ultimately have "apply_writes (all_writes M h a) h ! (normal pl)
           = Vector3Obj (normal_v (planes_table M ! j))"
    by auto
  then have "lookup (write_all M a h) (normal pl)
      = Some (Vector3Obj (normal_v (planes_table M ! j)))"
    using 3(2) by (simp add: lookup_def write_all_def)
  with P have "plane_of (write_all M a h) (a ! i)
     = \<lparr>normal_v = normal_v (planes_table M ! j), d_v = d_v (planes_table M ! k)\<rparr>"
    by (simp add: plane_of_def)
  with j k show ?thesis by blast
qed

lemma planes_table_unit:
  assumes "nondegenerate M" and "j < 6"
  shows "Vector3_length (normal_v (planes_table M ! j)) = 1"
proof -
  have "\<forall>j<6. Vector3_length (normal_v (planes_table M ! j)) = 1"
    using assms(1) unfolding all_less_6
    by (simp add: planes_table_def nondegenerate_def normalized_unit)
  with assms(2) show ?thesis by blast
qed

lemma write_all_unit:
  assumes "six_planes h a" and "nondegenerate M" and "i < 6"
  shows "Vector3_length (normal_v (plane_of (write_all M a h) (a ! i))) = 1"
proof -
  from write_all_slot_cases [OF assms(1,3), of M] obtain j k where "j < 6"
    and "plane_of (write_all M a h) (a ! i)
     = \<lparr>normal_v = normal_v (planes_table M ! j), d_v = d_v (planes_table M ! k)\<rparr>"
    by blast
  then show ?thesis by (simp add: planes_table_unit [OF assms(2)])
qed

lemma referenced_write_all:
  "six_planes h a \<Longrightarrow> referenced (write_all M a h) r = referenced h r"
  by (intro referenced_layout layout_write_all)

lemma referenced_put_plane:
  "is_Plane h p \<Longrightarrow> referenced (put_plane p v h) r = referenced h r"
  by (intro referenced_layout layout_put_plane)


subsection \<open>Allocation\<close>

lemma GetPlanes_loop_eq:
  "GetPlanes_loop 0 [] h =
     ([length h + 1, length h + 3, length h + 5, length h + 7, length h + 9, length h + 11],
      h @ [Vector3Obj \<lparr>x = 0, y = 0, z = 0\<rparr>, PlaneObj \<lparr>normal = length h, d = 0\<rparr>,
           Vector3Obj \<lparr>x = 0, y = 0, z = 0\<rparr>, PlaneObj \<lparr>normal = length h + 2, d = 0\<rparr>,
           Vector3Obj \<lparr>x = 0, y = 0, z = 0\<rparr>, PlaneObj \<lparr>normal = length h + 4, d = 0\<rparr>,
           Vector3Obj \<lparr>x = 0, y = 0, z = 0\<rparr>, PlaneObj \<lparr>normal = length h + 6, d = 0\<rparr>,
           Vector3Obj \<lparr>x = 0, y = 0, z = 0\<rparr>, PlaneObj \<lparr>normal = length h + 8, d = 0\<rparr>,
           Vector3Obj \<lparr>x = 0, y = 0, z = 0\<rparr>, PlaneObj \<lparr>normal = length h + 10, d = 0\<rparr>])"
  by (simp add: GetPlanes_loop.simps new_Plane_def numeral_eq_Suc)

lemma get_Matrix_append:
  assumes "\<And>M. MatrixObj M \<notin> set xs"
  shows "get_Matrix (h @ xs) t = get_Matrix h t"
proof (cases "t < length h")
  case True
  then show ?thesis by (simp add: get_Matrix_def lookup_def nth_append)
next
  case False
  show ?thesis
  proof (cases "t < length (h @ xs)")
    case True
    with False have "xs ! (t - length h) \<in> set xs" by simp
    with assms have "\<And>M. xs ! (t - length h) \<noteq> MatrixObj M" by metis
    with True False show ?thesis
      by (simp add: get_Matrix_def lookup_def nth_append split: obj.splits)
  next
    case False
    then show ?thesis by (simp add: get_Matrix_def lookup_def)
  qed
qed

lemma lookup_eq_nth: "lookup h' r = lookup h r \<Longrightarrow> r < length h \<Longrightarrow> h' ! r = h ! r"
  by (simp add: lookup_def split: if_splits)

lemma referenced_append: "referenced (h @ xs) r \<longleftrightarrow> referenced h r \<or> referenced xs r"
  by (simp add: referenced_def)

lemma closed_referenced: "closed h \<Longrightarrow> referenced h r \<Longrightarrow> r < length h"
  by (auto simp: closed_def referenced_def list_all_iff list_ex_iff)


text \<open>The store and the sequence after the six allocations of GetPlanes.\<close>

lemma fresh_six_planes:
  "six_planes (h @ [Vector3Obj \<lparr>x = 0, y = 0, z = 0\<rparr>, PlaneObj \<lparr>normal = length h, d = 0\<rparr>,
           Vector3Obj \<lparr>x = 0, y = 0, z = 0\<rparr>, PlaneObj \<lparr>normal = length h + 2, d = 0\<rparr>,
           Vector3Obj \<lparr>x = 0, y = 0, z = 0\<rparr>, PlaneObj \<lparr>normal = length h + 4, d = 0\<rparr>,
           Vector3Obj \<lparr>x = 0, y = 0, z = 0\<rparr>, PlaneObj \<lparr>normal = length h + 6, d = 0\<rparr>,
           Vector3Obj \<lparr>x = 0, y = 0, z = 0\<rparr>, PlaneObj \<lparr>normal = length h + 8, d = 0\<rparr>,
           Vector3Obj \<lparr>x = 0, y = 0, z = 0\<rparr>, PlaneObj \<lparr>normal = length h + 10, d = 0\<rparr>])
     [length h + 1, length h + 3, length h + 5, length h + 7, length h + 9, length h + 11]"
  by (intro six_planesI) (simp_all add: is_Plane_def lookup_def nth_append)

lemma fresh_storage:
  "concat (map (storage (h @ [Vector3Obj \<lparr>x = 0, y = 0, z = 0\<rparr>, PlaneObj \<lparr>normal = length h, d = 0\<rparr>,
           Vector3Obj \<lparr>x = 0, y = 0, z = 0\<rparr>, PlaneObj \<lparr>normal = length h + 2, d = 0\<rparr>,
           Vector3Obj \<lparr>x = 0, y = 0, z = 0\<rparr>, PlaneObj \<lparr>normal = length h + 4, d = 0\<rparr>,
           Vector3Obj \<lparr>x = 0, y = 0, z = 0\<rparr>, PlaneObj \<lparr>normal = length h + 6, d = 0\<rparr>,
           Vector3Obj \<lparr>x = 0, y = 0, z = 0\<rparr>, PlaneObj \<lparr>normal = length h + 8, d = 0\<rparr>,
           Vector3Obj \<lparr>x = 0, y = 0, z = 0\<rparr>, PlaneObj \<lparr>normal = length h + 10, d = 0\<rparr>]))
     (take 6 [length h + 1, length h + 3, length h + 5, length h + 7, length h + 9, length h + 11])) =
   [length h, length h + 1, length h + 2, length h + 3, length h + 4, length h + 5,
    length h + 6, length h + 7, length h + 8, length h + 9, length h + 10, length h + 11]"
  by (simp add: storage_def lookup_def nth_append)

lemma fresh_separate:
  "separate (h @ [Vector3Obj \<lparr>x = 0, y = 0, z = 0\<rparr>, PlaneObj \<lparr>normal = length h, d = 0\<rparr>,
           Vector3Obj \<lparr>x = 0, y = 0, z = 0\<rparr>, PlaneObj \<lparr>normal = length h + 2, d = 0\<rparr>,
           Vector3Obj \<lparr>x = 0, y = 0, z = 0\<rparr>, PlaneObj \<lparr>normal = length h + 4, d = 0\<rparr>,
           Vector3Obj \<lparr>x = 0, y = 0, z = 0\<rparr>, PlaneObj \<lparr>normal = length h + 6, d = 0\<rparr>,
           Vector3Obj \<lparr>x = 0, y = 0, z = 0\<rparr>, PlaneObj \<lparr>normal = length h + 8, d = 0\<rparr>,
           Vector3Obj \<lparr>x = 0, y = 0, z = 0\<rparr>, PlaneObj \<lparr>normal = length h + 10, d = 0\<rparr>])
     [length h + 1, length h + 3, length h + 5, length h + 7, length h + 9, length h + 11]"
  unfolding separate_def fresh_storage by simp

lemma fresh_referenced:
  "referenced (h @ [Vector3Obj \<lparr>x = 0, y = 0, z = 0\<rparr>, PlaneObj \<lparr>normal = length h, d = 0\<rparr>,
           Vector3Obj \<lparr>x = 0, y = 0, z = 0\<rparr>, PlaneObj \<lparr>normal = length h + 2, d = 0\<rparr>,
           Vector3Obj \<lparr>x = 0, y = 0, z = 0\<rparr>, PlaneObj \<lparr>normal = length h + 4, d = 0\<rparr>,
           Vector3Obj \<lparr>x = 0, y = 0, z = 0\<rparr>, PlaneObj \<lparr>normal = length h + 6, d = 0\<rparr>,
           Vector3Obj \<lparr>x = 0, y = 0, z = 0\<rparr>, PlaneObj \<lparr>normal = length h + 8, d = 0\<rparr>,
           Vector3Obj \<lparr>x = 0, y = 0, z = 0\<rparr>, PlaneObj \<lparr>normal = length h + 10, d = 0\<rparr>]) r \<longleftrightarrow>
     referenced h r \<or> r \<in> {length h, length h + 2, length h + 4, length h + 6, length h + 8,
       length h + 10}"
  unfolding referenced_append by (auto simp: referenced_def refs_of_def)

lemma GetPlanes_eq:
  assumes "get_Matrix h t = Inr M"
  shows "GetPlanes t h =
     Inr ([length h + 1, length h + 3, length h + 5, length h + 7, length h + 9, length h + 11],
          write_all M [length h + 1, length h + 3, length h + 5, length h + 7, length h + 9, length h + 11]
            (h @ [Vector3Obj \<lparr>x = 0, y = 0, z = 0\<rparr>, PlaneObj \<lparr>normal = length h, d = 0\<rparr>,
           Vector3Obj \<lparr>x = 0, y = 0, z = 0\<rparr>, PlaneObj \<lparr>normal = length h + 2, d = 0\<rparr>,
           Vector3Obj \<lparr>x = 0, y = 0, z = 0\<rparr>, PlaneObj \<lparr>normal = length h + 4, d = 0\<rparr>,
           Vector3Obj \<lparr>x = 0, y = 0, z = 0\<rparr>, PlaneObj \<lparr>normal = length h + 6, d = 0\<rparr>,
           Vector3Obj \<lparr>x = 0, y = 0, z = 0\<rparr>, PlaneObj \<lparr>normal = length h + 8, d = 0\<rparr>,
           Vector3Obj \<lparr>x = 0, y = 0, z = 0\<rparr>, PlaneObj \<lparr>normal = length h + 10, d = 0\<rparr>]))"
proof -
  define fp where
    "fp = [length h + 1, length h + 3, length h + 5, length h + 7, length h + 9, length h + 11]"
  define h1 where "h1 = (h @ [Vector3Obj \<lparr>x = 0, y = 0, z = 0\<rparr>, PlaneObj \<lparr>normal = length h, d = 0\<rparr>,
           Vector3Obj \<lparr>x = 0, y = 0, z = 0\<rparr>, PlaneObj \<lparr>normal = length h + 2, d = 0\<rparr>,
           Vector3Obj \<lparr>x = 0, y = 0, z = 0\<rparr>, PlaneObj \<lparr>normal = length h + 4, d = 0\<rparr>,
           Vector3Obj \<lparr>x = 0, y = 0, z = 0\<rparr>, PlaneObj \<lparr>normal = length h + 6, d = 0\<rparr>,
           Vector3Obj \<lparr>x = 0, y = 0, z = 0\<rparr>, PlaneObj \<lparr>normal = length h + 8, d = 0\<rparr>,
           Vector3Obj \<lparr>x = 0, y = 0, z = 0\<rparr>, PlaneObj \<lparr>normal = length h + 10, d = 0\<rparr>])"
  have L: "GetPlanes_loop 0 [] h = (fp, h1)"
    by (simp only: GetPlanes_loop_eq fp_def h1_def)
  have "get_Matrix h1 t = Inr M"
    using assms unfolding h1_def by (subst get_Matrix_append) auto
  moreover have "six_planes h1 fp"
    unfolding h1_def fp_def by (rule fresh_six_planes)
  ultimately have "GetPlanesToRef t fp h1 = Inr (write_all M fp h1)"
    by (rule GetPlanesToRef_eq)
  then have "GetPlanes t h = Inr (fp, write_all M fp h1)"
    by (simp add: GetPlanes_def L)
  then show ?thesis by (simp only: fp_def h1_def)
qed

lemma GetPlanes_InrD:
  assumes "GetPlanes t h = Inr r"
  shows "\<exists>M. get_Matrix h t = Inr M"
proof -
  define fp where
    "fp = [length h + 1, length h + 3, length h + 5, length h + 7, length h + 9, length h + 11]"
  define h1 where "h1 = (h @ [Vector3Obj \<lparr>x = 0, y = 0, z = 0\<rparr>, PlaneObj \<lparr>normal = length h, d = 0\<rparr>,
           Vector3Obj \<lparr>x = 0, y = 0, z = 0\<rparr>, PlaneObj \<lparr>normal = length h + 2, d = 0\<rparr>,
           Vector3Obj \<lparr>x = 0, y = 0, z = 0\<rparr>, PlaneObj \<lparr>normal = length h + 4, d = 0\<rparr>,
           Vector3Obj \<lparr>x = 0, y = 0, z = 0\<rparr>, PlaneObj \<lparr>normal = length h + 6, d = 0\<rparr>,
           Vector3Obj \<lparr>x = 0, y = 0, z = 0\<rparr>, PlaneObj \<lparr>normal = length h + 8, d = 0\<rparr>,
           Vector3Obj \<lparr>x = 0, y = 0, z = 0\<rparr>, PlaneObj \<lparr>normal = length h + 10, d = 0\<rparr>])"
  have L: "GetPlanes_loop 0 [] h = (fp, h1)"
    by (simp only: GetPlanes_loop_eq fp_def h1_def)
  from assms obtain h' where "GetPlanesToRef t fp h1 = Inr h'"
    by (auto simp: GetPlanes_def L split: sum.splits)
  from GetPlanesToRef_InrD [OF this] obtain M where "get_Matrix h1 t = Inr M" by blast
  moreover have "get_Matrix h1 t = get_Matrix h t"
    unfolding h1_def by (rule get_Matrix_append) auto
  ultimately show ?thesis by simp
qed

lemma take_write_all_fresh:
  "take (length h)
     (write_all M [length h + 1, length h + 3, length h + 5, length h + 7, length h + 9, length h + 11]
        (h @ [Vector3Obj \<lparr>x = 0, y = 0, z = 0\<rparr>, PlaneObj \<lparr>normal = length h, d = 0\<rparr>,
           Vector3Obj \<lparr>x = 0, y = 0, z = 0\<rparr>, PlaneObj \<lparr>normal = length h + 2, d = 0\<rparr>,
           Vector3Obj \<lparr>x = 0, y = 0, z = 0\<rparr>, PlaneObj \<lparr>normal = length h + 4, d = 0\<rparr>,
           Vector3Obj \<lparr>x = 0, y = 0, z = 0\<rparr>, PlaneObj \<lparr>normal = length h + 6, d = 0\<rparr>,
           Vector3Obj \<lparr>x = 0, y = 0, z = 0\<rparr>, PlaneObj \<lparr>normal = length h + 8, d = 0\<rparr>,
           Vector3Obj \<lparr>x = 0, y = 0, z = 0\<rparr>, PlaneObj \<lparr>normal = length h + 10, d = 0\<rparr>])) = h"
proof -
  define fp where
    "fp = [length h + 1, length h + 3, length h + 5, length h + 7, length h + 9, length h + 11]"
  define h1 where "h1 = (h @ [Vector3Obj \<lparr>x = 0, y = 0, z = 0\<rparr>, PlaneObj \<lparr>normal = length h, d = 0\<rparr>,
           Vector3Obj \<lparr>x = 0, y = 0, z = 0\<rparr>, PlaneObj \<lparr>normal = length h + 2, d = 0\<rparr>,
           Vector3Obj \<lparr>x = 0, y = 0, z = 0\<rparr>, PlaneObj \<lparr>normal = length h + 4, d = 0\<rparr>,
           Vector3Obj \<lparr>x = 0, y = 0, z = 0\<rparr>, PlaneObj \<lparr>normal = length h + 6, d = 0\<rparr>,
           Vector3Obj \<lparr>x = 0, y = 0, z = 0\<rparr>, PlaneObj \<lparr>normal = length h + 8, d = 0\<rparr>,
           Vector3Obj \<lparr>x = 0, y = 0, z = 0\<rparr>, PlaneObj \<lparr>normal = length h + 10, d = 0\<rparr>])"
  have six: "six_planes h1 fp"
    unfolding h1_def fp_def by (rule fresh_six_planes)
  have keys: "concat (map (storage h1) (take 6 fp)) =
   [length h, length h + 1, length h + 2, length h + 3, length h + 4, length h + 5,
    length h + 6, length h + 7, length h + 8, length h + 9, length h + 10, length h + 11]"
    unfolding h1_def fp_def by (rule fresh_storage)
  have len: "length h1 = length h + 12" by (simp add: h1_def)
  have "take (length h) (write_all M fp h1) = h"
  proof (rule nth_equalityI)
    show "length (take (length h) (write_all M fp h1)) = length h"
      by (simp add: len)
  next
    fix i assume "i < length (take (length h) (write_all M fp h1))"
    then have i: "i < length h" by simp
    then have "i \<notin> set (concat (map (storage h1) (take 6 fp)))"
      unfolding keys by simp
    from write_all_outside [OF six this, of M] have "write_all M fp h1 ! i = h1 ! i"
      using i len by (intro lookup_eq_nth) simp_all
    with i show "take (length h) (write_all M fp h1) ! i = h ! i"
      by (simp add: h1_def nth_append)
  qed
  then show ?thesis by (simp only: fp_def h1_def)
qed

subsection \<open>The containment loop\<close>

lemma dotCoordinate_store: "dotCoordinate p point h = Inr (v, h') \<Longrightarrow> h' = h"
  by (auto simp: dotCoordinate_def split: sum.splits)

lemma dotCoordinate_eq:
  assumes "is_Plane h p" and "is_Vector3 h point v"
  shows "dotCoordinate p point h = Inr (signed_distance (plane_of h p) v, h)"
proof -
  from assms(1) obtain pl n where "lookup h p = Some (PlaneObj pl)"
    and "lookup h (normal pl) = Some (Vector3Obj n)"
    by (rule is_PlaneE)
  with assms(2) show ?thesis
    by (simp add: dotCoordinate_def is_Vector3_def get_Plane_def get_Vector3_def plane_of_def)
qed
lemma IsPointInFrustum_loop_store:
  "IsPointInFrustum_loop point a i h = Inr (b, h') \<Longrightarrow> h' = h"
proof (induction point a i h rule: IsPointInFrustum_loop.induct)
  case (1 point a i h)
  show ?case
  proof (cases "i < 6")
    case False
    with "1.prems" show ?thesis
      by (subst (asm) IsPointInFrustum_loop.simps) simp
  next
    case True
    from "1.prems" True obtain p v h1 where p: "slot a i = Some p"
      and dc: "dotCoordinate p point h = Inr (v, h1)"
      and rest: "(if v < 0 then Inr (False, h1)
                  else IsPointInFrustum_loop point a (i + 1) h1) = Inr (b, h')"
      by (subst (asm) IsPointInFrustum_loop.simps) (auto split: option.splits sum.splits)
    have h1: "h1 = h" using dc by (rule dotCoordinate_store)
    show ?thesis
    proof (cases "v < 0")
      case True
      with rest h1 show ?thesis by simp
    next
      case False
      with rest have "IsPointInFrustum_loop point a (i + 1) h1 = Inr (b, h')" by simp
      with "1.IH" True p dc False h1 show ?thesis by auto
    qed
  qed
qed

text \<open>
  The loop from index i on, for a sequence of any length whose first six entries (as far
  as they exist) are planes.
\<close>

lemma IsPointInFrustum_loop_eq:
  assumes "is_Vector3 h point v" and "list_all (is_Plane h) (take 6 a)"
    and "i \<le> min 6 (length a)"
  shows "IsPointInFrustum_loop point a i h =
     (if \<exists>j. i \<le> j \<and> j < min 6 (length a) \<and> signed_distance (plane_of h (a ! j)) v < 0
      then Inr (False, h)
      else if length a < 6 then Inl TypeError else Inr (True, h))"
  using assms
proof (induction point a i h rule: IsPointInFrustum_loop.induct)
  case (1 point a i h)
  let ?n = "min 6 (length a)"
  let ?neg = "\<lambda>j. signed_distance (plane_of h (a ! j)) v < 0"
  show ?case
  proof (cases "i < ?n")
    case False
    with "1.prems"(3) have i: "i = ?n" by linarith
    then have none: "\<not> (\<exists>j. i \<le> j \<and> j < ?n \<and> ?neg j)" by auto
    show ?thesis
    proof (cases "length a < 6")
      case True
      with i have "i < 6" "slot a i = None" by (simp_all add: slot_def)
      then have "IsPointInFrustum_loop point a i h = Inl TypeError"
        by (subst IsPointInFrustum_loop.simps) simp
      with none True show ?thesis by simp
    next
      case False
      with i have "\<not> i < 6" by simp
      then have "IsPointInFrustum_loop point a i h = Inr (True, h)"
        by (subst IsPointInFrustum_loop.simps) simp
      with none False show ?thesis by simp
    qed
  next
    case True
    then have i6: "i < 6" and il: "i < length a" by simp_all
    have sl: "slot a i = Some (a ! i)" using il by (simp add: slot_def)
    have pl: "is_Plane h (a ! i)"
      using "1.prems"(2) i6 il by (simp add: list_all_length)
    have dc: "dotCoordinate (a ! i) point h = Inr (signed_distance (plane_of h (a ! i)) v, h)"
      using pl "1.prems"(1) by (rule dotCoordinate_eq)
    show ?thesis
    proof (cases "?neg i")
      case neg: True
      have "IsPointInFrustum_loop point a i h = Inr (False, h)"
        using i6 sl dc neg by (subst IsPointInFrustum_loop.simps) simp
      moreover have "\<exists>j. i \<le> j \<and> j < ?n \<and> ?neg j" using True neg by blast
      ultimately show ?thesis by simp
    next
      case nonneg: False
      have step: "IsPointInFrustum_loop point a i h = IsPointInFrustum_loop point a (i + 1) h"
        using i6 sl dc nonneg by (subst IsPointInFrustum_loop.simps) simp
      have le: "i + 1 \<le> ?n" using True by simp
      have IH: "IsPointInFrustum_loop point a (i + 1) h =
         (if \<exists>j. i + 1 \<le> j \<and> j < ?n \<and> ?neg j then Inr (False, h)
          else if length a < 6 then Inl TypeError else Inr (True, h))"
        using "1.IH" [OF i6 sl dc refl _ "1.prems"(1) "1.prems"(2) le] nonneg by simp
      have "(\<exists>j. i + 1 \<le> j \<and> j < ?n \<and> ?neg j) \<longleftrightarrow> (\<exists>j. i \<le> j \<and> j < ?n \<and> ?neg j)"
        using nonneg by (metis Suc_eq_plus1 Suc_leI le_neq_implies_less Suc_leD)
      with step IH show ?thesis by simp
    qed
  qed
qed

lemma IsPointInFrustum_eq:
  assumes "is_Vector3 h point v" and "list_all (is_Plane h) (take 6 a)"
  shows "IsPointInFrustum point a h =
     (if \<exists>j<min 6 (length a). signed_distance (plane_of h (a ! j)) v < 0
      then Inr (False, h)
      else if length a < 6 then Inl TypeError else Inr (True, h))"
  unfolding IsPointInFrustum_def
  using IsPointInFrustum_loop_eq [OF assms, of 0] by simp


subsection \<open>The examples\<close>

lemma ex_scale_planes:
  "normalized (spec_near ex_scale) = plane_value 0 0 1 (1 / 2)"
  "normalized (spec_far ex_scale) = plane_value 0 0 (- 1) (1 / 2)"
  "normalized (spec_left ex_scale) = plane_value 1 0 0 (1 / 2)"
  "normalized (spec_right ex_scale) = plane_value (- 1) 0 0 (1 / 2)"
  "normalized (spec_top ex_scale) = plane_value 0 (- 1) 0 (1 / 2)"
  "normalized (spec_bottom ex_scale) = plane_value 0 1 0 (1 / 2)"
  by (simp_all add: normalized_def Let_def Vector3_length_def plane_value_def ex_scale_def
      spec_near_def spec_far_def spec_left_def spec_right_def spec_top_def spec_bottom_def)

lemma identity_planes:
  "normalized (spec_near identity_Matrix) = plane_value 0 0 1 1"
  "normalized (spec_far identity_Matrix) = plane_value 0 0 (- 1) 1"
  "normalized (spec_left identity_Matrix) = plane_value 1 0 0 1"
  "normalized (spec_right identity_Matrix) = plane_value (- 1) 0 0 1"
  "normalized (spec_top identity_Matrix) = plane_value 0 (- 1) 0 1"
  "normalized (spec_bottom identity_Matrix) = plane_value 0 1 0 1"
  by (simp_all add: normalized_def Let_def Vector3_length_def plane_value_def identity_Matrix_def
      spec_near_def spec_far_def spec_left_def spec_right_def spec_top_def spec_bottom_def)

lemma ex_singular_planes:
  "Vector3_length (normal_v (spec_near ex_singular)) = 0"
  "normalized (spec_near ex_singular) = plane_value 0 0 0 0"
  "normalized (spec_far ex_singular) = plane_value 0 0 1 (1 / 2)"
  "normalized (spec_left ex_singular) = plane_value 0 0 1 1"
  "normalized (spec_right ex_singular) = plane_value 0 0 1 1"
  "normalized (spec_top ex_singular) = plane_value 0 0 1 1"
  "normalized (spec_bottom ex_singular) = plane_value 0 0 1 1"
  by (simp_all add: normalized_def Let_def Vector3_length_def plane_value_def ex_singular_def
      spec_near_def spec_far_def spec_left_def spec_right_def spec_top_def spec_bottom_def)

lemma ex_scale_nondegenerate: "nondegenerate ex_scale"
  by (simp add: nondegenerate_def Vector3_length_def plane_value_def ex_scale_def
      spec_near_def spec_far_def spec_left_def spec_right_def spec_top_def spec_bottom_def)

lemma ex_store_typed:
  "is_Matrix ex_store 0 ex_scale" "is_Matrix ex_store 1 identity_Matrix"
  "is_Matrix ex_store 2 ex_singular" "is_Plane ex_store 9"
  "six_planes ex_store [9, 10, 11, 12, 13, 14]" "separate ex_store [9, 10, 11, 12, 13, 14]"
  "closed ex_store"
  by (simp_all add: is_Matrix_def is_Plane_def six_planes_def separate_def storage_def closed_def
      refs_of_def lookup_def ex_store_def ex_scale_def identity_Matrix_def ex_singular_def)

lemma ex_store_put:
  "put_plane 9 (plane_value a b c e) ex_store =
     ex_store[3 := Vector3Obj \<lparr>x = a, y = b, z = c\<rparr>, 9 := PlaneObj \<lparr>normal = 3, d = e\<rparr>]"
  by (simp add: put_plane_def lookup_def ex_store_def plane_value_def)

lemma ex_shared_typed:
  "is_Matrix ex_shared 0 ex_scale" "is_Plane ex_shared 2"
  "six_planes ex_shared [2, 3, 4, 5, 6, 7]"
  by (simp_all add: is_Matrix_def is_Plane_def six_planes_def lookup_def ex_shared_def ex_scale_def)

lemma ex_shared_all:
  "write_all ex_scale [2, 3, 4, 5, 6, 7] ex_shared =
     [MatrixObj ex_scale, Vector3Obj \<lparr>x = 0, y = 1, z = 0\<rparr>,
      PlaneObj \<lparr>normal = 1, d = 1 / 2\<rparr>, PlaneObj \<lparr>normal = 1, d = 1 / 2\<rparr>,
      PlaneObj \<lparr>normal = 1, d = 1 / 2\<rparr>, PlaneObj \<lparr>normal = 1, d = 1 / 2\<rparr>,
      PlaneObj \<lparr>normal = 1, d = 1 / 2\<rparr>, PlaneObj \<lparr>normal = 1, d = 1 / 2\<rparr>]"
  by (simp add: write_all_def all_writes_unfold plane_writes_def lookup_def ex_shared_def
      ex_scale_planes plane_value_def)

lemma ex_shared_near:
  "put_plane 2 (plane_value 0 0 1 (1 / 2)) ex_shared =
     [MatrixObj ex_scale, Vector3Obj \<lparr>x = 0, y = 0, z = 1\<rparr>,
      PlaneObj \<lparr>normal = 1, d = 1 / 2\<rparr>, PlaneObj \<lparr>normal = 1, d = 0\<rparr>,
      PlaneObj \<lparr>normal = 1, d = 0\<rparr>, PlaneObj \<lparr>normal = 1, d = 0\<rparr>,
      PlaneObj \<lparr>normal = 1, d = 0\<rparr>, PlaneObj \<lparr>normal = 1, d = 0\<rparr>]"
  by (simp add: put_plane_def lookup_def ex_shared_def plane_value_def)

lemma ex_cube_typed:
  "is_Vector3 ex_cube 14 \<lparr>x = 1, y = 0, z = 0\<rparr>" "is_Vector3 ex_cube 15 \<lparr>x = 2, y = 0, z = 0\<rparr>"
  "list_all (is_Plane ex_cube) (take 6 [6, 7, 8, 9, 10, 11])"
  "list_all (is_Plane ex_cube) (take 6 [6, 7, 8])"
  "list_all (is_Plane ex_cube) (take 6 [6, 7, 8, 9])"
  "list_all (is_Plane ex_cube) (take 6 [])"
  by (simp_all add: is_Vector3_def is_Plane_def lookup_def ex_cube_def)

lemma ex_cube_planes:
  "plane_of ex_cube 6 = plane_value 0 0 1 1" "plane_of ex_cube 7 = plane_value 0 0 (- 1) 1"
  "plane_of ex_cube 8 = plane_value 1 0 0 1" "plane_of ex_cube 9 = plane_value (- 1) 0 0 1"
  "plane_of ex_cube 10 = plane_value 0 (- 1) 0 1" "plane_of ex_cube 11 = plane_value 0 1 0 1"
  by (simp_all add: plane_of_def lookup_def ex_cube_def plane_value_def)


section \<open>The claims\<close>

text \<open>
  Claim C1: each of the six single-plane extractions writes into the target plane the raw
  coefficients of the table of section 4.1 (near from m[3]+m[2], m[7]+m[6], m[11]+m[10],
  m[15]+m[14]; far with minus; left and right with m[0], m[4], m[8], m[12]; bottom and top
  with m[1], m[5], m[9], m[13]) and then normalizes the plane: when the length of the raw
  normal is nonzero, the normal components and d are divided by it. The store after the
  call is the store in which the target plane has the normalized table entry as its
  value, and reading the target there gives that value.
\<close>

theorem extraction_writes_table_coefficients:
  assumes "is_Matrix h t M" and "is_Plane h p"
  shows "GetNearPlaneToRef t p h = Inr (put_plane p (normalized (spec_near M)) h) \<and>
    GetFarPlaneToRef t p h = Inr (put_plane p (normalized (spec_far M)) h) \<and>
    GetLeftPlaneToRef t p h = Inr (put_plane p (normalized (spec_left M)) h) \<and>
    GetRightPlaneToRef t p h = Inr (put_plane p (normalized (spec_right M)) h) \<and>
    GetTopPlaneToRef t p h = Inr (put_plane p (normalized (spec_top M)) h) \<and>
    GetBottomPlaneToRef t p h = Inr (put_plane p (normalized (spec_bottom M)) h) \<and>
    (\<forall>v. plane_of (put_plane p v h) p = v) \<and>
    (\<forall>q. Vector3_length (normal_v q) \<noteq> 0 \<longrightarrow>
       normalized q =
         plane_value (x (normal_v q) / Vector3_length (normal_v q))
           (y (normal_v q) / Vector3_length (normal_v q))
           (z (normal_v q) / Vector3_length (normal_v q))
           (d_v q / Vector3_length (normal_v q)))"
  using assms(2) is_MatrixD [OF assms(1)]
  by (simp add: GetNearPlaneToRef_eq GetFarPlaneToRef_eq GetLeftPlaneToRef_eq
      GetRightPlaneToRef_eq GetTopPlaneToRef_eq GetBottomPlaneToRef_eq normalized_nonzero
      plane_of_put_plane)

theorem extraction_writes_table_coefficients_witness:
  "is_Matrix ex_store 0 ex_scale \<and> is_Plane ex_store 9 \<and>
   GetNearPlaneToRef 0 9 ex_store =
     Inr (ex_store[3 := Vector3Obj \<lparr>x = 0, y = 0, z = 1\<rparr>, 9 := PlaneObj \<lparr>normal = 3, d = 1 / 2\<rparr>]) \<and>
   GetFarPlaneToRef 0 9 ex_store =
     Inr (ex_store[3 := Vector3Obj \<lparr>x = 0, y = 0, z = - 1\<rparr>, 9 := PlaneObj \<lparr>normal = 3, d = 1 / 2\<rparr>]) \<and>
   GetLeftPlaneToRef 0 9 ex_store =
     Inr (ex_store[3 := Vector3Obj \<lparr>x = 1, y = 0, z = 0\<rparr>, 9 := PlaneObj \<lparr>normal = 3, d = 1 / 2\<rparr>]) \<and>
   GetRightPlaneToRef 0 9 ex_store =
     Inr (ex_store[3 := Vector3Obj \<lparr>x = - 1, y = 0, z = 0\<rparr>, 9 := PlaneObj \<lparr>normal = 3, d = 1 / 2\<rparr>]) \<and>
   GetTopPlaneToRef 0 9 ex_store =
     Inr (ex_store[3 := Vector3Obj \<lparr>x = 0, y = - 1, z = 0\<rparr>, 9 := PlaneObj \<lparr>normal = 3, d = 1 / 2\<rparr>]) \<and>
   GetBottomPlaneToRef 0 9 ex_store =
     Inr (ex_store[3 := Vector3Obj \<lparr>x = 0, y = 1, z = 0\<rparr>, 9 := PlaneObj \<lparr>normal = 3, d = 1 / 2\<rparr>]) \<and>
   plane_of (ex_store[3 := Vector3Obj \<lparr>x = 0, y = 0, z = 1\<rparr>,
     9 := PlaneObj \<lparr>normal = 3, d = 1 / 2\<rparr>]) 9 = plane_value 0 0 1 (1 / 2) \<and>
   normalized (plane_value 3 4 0 10) = plane_value (3 / 5) (4 / 5) 0 2"
proof -
  have L: "Vector3_length (normal_v (plane_value 3 4 0 10)) = 5"
    by (simp add: Vector3_length_def plane_value_def)
  have E: "x (normal_v (plane_value 3 4 0 10)) = 3" "y (normal_v (plane_value 3 4 0 10)) = 4"
    "z (normal_v (plane_value 3 4 0 10)) = 0" "d_v (plane_value 3 4 0 10) = 10"
    by (simp_all add: plane_value_def)
  note T = extraction_writes_table_coefficients [OF ex_store_typed(1,4)]
  have "normalized (plane_value 3 4 0 10) = plane_value (3 / 5) (4 / 5) 0 2"
    using T L by (simp add: E)
  moreover have "plane_of (put_plane 9 (plane_value 0 0 1 (1 / 2)) ex_store) 9
      = plane_value 0 0 1 (1 / 2)"
    using T by blast
  ultimately show ?thesis
    using T ex_store_typed(1,4) by (simp add: ex_scale_planes ex_store_put)
qed

text \<open>
  Claim C9: for the 4x4 identity matrix the six extractions give the cardinal planes of
  the formulas of section 4.1: near (0, 0, 1) with d = 1, far (0, 0, -1) with d = 1, left
  (1, 0, 0) with d = 1, right (-1, 0, 0) with d = 1, top (0, -1, 0) with d = 1 and bottom
  (0, 1, 0) with d = 1, exactly (the scalars are reals).
\<close>

theorem identity_gives_cardinal_planes:
  assumes "is_Matrix h t identity_Matrix" and "is_Plane h p"
  shows "GetNearPlaneToRef t p h = Inr (put_plane p (plane_value 0 0 1 1) h) \<and>
    GetFarPlaneToRef t p h = Inr (put_plane p (plane_value 0 0 (- 1) 1) h) \<and>
    GetLeftPlaneToRef t p h = Inr (put_plane p (plane_value 1 0 0 1) h) \<and>
    GetRightPlaneToRef t p h = Inr (put_plane p (plane_value (- 1) 0 0 1) h) \<and>
    GetTopPlaneToRef t p h = Inr (put_plane p (plane_value 0 (- 1) 0 1) h) \<and>
    GetBottomPlaneToRef t p h = Inr (put_plane p (plane_value 0 1 0 1) h) \<and>
    (\<forall>v. plane_of (put_plane p v h) p = v)"
  using assms(2) is_MatrixD [OF assms(1)]
  by (simp add: GetNearPlaneToRef_eq GetFarPlaneToRef_eq GetLeftPlaneToRef_eq
      GetRightPlaneToRef_eq GetTopPlaneToRef_eq GetBottomPlaneToRef_eq identity_planes
      plane_of_put_plane)

theorem identity_gives_cardinal_planes_witness:
  "is_Matrix ex_store 1 identity_Matrix \<and> is_Plane ex_store 9 \<and>
   GetNearPlaneToRef 1 9 ex_store =
     Inr (ex_store[3 := Vector3Obj \<lparr>x = 0, y = 0, z = 1\<rparr>, 9 := PlaneObj \<lparr>normal = 3, d = 1\<rparr>]) \<and>
   GetFarPlaneToRef 1 9 ex_store =
     Inr (ex_store[3 := Vector3Obj \<lparr>x = 0, y = 0, z = - 1\<rparr>, 9 := PlaneObj \<lparr>normal = 3, d = 1\<rparr>]) \<and>
   GetLeftPlaneToRef 1 9 ex_store =
     Inr (ex_store[3 := Vector3Obj \<lparr>x = 1, y = 0, z = 0\<rparr>, 9 := PlaneObj \<lparr>normal = 3, d = 1\<rparr>]) \<and>
   GetRightPlaneToRef 1 9 ex_store =
     Inr (ex_store[3 := Vector3Obj \<lparr>x = - 1, y = 0, z = 0\<rparr>, 9 := PlaneObj \<lparr>normal = 3, d = 1\<rparr>]) \<and>
   GetTopPlaneToRef 1 9 ex_store =
     Inr (ex_store[3 := Vector3Obj \<lparr>x = 0, y = - 1, z = 0\<rparr>, 9 := PlaneObj \<lparr>normal = 3, d = 1\<rparr>]) \<and>
   GetBottomPlaneToRef 1 9 ex_store =
     Inr (ex_store[3 := Vector3Obj \<lparr>x = 0, y = 1, z = 0\<rparr>, 9 := PlaneObj \<lparr>normal = 3, d = 1\<rparr>]) \<and>
   plane_of (ex_store[3 := Vector3Obj \<lparr>x = 0, y = 0, z = 1\<rparr>,
     9 := PlaneObj \<lparr>normal = 3, d = 1\<rparr>]) 9 = plane_value 0 0 1 1"
proof -
  note T = identity_gives_cardinal_planes [OF ex_store_typed(2,4)]
  have "plane_of (put_plane 9 (plane_value 0 0 1 1) ex_store) 9 = plane_value 0 0 1 1"
    using T by blast
  then show ?thesis
    using T ex_store_typed(2,4) by (simp add: ex_store_put)
qed

text \<open>
  Claim C10: IsPointInFrustum indexes the plane sequence at the positions 0 to 5 and
  stops early only at a negative signed distance. With at least six planes no access is
  out of bounds and a result is returned. With fewer than six planes, none of which has a
  negative signed distance to the point, the function reaches a missing element and
  raises the TypeError; a negative distance met before the end of the short sequence
  still returns false. At least six planes are a precondition of the interface.
\<close>

theorem IsPointInFrustum_needs_six_planes:
  assumes "is_Vector3 h point v" and "list_all (is_Plane h) (take 6 a)"
  shows "(6 \<le> length a \<longrightarrow> (\<exists>b. IsPointInFrustum point a h = Inr (b, h))) \<and>
         (length a < 6 \<and> (\<forall>i<length a. 0 \<le> signed_distance (plane_of h (a ! i)) v) \<longrightarrow>
            IsPointInFrustum point a h = Inl TypeError) \<and>
         (length a < 6 \<and> (\<exists>i<length a. signed_distance (plane_of h (a ! i)) v < 0) \<longrightarrow>
            IsPointInFrustum point a h = Inr (False, h))"
proof -
  note eq = IsPointInFrustum_eq [OF assms]
  have 1: "\<exists>b. IsPointInFrustum point a h = Inr (b, h)" if "6 \<le> length a"
    using eq that by auto
  have 2: "IsPointInFrustum point a h = Inl TypeError"
    if "length a < 6" and "\<forall>i<length a. 0 \<le> signed_distance (plane_of h (a ! i)) v"
    using eq that by (auto simp: not_less [symmetric])
  have 3: "IsPointInFrustum point a h = Inr (False, h)"
    if "length a < 6" and "\<exists>i<length a. signed_distance (plane_of h (a ! i)) v < 0"
    using eq that by auto
  from 1 2 3 show ?thesis by blast
qed

theorem IsPointInFrustum_needs_six_planes_witness:
  "is_Vector3 ex_cube 14 \<lparr>x = 1, y = 0, z = 0\<rparr> \<and> is_Vector3 ex_cube 15 \<lparr>x = 2, y = 0, z = 0\<rparr> \<and>
   list_all (is_Plane ex_cube) (take 6 [6, 7, 8, 9, 10, 11]) \<and>
   list_all (is_Plane ex_cube) (take 6 [6, 7, 8]) \<and>
   list_all (is_Plane ex_cube) (take 6 [6, 7, 8, 9]) \<and>
   (\<exists>b. IsPointInFrustum 14 [6, 7, 8, 9, 10, 11] ex_cube = Inr (b, ex_cube)) \<and>
   IsPointInFrustum 14 [6, 7, 8] ex_cube = Inl TypeError \<and>
   IsPointInFrustum 14 [] ex_cube = Inl TypeError \<and>
   IsPointInFrustum 15 [6, 7, 8, 9] ex_cube = Inr (False, ex_cube)"
proof -
  note V = ex_cube_typed(1,2)
  note L = ex_cube_typed(3-6)
  note P = ex_cube_planes
  have r6: "\<exists>b. IsPointInFrustum 14 [6, 7, 8, 9, 10, 11] ex_cube = Inr (b, ex_cube)"
    using IsPointInFrustum_needs_six_planes [OF V(1) L(1)] by simp
  have "\<forall>i<length [6, 7, 8 :: nat].
      0 \<le> signed_distance (plane_of ex_cube ([6, 7, 8] ! i)) \<lparr>x = 1, y = 0, z = 0\<rparr>"
    by (simp add: All_less_Suc P signed_distance_def plane_value_def)
  then have r3: "IsPointInFrustum 14 [6, 7, 8] ex_cube = Inl TypeError"
    using IsPointInFrustum_needs_six_planes [OF V(1) L(2)] by simp
  have r0: "IsPointInFrustum 14 [] ex_cube = Inl TypeError"
    using IsPointInFrustum_needs_six_planes [OF V(1) L(4)] by simp
  have "signed_distance (plane_of ex_cube ([6, 7, 8, 9] ! 3)) \<lparr>x = 2, y = 0, z = 0\<rparr> < 0"
    by (simp add: P signed_distance_def plane_value_def)
  then have "\<exists>i<length [6, 7, 8, 9 :: nat].
      signed_distance (plane_of ex_cube ([6, 7, 8, 9] ! i)) \<lparr>x = 2, y = 0, z = 0\<rparr> < 0"
    by (intro exI [of _ 3]) simp
  then have r4: "IsPointInFrustum 15 [6, 7, 8, 9] ex_cube = Inr (False, ex_cube)"
    using IsPointInFrustum_needs_six_planes [OF V(2) L(3)] by simp
  from V L(1,2,3) r6 r3 r0 r4 show ?thesis by simp
qed

text \<open>
  Claim C3: for a matrix whose six raw normals have nonzero length, every plane that an
  extraction writes has a normal of magnitude 1: the plane written by each of the six
  single-plane extractions, the six planes written by GetPlanesToRef into six plane
  slots (whether or not slots share a Plane or a normal), and the six planes returned by
  GetPlanes. Over the reals the magnitude is exactly 1.
\<close>

theorem extracted_normals_are_unit:
  assumes "is_Matrix h t M" and "nondegenerate M"
    and "is_Plane h p" and "six_planes h a"
  shows "(\<exists>h'. GetNearPlaneToRef t p h = Inr h' \<and> Vector3_length (normal_v (plane_of h' p)) = 1) \<and>
    (\<exists>h'. GetFarPlaneToRef t p h = Inr h' \<and> Vector3_length (normal_v (plane_of h' p)) = 1) \<and>
    (\<exists>h'. GetLeftPlaneToRef t p h = Inr h' \<and> Vector3_length (normal_v (plane_of h' p)) = 1) \<and>
    (\<exists>h'. GetRightPlaneToRef t p h = Inr h' \<and> Vector3_length (normal_v (plane_of h' p)) = 1) \<and>
    (\<exists>h'. GetTopPlaneToRef t p h = Inr h' \<and> Vector3_length (normal_v (plane_of h' p)) = 1) \<and>
    (\<exists>h'. GetBottomPlaneToRef t p h = Inr h' \<and> Vector3_length (normal_v (plane_of h' p)) = 1) \<and>
    (\<exists>h'. GetPlanesToRef t a h = Inr h' \<and>
       (\<forall>i<6. Vector3_length (normal_v (plane_of h' (a ! i))) = 1)) \<and>
    (\<exists>fp h'. GetPlanes t h = Inr (fp, h') \<and> length fp = 6 \<and>
       (\<forall>i<6. Vector3_length (normal_v (plane_of h' (fp ! i))) = 1))"
proof -
  note M = is_MatrixD [OF assms(1)]
  have U: "Vector3_length (normal_v (normalized (spec_near M))) = 1"
    "Vector3_length (normal_v (normalized (spec_far M))) = 1"
    "Vector3_length (normal_v (normalized (spec_left M))) = 1"
    "Vector3_length (normal_v (normalized (spec_right M))) = 1"
    "Vector3_length (normal_v (normalized (spec_top M))) = 1"
    "Vector3_length (normal_v (normalized (spec_bottom M))) = 1"
    using assms(2) by (simp_all add: nondegenerate_def normalized_unit)
  have single: "\<exists>h'. f t p h = Inr h' \<and> Vector3_length (normal_v (plane_of h' p)) = 1"
    if "f t p h = Inr (put_plane p n h)" and "Vector3_length (normal_v n) = 1"
    for f :: "ref \<Rightarrow> ref \<Rightarrow> store \<Rightarrow> error + store" and n
    using that by (simp add: plane_of_put_plane [OF assms(3)])
  have all: "\<exists>h'. GetPlanesToRef t a h = Inr h' \<and>
       (\<forall>i<6. Vector3_length (normal_v (plane_of h' (a ! i))) = 1)"
    using GetPlanesToRef_eq [OF M assms(4)] write_all_unit [OF assms(4,2)] by simp
  define fp where
    "fp = [length h + 1, length h + 3, length h + 5, length h + 7, length h + 9, length h + 11]"
  define h1 where "h1 = (h @ [Vector3Obj \<lparr>x = 0, y = 0, z = 0\<rparr>, PlaneObj \<lparr>normal = length h, d = 0\<rparr>,
           Vector3Obj \<lparr>x = 0, y = 0, z = 0\<rparr>, PlaneObj \<lparr>normal = length h + 2, d = 0\<rparr>,
           Vector3Obj \<lparr>x = 0, y = 0, z = 0\<rparr>, PlaneObj \<lparr>normal = length h + 4, d = 0\<rparr>,
           Vector3Obj \<lparr>x = 0, y = 0, z = 0\<rparr>, PlaneObj \<lparr>normal = length h + 6, d = 0\<rparr>,
           Vector3Obj \<lparr>x = 0, y = 0, z = 0\<rparr>, PlaneObj \<lparr>normal = length h + 8, d = 0\<rparr>,
           Vector3Obj \<lparr>x = 0, y = 0, z = 0\<rparr>, PlaneObj \<lparr>normal = length h + 10, d = 0\<rparr>])"
  have G: "GetPlanes t h = Inr (fp, write_all M fp h1)"
    using GetPlanes_eq [OF M] by (simp only: fp_def h1_def)
  have fresh: "six_planes h1 fp" "separate h1 fp"
    unfolding h1_def fp_def by (rule fresh_six_planes, rule fresh_separate)
  have fplen: "length fp = 6" by (simp add: fp_def)
  have alloc: "\<exists>fp h'. GetPlanes t h = Inr (fp, h') \<and> length fp = 6 \<and>
       (\<forall>i<6. Vector3_length (normal_v (plane_of h' (fp ! i))) = 1)"
    using G fplen write_all_unit [OF fresh(1) assms(2)] by simp
  show ?thesis
    apply (intro conjI)
           apply (rule single, rule GetNearPlaneToRef_eq [OF M assms(3)], rule U(1))
           apply (rule single, rule GetFarPlaneToRef_eq [OF M assms(3)], rule U(2))
           apply (rule single, rule GetLeftPlaneToRef_eq [OF M assms(3)], rule U(3))
           apply (rule single, rule GetRightPlaneToRef_eq [OF M assms(3)], rule U(4))
           apply (rule single, rule GetTopPlaneToRef_eq [OF M assms(3)], rule U(5))
           apply (rule single, rule GetBottomPlaneToRef_eq [OF M assms(3)], rule U(6))
     apply (rule all)
    apply (rule alloc)
    done
qed

theorem extracted_normals_are_unit_witness:
  "is_Matrix ex_store 0 ex_scale \<and> nondegenerate ex_scale \<and> is_Plane ex_store 9 \<and>
   six_planes ex_store [9, 10, 11, 12, 13, 14] \<and>
   (\<exists>h'. GetLeftPlaneToRef 0 9 ex_store = Inr h' \<and>
      Vector3_length (normal_v (plane_of h' 9)) = 1) \<and>
   (\<exists>h'. GetPlanesToRef 0 [9, 10, 11, 12, 13, 14] ex_store = Inr h' \<and>
      Vector3_length (normal_v (plane_of h' 14)) = 1) \<and>
   (\<exists>fp h'. GetPlanes 0 ex_store = Inr (fp, h') \<and> length fp = 6 \<and>
      Vector3_length (normal_v (plane_of h' (fp ! 0))) = 1)"
proof -
  note M = ex_store_typed(1)
  note N = ex_scale_nondegenerate
  note P = ex_store_typed(4)
  note S = ex_store_typed(5)
  note T = extracted_normals_are_unit [OF M N P S]
  have 1: "\<exists>h'. GetLeftPlaneToRef 0 9 ex_store = Inr h' \<and>
      Vector3_length (normal_v (plane_of h' 9)) = 1"
    using T by blast
  from T obtain h' where "GetPlanesToRef 0 [9, 10, 11, 12, 13, 14] ex_store = Inr h'"
    and "\<forall>i<6. Vector3_length (normal_v (plane_of h' ([9, 10, 11, 12, 13, 14] ! i))) = 1"
    by blast
  then have 2: "\<exists>h'. GetPlanesToRef 0 [9, 10, 11, 12, 13, 14] ex_store = Inr h' \<and>
      Vector3_length (normal_v (plane_of h' 14)) = 1"
    by (auto simp: all_less_6)
  from T obtain fp h'' where "GetPlanes 0 ex_store = Inr (fp, h'')" and "length fp = 6"
    and "\<forall>i<6. Vector3_length (normal_v (plane_of h'' (fp ! i))) = 1"
    by blast
  then have 3: "\<exists>fp h'. GetPlanes 0 ex_store = Inr (fp, h') \<and> length fp = 6 \<and>
      Vector3_length (normal_v (plane_of h' (fp ! 0))) = 1"
    by (auto simp: all_less_6)
  from M N P S 1 2 3 show ?thesis by blast
qed

text \<open>
  Claim C6: every extraction is deterministic and idempotent. The plane a single-plane
  extraction writes is a function of the matrix alone: it is the normalized table entry
  whatever value the target held before, and extracting a second time from the same
  matrix into the same plane leaves the store as the first extraction left it. The same
  holds for GetPlanesToRef on six plane slots, whether or not slots share a Plane or a
  normal: a second run changes nothing, and the earlier values of the planes do not
  matter. The planes GetPlanes returns are the normalized table entries of the matrix as
  well.
\<close>

theorem extraction_is_idempotent:
  assumes "is_Matrix h t M" and "is_Plane h p" and "six_planes h a"
  shows "(\<exists>h1. GetNearPlaneToRef t p h = Inr h1 \<and> GetNearPlaneToRef t p h1 = Inr h1 \<and>
       plane_of h1 p = normalized (spec_near M) \<and>
       (\<forall>q. GetNearPlaneToRef t p (put_plane p q h) = Inr h1)) \<and>
    (\<exists>h1. GetFarPlaneToRef t p h = Inr h1 \<and> GetFarPlaneToRef t p h1 = Inr h1 \<and>
       plane_of h1 p = normalized (spec_far M) \<and>
       (\<forall>q. GetFarPlaneToRef t p (put_plane p q h) = Inr h1)) \<and>
    (\<exists>h1. GetLeftPlaneToRef t p h = Inr h1 \<and> GetLeftPlaneToRef t p h1 = Inr h1 \<and>
       plane_of h1 p = normalized (spec_left M) \<and>
       (\<forall>q. GetLeftPlaneToRef t p (put_plane p q h) = Inr h1)) \<and>
    (\<exists>h1. GetRightPlaneToRef t p h = Inr h1 \<and> GetRightPlaneToRef t p h1 = Inr h1 \<and>
       plane_of h1 p = normalized (spec_right M) \<and>
       (\<forall>q. GetRightPlaneToRef t p (put_plane p q h) = Inr h1)) \<and>
    (\<exists>h1. GetTopPlaneToRef t p h = Inr h1 \<and> GetTopPlaneToRef t p h1 = Inr h1 \<and>
       plane_of h1 p = normalized (spec_top M) \<and>
       (\<forall>q. GetTopPlaneToRef t p (put_plane p q h) = Inr h1)) \<and>
    (\<exists>h1. GetBottomPlaneToRef t p h = Inr h1 \<and> GetBottomPlaneToRef t p h1 = Inr h1 \<and>
       plane_of h1 p = normalized (spec_bottom M) \<and>
       (\<forall>q. GetBottomPlaneToRef t p (put_plane p q h) = Inr h1)) \<and>
    (\<exists>h1. GetPlanesToRef t a h = Inr h1 \<and> GetPlanesToRef t a h1 = Inr h1 \<and>
       (\<forall>i<6. \<forall>q. GetPlanesToRef t a (put_plane (a ! i) q h) = Inr h1)) \<and>
    (\<exists>fp h'. GetPlanes t h = Inr (fp, h') \<and>
       plane_of h' (fp ! 0) = normalized (spec_near M) \<and>
       plane_of h' (fp ! 1) = normalized (spec_far M) \<and>
       plane_of h' (fp ! 2) = normalized (spec_left M) \<and>
       plane_of h' (fp ! 3) = normalized (spec_right M) \<and>
       plane_of h' (fp ! 4) = normalized (spec_top M) \<and>
       plane_of h' (fp ! 5) = normalized (spec_bottom M))"
proof -
  note M = is_MatrixD [OF assms(1)]
  have single: "\<exists>h1. f t p h = Inr h1 \<and> f t p h1 = Inr h1 \<and> plane_of h1 p = n \<and>
      (\<forall>q. f t p (put_plane p q h) = Inr h1)"
    if f: "\<And>h'. get_Matrix h' t = Inr M \<Longrightarrow> is_Plane h' p \<Longrightarrow> f t p h' = Inr (put_plane p n h')"
    for f :: "ref \<Rightarrow> ref \<Rightarrow> store \<Rightarrow> error + store" and n
  proof -
    have L: "layout (put_plane p q h) = layout h" for q
      using assms(2) by (rule layout_put_plane)
    have "get_Matrix (put_plane p q h) t = Inr M" "is_Plane (put_plane p q h) p" for q
      using M assms(2) by (simp_all add: get_Matrix_layout [OF L] is_Plane_layout [OF L])
    from f [OF this] f [OF M assms(2)] show ?thesis
      by (simp add: plane_of_put_plane [OF assms(2)] put_plane_absorb [OF assms(2)])
  qed
  have again: "GetPlanesToRef t a (write_all M a h) = Inr (write_all M a h)"
    using GetPlanesToRef_eq [of "write_all M a h" t M a] M assms(3)
    by (simp add: get_Matrix_write_all six_planes_write_all write_all_idem)
  have prior: "GetPlanesToRef t a (put_plane (a ! i) q h) = Inr (write_all M a h)"
    if "i < 6" for i q
  proof -
    have pi: "is_Plane h (a ! i)" using assms(3) that by (rule six_planes_nth)
    have L: "layout (put_plane (a ! i) q h) = layout h"
      using pi by (rule layout_put_plane)
    have "get_Matrix (put_plane (a ! i) q h) t = Inr M"
      using M by (simp add: get_Matrix_layout [OF L])
    moreover have "six_planes (put_plane (a ! i) q h) a"
      using assms(3) by (simp add: six_planes_layout [OF L])
    ultimately have "GetPlanesToRef t a (put_plane (a ! i) q h)
        = Inr (write_all M a (put_plane (a ! i) q h))"
      by (rule GetPlanesToRef_eq)
    then show ?thesis using that by (simp add: write_all_prior [OF assms(3)])
  qed
  have all: "\<exists>h1. GetPlanesToRef t a h = Inr h1 \<and> GetPlanesToRef t a h1 = Inr h1 \<and>
       (\<forall>i<6. \<forall>q. GetPlanesToRef t a (put_plane (a ! i) q h) = Inr h1)"
    using GetPlanesToRef_eq [OF M assms(3)] again prior by simp
  define fp where
    "fp = [length h + 1, length h + 3, length h + 5, length h + 7, length h + 9, length h + 11]"
  define h1 where "h1 = (h @ [Vector3Obj \<lparr>x = 0, y = 0, z = 0\<rparr>, PlaneObj \<lparr>normal = length h, d = 0\<rparr>,
           Vector3Obj \<lparr>x = 0, y = 0, z = 0\<rparr>, PlaneObj \<lparr>normal = length h + 2, d = 0\<rparr>,
           Vector3Obj \<lparr>x = 0, y = 0, z = 0\<rparr>, PlaneObj \<lparr>normal = length h + 4, d = 0\<rparr>,
           Vector3Obj \<lparr>x = 0, y = 0, z = 0\<rparr>, PlaneObj \<lparr>normal = length h + 6, d = 0\<rparr>,
           Vector3Obj \<lparr>x = 0, y = 0, z = 0\<rparr>, PlaneObj \<lparr>normal = length h + 8, d = 0\<rparr>,
           Vector3Obj \<lparr>x = 0, y = 0, z = 0\<rparr>, PlaneObj \<lparr>normal = length h + 10, d = 0\<rparr>])"
  have G: "GetPlanes t h = Inr (fp, write_all M fp h1)"
    using GetPlanes_eq [OF M] by (simp only: fp_def h1_def)
  have fresh: "six_planes h1 fp" "separate h1 fp"
    unfolding h1_def fp_def by (rule fresh_six_planes, rule fresh_separate)
  have fplen: "length fp = 6" by (simp add: fp_def)
  have alloc: "\<exists>fp h'. GetPlanes t h = Inr (fp, h') \<and>
       plane_of h' (fp ! 0) = normalized (spec_near M) \<and>
       plane_of h' (fp ! 1) = normalized (spec_far M) \<and>
       plane_of h' (fp ! 2) = normalized (spec_left M) \<and>
       plane_of h' (fp ! 3) = normalized (spec_right M) \<and>
       plane_of h' (fp ! 4) = normalized (spec_top M) \<and>
       plane_of h' (fp ! 5) = normalized (spec_bottom M)"
    using G write_all_slots [OF fresh, of M] by blast
  show ?thesis
    apply (intro conjI)
           apply (rule single, rule GetNearPlaneToRef_eq, assumption+)
           apply (rule single, rule GetFarPlaneToRef_eq, assumption+)
           apply (rule single, rule GetLeftPlaneToRef_eq, assumption+)
           apply (rule single, rule GetRightPlaneToRef_eq, assumption+)
           apply (rule single, rule GetTopPlaneToRef_eq, assumption+)
           apply (rule single, rule GetBottomPlaneToRef_eq, assumption+)
     apply (rule all)
    apply (rule alloc)
    done
qed

theorem extraction_is_idempotent_witness:
  "is_Matrix ex_store 0 ex_scale \<and> is_Plane ex_store 9 \<and>
   six_planes ex_store [9, 10, 11, 12, 13, 14] \<and>
   (\<exists>h1. GetTopPlaneToRef 0 9 ex_store = Inr h1 \<and> GetTopPlaneToRef 0 9 h1 = Inr h1 \<and>
      plane_of h1 9 = plane_value 0 (- 1) 0 (1 / 2) \<and>
      GetTopPlaneToRef 0 9 (ex_store[3 := Vector3Obj \<lparr>x = 5, y = 5, z = 5\<rparr>,
        9 := PlaneObj \<lparr>normal = 3, d = 5\<rparr>]) = Inr h1) \<and>
   (\<exists>h1. GetPlanesToRef 0 [9, 10, 11, 12, 13, 14] ex_store = Inr h1 \<and>
      GetPlanesToRef 0 [9, 10, 11, 12, 13, 14] h1 = Inr h1 \<and>
      GetPlanesToRef 0 [9, 10, 11, 12, 13, 14]
        (ex_store[3 := Vector3Obj \<lparr>x = 5, y = 5, z = 5\<rparr>,
           9 := PlaneObj \<lparr>normal = 3, d = 5\<rparr>]) = Inr h1)"
proof -
  note M = ex_store_typed(1)
  note P = ex_store_typed(4)
  note S = ex_store_typed(5)
  note T = extraction_is_idempotent [OF M P S]
  from T obtain h1 where "GetTopPlaneToRef 0 9 ex_store = Inr h1" "GetTopPlaneToRef 0 9 h1 = Inr h1"
    "plane_of h1 9 = normalized (spec_top ex_scale)"
    "\<forall>q. GetTopPlaneToRef 0 9 (put_plane 9 q ex_store) = Inr h1"
    by blast
  then have "GetTopPlaneToRef 0 9 ex_store = Inr h1 \<and> GetTopPlaneToRef 0 9 h1 = Inr h1 \<and>
      plane_of h1 9 = plane_value 0 (- 1) 0 (1 / 2) \<and>
      GetTopPlaneToRef 0 9 (put_plane 9 (plane_value 5 5 5 5) ex_store) = Inr h1"
    by (simp add: ex_scale_planes)
  then have 1: "\<exists>h1. GetTopPlaneToRef 0 9 ex_store = Inr h1 \<and> GetTopPlaneToRef 0 9 h1 = Inr h1 \<and>
      plane_of h1 9 = plane_value 0 (- 1) 0 (1 / 2) \<and>
      GetTopPlaneToRef 0 9 (ex_store[3 := Vector3Obj \<lparr>x = 5, y = 5, z = 5\<rparr>,
        9 := PlaneObj \<lparr>normal = 3, d = 5\<rparr>]) = Inr h1"
    unfolding ex_store_put by (rule exI)
  from T obtain h2 where "GetPlanesToRef 0 [9, 10, 11, 12, 13, 14] ex_store = Inr h2"
    "GetPlanesToRef 0 [9, 10, 11, 12, 13, 14] h2 = Inr h2"
    "\<forall>i<6. \<forall>q. GetPlanesToRef 0 [9, 10, 11, 12, 13, 14]
       (put_plane ([9, 10, 11, 12, 13, 14] ! i) q ex_store) = Inr h2"
    by blast
  then have "GetPlanesToRef 0 [9, 10, 11, 12, 13, 14] ex_store = Inr h2 \<and>
      GetPlanesToRef 0 [9, 10, 11, 12, 13, 14] h2 = Inr h2 \<and>
      GetPlanesToRef 0 [9, 10, 11, 12, 13, 14]
        (put_plane 9 (plane_value 5 5 5 5) ex_store) = Inr h2"
    by (simp add: all_less_6)
  then have 2: "\<exists>h1. GetPlanesToRef 0 [9, 10, 11, 12, 13, 14] ex_store = Inr h1 \<and>
      GetPlanesToRef 0 [9, 10, 11, 12, 13, 14] h1 = Inr h1 \<and>
      GetPlanesToRef 0 [9, 10, 11, 12, 13, 14]
        (ex_store[3 := Vector3Obj \<lparr>x = 5, y = 5, z = 5\<rparr>,
           9 := PlaneObj \<lparr>normal = 3, d = 5\<rparr>]) = Inr h1"
    unfolding ex_store_put by (rule exI)
  from M P S 1 2 show ?thesis by blast
qed

text \<open>
  Claim C7: no extraction signals an error. For every matrix, singular ones included, each
  single-plane extraction on a Plane returns; when the raw normal has length zero no
  division fault arises and the plane is left degenerate (its normal has length zero).
  GetPlanesToRef on six plane slots and GetPlanes return as well, and with six separate
  planes every slot holds the normalized plane of its own coefficients, so a degenerate
  slot does not keep the other five from being computed.
\<close>

theorem extraction_never_fails:
  assumes "is_Matrix h t M" and "is_Plane h p" and "six_planes h a"
  shows "(\<exists>h'. GetNearPlaneToRef t p h = Inr h' \<and>
       (Vector3_length (normal_v (spec_near M)) = 0 \<longrightarrow>
          Vector3_length (normal_v (plane_of h' p)) = 0)) \<and>
    (\<exists>h'. GetFarPlaneToRef t p h = Inr h' \<and>
       (Vector3_length (normal_v (spec_far M)) = 0 \<longrightarrow>
          Vector3_length (normal_v (plane_of h' p)) = 0)) \<and>
    (\<exists>h'. GetLeftPlaneToRef t p h = Inr h' \<and>
       (Vector3_length (normal_v (spec_left M)) = 0 \<longrightarrow>
          Vector3_length (normal_v (plane_of h' p)) = 0)) \<and>
    (\<exists>h'. GetRightPlaneToRef t p h = Inr h' \<and>
       (Vector3_length (normal_v (spec_right M)) = 0 \<longrightarrow>
          Vector3_length (normal_v (plane_of h' p)) = 0)) \<and>
    (\<exists>h'. GetTopPlaneToRef t p h = Inr h' \<and>
       (Vector3_length (normal_v (spec_top M)) = 0 \<longrightarrow>
          Vector3_length (normal_v (plane_of h' p)) = 0)) \<and>
    (\<exists>h'. GetBottomPlaneToRef t p h = Inr h' \<and>
       (Vector3_length (normal_v (spec_bottom M)) = 0 \<longrightarrow>
          Vector3_length (normal_v (plane_of h' p)) = 0)) \<and>
    (\<exists>h'. GetPlanesToRef t a h = Inr h' \<and> six_planes h' a \<and>
       (separate h a \<longrightarrow>
          plane_of h' (a ! 0) = normalized (spec_near M) \<and>
          plane_of h' (a ! 1) = normalized (spec_far M) \<and>
          plane_of h' (a ! 2) = normalized (spec_left M) \<and>
          plane_of h' (a ! 3) = normalized (spec_right M) \<and>
          plane_of h' (a ! 4) = normalized (spec_top M) \<and>
          plane_of h' (a ! 5) = normalized (spec_bottom M))) \<and>
    (\<exists>fp h'. GetPlanes t h = Inr (fp, h'))"
proof -
  note M = is_MatrixD [OF assms(1)]
  have zero: "Vector3_length (normal_v (normalized q)) = 0"
    if "Vector3_length (normal_v q) = 0" for q
    using that by (simp add: normalized_degenerate Vector3_length_def plane_value_def)
  have single: "\<exists>h'. f t p h = Inr h' \<and>
      (Vector3_length (normal_v n) = 0 \<longrightarrow> Vector3_length (normal_v (plane_of h' p)) = 0)"
    if f: "f t p h = Inr (put_plane p (normalized n) h)"
    for f :: "ref \<Rightarrow> ref \<Rightarrow> store \<Rightarrow> error + store" and n
    using f zero by (simp add: plane_of_put_plane [OF assms(2)])
  have all: "\<exists>h'. GetPlanesToRef t a h = Inr h' \<and> six_planes h' a \<and>
       (separate h a \<longrightarrow>
          plane_of h' (a ! 0) = normalized (spec_near M) \<and>
          plane_of h' (a ! 1) = normalized (spec_far M) \<and>
          plane_of h' (a ! 2) = normalized (spec_left M) \<and>
          plane_of h' (a ! 3) = normalized (spec_right M) \<and>
          plane_of h' (a ! 4) = normalized (spec_top M) \<and>
          plane_of h' (a ! 5) = normalized (spec_bottom M))"
  proof (intro exI conjI impI)
    show "GetPlanesToRef t a h = Inr (write_all M a h)"
      using M assms(3) by (rule GetPlanesToRef_eq)
    show "six_planes (write_all M a h) a"
      using assms(3) by (simp add: six_planes_write_all)
  qed (rule write_all_slots [OF assms(3)], assumption)+
  have alloc: "\<exists>fp h'. GetPlanes t h = Inr (fp, h')"
    using GetPlanes_eq [OF M] by blast
  show ?thesis
    apply (intro conjI)
           apply (rule single, rule GetNearPlaneToRef_eq [OF M assms(2)])
           apply (rule single, rule GetFarPlaneToRef_eq [OF M assms(2)])
           apply (rule single, rule GetLeftPlaneToRef_eq [OF M assms(2)])
           apply (rule single, rule GetRightPlaneToRef_eq [OF M assms(2)])
           apply (rule single, rule GetTopPlaneToRef_eq [OF M assms(2)])
           apply (rule single, rule GetBottomPlaneToRef_eq [OF M assms(2)])
     apply (rule all)
    apply (rule alloc)
    done
qed

theorem extraction_never_fails_witness:
  "is_Matrix ex_store 2 ex_singular \<and> is_Plane ex_store 9 \<and>
   six_planes ex_store [9, 10, 11, 12, 13, 14] \<and>
   separate ex_store [9, 10, 11, 12, 13, 14] \<and>
   Vector3_length (normal_v (spec_near ex_singular)) = 0 \<and>
   (\<exists>h'. GetNearPlaneToRef 2 9 ex_store = Inr h' \<and>
      Vector3_length (normal_v (plane_of h' 9)) = 0) \<and>
   (\<exists>h'. GetPlanesToRef 2 [9, 10, 11, 12, 13, 14] ex_store = Inr h' \<and>
      six_planes h' [9, 10, 11, 12, 13, 14] \<and>
      plane_of h' 9 = plane_value 0 0 0 0 \<and>
      plane_of h' 10 = plane_value 0 0 1 (1 / 2) \<and>
      plane_of h' 11 = plane_value 0 0 1 1 \<and>
      plane_of h' 12 = plane_value 0 0 1 1 \<and>
      plane_of h' 13 = plane_value 0 0 1 1 \<and>
      plane_of h' 14 = plane_value 0 0 1 1) \<and>
   (\<exists>fp h'. GetPlanes 2 ex_store = Inr (fp, h'))"
proof -
  note M = ex_store_typed(3)
  note P = ex_store_typed(4)
  note S = ex_store_typed(5)
  note D = ex_store_typed(6)
  note Z = ex_singular_planes(1)
  note N = ex_singular_planes(2-)
  note T = extraction_never_fails [OF M P S]
  have 1: "\<exists>h'. GetNearPlaneToRef 2 9 ex_store = Inr h' \<and>
      Vector3_length (normal_v (plane_of h' 9)) = 0"
    using T Z by blast
  from T obtain h' where "GetPlanesToRef 2 [9, 10, 11, 12, 13, 14] ex_store = Inr h'"
    and "six_planes h' [9, 10, 11, 12, 13, 14]"
    and "separate ex_store [9, 10, 11, 12, 13, 14] \<longrightarrow>
          plane_of h' ([9, 10, 11, 12, 13, 14] ! 0) = normalized (spec_near ex_singular) \<and>
          plane_of h' ([9, 10, 11, 12, 13, 14] ! 1) = normalized (spec_far ex_singular) \<and>
          plane_of h' ([9, 10, 11, 12, 13, 14] ! 2) = normalized (spec_left ex_singular) \<and>
          plane_of h' ([9, 10, 11, 12, 13, 14] ! 3) = normalized (spec_right ex_singular) \<and>
          plane_of h' ([9, 10, 11, 12, 13, 14] ! 4) = normalized (spec_top ex_singular) \<and>
          plane_of h' ([9, 10, 11, 12, 13, 14] ! 5) = normalized (spec_bottom ex_singular)"
    by blast
  with D have 2: "\<exists>h'. GetPlanesToRef 2 [9, 10, 11, 12, 13, 14] ex_store = Inr h' \<and>
      six_planes h' [9, 10, 11, 12, 13, 14] \<and>
      plane_of h' 9 = plane_value 0 0 0 0 \<and>
      plane_of h' 10 = plane_value 0 0 1 (1 / 2) \<and>
      plane_of h' 11 = plane_value 0 0 1 1 \<and>
      plane_of h' 12 = plane_value 0 0 1 1 \<and>
      plane_of h' 13 = plane_value 0 0 1 1 \<and>
      plane_of h' 14 = plane_value 0 0 1 1"
    by (simp add: N)
  have 3: "\<exists>fp h'. GetPlanes 2 ex_store = Inr (fp, h')"
    using T by blast
  from M P S D Z 1 2 3 show ?thesis by blast
qed

text \<open>
  Claim C8: no operation mutates the input matrix, and an extraction writes only its
  target plane or planes, a plane being the Plane object and the Vector3 that is its
  normal: after a single-plane extraction every reference other than these two holds
  what it held; after GetPlanesToRef every reference outside the planes of the first six
  slots does; after GetPlanes every object that existed before does. IsPointInFrustum
  mutates nothing: the store it leaves is the store it was given, so the point and every
  plane of the sequence are unchanged.
\<close>

theorem only_target_planes_are_written:
  "(GetNearPlaneToRef t p h = Inr h' \<longrightarrow>
      lookup h' t = lookup h t \<and> length h' = length h \<and>
      (\<forall>r. r \<notin> set (storage h p) \<longrightarrow> lookup h' r = lookup h r)) \<and>
   (GetFarPlaneToRef t p h = Inr h' \<longrightarrow>
      lookup h' t = lookup h t \<and> length h' = length h \<and>
      (\<forall>r. r \<notin> set (storage h p) \<longrightarrow> lookup h' r = lookup h r)) \<and>
   (GetLeftPlaneToRef t p h = Inr h' \<longrightarrow>
      lookup h' t = lookup h t \<and> length h' = length h \<and>
      (\<forall>r. r \<notin> set (storage h p) \<longrightarrow> lookup h' r = lookup h r)) \<and>
   (GetRightPlaneToRef t p h = Inr h' \<longrightarrow>
      lookup h' t = lookup h t \<and> length h' = length h \<and>
      (\<forall>r. r \<notin> set (storage h p) \<longrightarrow> lookup h' r = lookup h r)) \<and>
   (GetTopPlaneToRef t p h = Inr h' \<longrightarrow>
      lookup h' t = lookup h t \<and> length h' = length h \<and>
      (\<forall>r. r \<notin> set (storage h p) \<longrightarrow> lookup h' r = lookup h r)) \<and>
   (GetBottomPlaneToRef t p h = Inr h' \<longrightarrow>
      lookup h' t = lookup h t \<and> length h' = length h \<and>
      (\<forall>r. r \<notin> set (storage h p) \<longrightarrow> lookup h' r = lookup h r)) \<and>
   (GetPlanesToRef t a h = Inr h' \<longrightarrow>
      lookup h' t = lookup h t \<and> length h' = length h \<and>
      (\<forall>r. r \<notin> set (concat (map (storage h) (take 6 a))) \<longrightarrow> lookup h' r = lookup h r)) \<and>
   (GetPlanes t h = Inr (fp, h') \<longrightarrow>
      lookup h' t = lookup h t \<and> take (length h) h' = h) \<and>
   (IsPointInFrustum point a h = Inr (b, h') \<longrightarrow> h' = h)"
proof -
  have single: "lookup h' t = lookup h t \<and> length h' = length h \<and>
      (\<forall>r. r \<notin> set (storage h p) \<longrightarrow> lookup h' r = lookup h r)"
    if res: "f t p h = Inr h'"
      and D: "\<And>h'. f t p h = Inr h' \<Longrightarrow> \<exists>M. get_Matrix h t = Inr M \<and> is_Plane h p"
      and E: "\<And>M. get_Matrix h t = Inr M \<Longrightarrow> is_Plane h p \<Longrightarrow>
                f t p h = Inr (put_plane p (n M) h)"
    for f :: "ref \<Rightarrow> ref \<Rightarrow> store \<Rightarrow> error + store" and n
  proof -
    from D [OF res] obtain M where M: "get_Matrix h t = Inr M" and P: "is_Plane h p" by blast
    from E [OF M P] res have h': "h' = put_plane p (n M) h" by simp
    have "t \<notin> set (storage h p)" using M P by (rule matrix_not_in_storage)
    then show ?thesis by (simp add: h' put_plane_outside)
  qed
  have all: "lookup h' t = lookup h t \<and> length h' = length h \<and>
      (\<forall>r. r \<notin> set (concat (map (storage h) (take 6 a))) \<longrightarrow> lookup h' r = lookup h r)"
    if res: "GetPlanesToRef t a h = Inr h'"
  proof -
    from GetPlanesToRef_InrD [OF res] obtain M where M: "get_Matrix h t = Inr M"
      and S: "six_planes h a" and h': "h' = write_all M a h" by blast
    have "t \<notin> set (concat (map (storage h) (take 6 a)))" using M S by (rule matrix_not_in_slots)
    then show ?thesis
      using write_all_outside [OF S, of _ M] by (simp add: h')
  qed
  have alloc: "lookup h' t = lookup h t \<and> take (length h) h' = h"
    if res: "GetPlanes t h = Inr (fp, h')"
  proof -
    from GetPlanes_InrD [OF res] obtain M where M: "get_Matrix h t = Inr M" by blast
    define fp0 where
      "fp0 = [length h + 1, length h + 3, length h + 5, length h + 7, length h + 9, length h + 11]"
    define h1 where "h1 = (h @ [Vector3Obj \<lparr>x = 0, y = 0, z = 0\<rparr>, PlaneObj \<lparr>normal = length h, d = 0\<rparr>,
           Vector3Obj \<lparr>x = 0, y = 0, z = 0\<rparr>, PlaneObj \<lparr>normal = length h + 2, d = 0\<rparr>,
           Vector3Obj \<lparr>x = 0, y = 0, z = 0\<rparr>, PlaneObj \<lparr>normal = length h + 4, d = 0\<rparr>,
           Vector3Obj \<lparr>x = 0, y = 0, z = 0\<rparr>, PlaneObj \<lparr>normal = length h + 6, d = 0\<rparr>,
           Vector3Obj \<lparr>x = 0, y = 0, z = 0\<rparr>, PlaneObj \<lparr>normal = length h + 8, d = 0\<rparr>,
           Vector3Obj \<lparr>x = 0, y = 0, z = 0\<rparr>, PlaneObj \<lparr>normal = length h + 10, d = 0\<rparr>])"
    have "GetPlanes t h = Inr (fp0, write_all M fp0 h1)"
      using GetPlanes_eq [OF M] by (simp only: fp0_def h1_def)
    with res have "h' = write_all M fp0 h1" by auto
    then have old: "take (length h) h' = h"
      by (simp only: fp0_def h1_def take_write_all_fresh)
    have "t < length h"
      using M by (auto simp: get_Matrix_def lookup_def split: if_splits)
    then have "lookup h' t = lookup (take (length h) h') t"
      using old by (metis length_take lookup_def min.cobounded1 not_less nth_take order_less_le_trans)
    with old show ?thesis by simp
  qed
  have pure: "h' = h" if "IsPointInFrustum point a h = Inr (b, h')"
    using that unfolding IsPointInFrustum_def by (rule IsPointInFrustum_loop_store)
  show ?thesis
  proof (intro conjI)
    show "GetNearPlaneToRef t p h = Inr h' \<longrightarrow>
      lookup h' t = lookup h t \<and> length h' = length h \<and>
      (\<forall>r. r \<notin> set (storage h p) \<longrightarrow> lookup h' r = lookup h r)"
      by (intro impI, erule single, erule GetNearPlaneToRef_InrD, erule (1) GetNearPlaneToRef_eq)
    show "GetFarPlaneToRef t p h = Inr h' \<longrightarrow>
      lookup h' t = lookup h t \<and> length h' = length h \<and>
      (\<forall>r. r \<notin> set (storage h p) \<longrightarrow> lookup h' r = lookup h r)"
      by (intro impI, erule single, erule GetFarPlaneToRef_InrD, erule (1) GetFarPlaneToRef_eq)
    show "GetLeftPlaneToRef t p h = Inr h' \<longrightarrow>
      lookup h' t = lookup h t \<and> length h' = length h \<and>
      (\<forall>r. r \<notin> set (storage h p) \<longrightarrow> lookup h' r = lookup h r)"
      by (intro impI, erule single, erule GetLeftPlaneToRef_InrD, erule (1) GetLeftPlaneToRef_eq)
    show "GetRightPlaneToRef t p h = Inr h' \<longrightarrow>
      lookup h' t = lookup h t \<and> length h' = length h \<and>
      (\<forall>r. r \<notin> set (storage h p) \<longrightarrow> lookup h' r = lookup h r)"
      by (intro impI, erule single, erule GetRightPlaneToRef_InrD, erule (1) GetRightPlaneToRef_eq)
    show "GetTopPlaneToRef t p h = Inr h' \<longrightarrow>
      lookup h' t = lookup h t \<and> length h' = length h \<and>
      (\<forall>r. r \<notin> set (storage h p) \<longrightarrow> lookup h' r = lookup h r)"
      by (intro impI, erule single, erule GetTopPlaneToRef_InrD, erule (1) GetTopPlaneToRef_eq)
    show "GetBottomPlaneToRef t p h = Inr h' \<longrightarrow>
      lookup h' t = lookup h t \<and> length h' = length h \<and>
      (\<forall>r. r \<notin> set (storage h p) \<longrightarrow> lookup h' r = lookup h r)"
      by (intro impI, erule single, erule GetBottomPlaneToRef_InrD, erule (1) GetBottomPlaneToRef_eq)
    show "GetPlanesToRef t a h = Inr h' \<longrightarrow>
      lookup h' t = lookup h t \<and> length h' = length h \<and>
      (\<forall>r. r \<notin> set (concat (map (storage h) (take 6 a))) \<longrightarrow> lookup h' r = lookup h r)"
      using all by blast
    show "GetPlanes t h = Inr (fp, h') \<longrightarrow> lookup h' t = lookup h t \<and> take (length h) h' = h"
      using alloc by blast
    show "IsPointInFrustum point a h = Inr (b, h') \<longrightarrow> h' = h"
      using pure by blast
  qed
qed

theorem only_target_planes_are_written_witness:
  "(\<exists>h'. GetNearPlaneToRef 0 9 ex_store = Inr h' \<and> lookup h' 0 = Some (MatrixObj ex_scale) \<and>
      length h' = 18 \<and> lookup h' 4 = lookup ex_store 4 \<and> lookup h' 10 = lookup ex_store 10 \<and>
      lookup h' 17 = lookup ex_store 17) \<and>
   (\<exists>h'. GetPlanesToRef 0 [9, 10, 11, 12, 13, 14] ex_store = Inr h' \<and>
      lookup h' 0 = Some (MatrixObj ex_scale) \<and> lookup h' 15 = lookup ex_store 15 \<and>
      lookup h' 16 = lookup ex_store 16 \<and> lookup h' 17 = lookup ex_store 17) \<and>
   (\<exists>fp h'. GetPlanes 0 [MatrixObj ex_scale] = Inr (fp, h') \<and>
      take 1 h' = [MatrixObj ex_scale]) \<and>
   (\<exists>b h'. IsPointInFrustum 14 [6, 7, 8, 9, 10, 11] ex_cube = Inr (b, h') \<and> h' = ex_cube)"
proof -
  have M: "get_Matrix ex_store 0 = Inr ex_scale" "get_Matrix [MatrixObj ex_scale] 0 = Inr ex_scale"
    by (simp_all add: get_Matrix_def lookup_def ex_store_def)
  have M0: "lookup ex_store 0 = Some (MatrixObj ex_scale)"
    by (simp add: lookup_def ex_store_def)
  note P = ex_store_typed(4)
  note S = ex_store_typed(5)
  note V = ex_cube_typed(1)
  note C = ex_cube_typed(3)
  have K: "storage ex_store 9 = [3, 9]"
    "concat (map (storage ex_store) (take 6 [9, 10, 11, 12, 13, 14]))
       = [3, 9, 4, 10, 5, 11, 6, 12, 7, 13, 8, 14]"
    by (simp_all add: storage_def lookup_def ex_store_def)
  obtain h1 where r1: "GetNearPlaneToRef 0 9 ex_store = Inr h1"
    using GetNearPlaneToRef_eq [OF M(1) P] by blast
  from only_target_planes_are_written [of 0 9 ex_store h1] r1
  have f1: "lookup h1 0 = lookup ex_store 0" "length h1 = length ex_store"
    "\<forall>r. r \<notin> set (storage ex_store 9) \<longrightarrow> lookup h1 r = lookup ex_store r"
    by blast+
  have 1: "\<exists>h'. GetNearPlaneToRef 0 9 ex_store = Inr h' \<and>
      lookup h' 0 = Some (MatrixObj ex_scale) \<and> length h' = 18 \<and>
      lookup h' 4 = lookup ex_store 4 \<and> lookup h' 10 = lookup ex_store 10 \<and>
      lookup h' 17 = lookup ex_store 17"
    using r1 f1 M0 unfolding K by (intro exI [of _ h1]) (simp add: ex_store_def)
  obtain h2 where r2: "GetPlanesToRef 0 [9, 10, 11, 12, 13, 14] ex_store = Inr h2"
    using GetPlanesToRef_eq [OF M(1) S] by blast
  from only_target_planes_are_written [of 0 _ ex_store h2 "[9, 10, 11, 12, 13, 14]"] r2
  have f2: "lookup h2 0 = lookup ex_store 0"
    "\<forall>r. r \<notin> set (concat (map (storage ex_store) (take 6 [9, 10, 11, 12, 13, 14])))
       \<longrightarrow> lookup h2 r = lookup ex_store r"
    by blast+
  have 2: "\<exists>h'. GetPlanesToRef 0 [9, 10, 11, 12, 13, 14] ex_store = Inr h' \<and>
      lookup h' 0 = Some (MatrixObj ex_scale) \<and> lookup h' 15 = lookup ex_store 15 \<and>
      lookup h' 16 = lookup ex_store 16 \<and> lookup h' 17 = lookup ex_store 17"
    using r2 f2 M0 unfolding K by (intro exI [of _ h2]) simp
  obtain fp h3 where r3: "GetPlanes 0 [MatrixObj ex_scale] = Inr (fp, h3)"
    using GetPlanes_eq [OF M(2)] by blast
  from only_target_planes_are_written [of 0 _ "[MatrixObj ex_scale]" h3 _ fp] r3
  have f3: "take (length [MatrixObj ex_scale]) h3 = [MatrixObj ex_scale]"
    by blast
  have 3: "\<exists>fp h'. GetPlanes 0 [MatrixObj ex_scale] = Inr (fp, h') \<and>
      take 1 h' = [MatrixObj ex_scale]"
    using r3 f3 by (intro exI [of _ fp] exI [of _ h3]) simp
  have "\<exists>b. IsPointInFrustum 14 [6, 7, 8, 9, 10, 11] ex_cube = Inr (b, ex_cube)"
    unfolding IsPointInFrustum_eq [OF V C] by auto
  then obtain b h4 where r4: "IsPointInFrustum 14 [6, 7, 8, 9, 10, 11] ex_cube = Inr (b, h4)"
    by blast
  from only_target_planes_are_written [of _ _ ex_cube h4 "[6, 7, 8, 9, 10, 11]" _ 14 b] r4
  have f4: "h4 = ex_cube" by blast
  have 4: "\<exists>b h'. IsPointInFrustum 14 [6, 7, 8, 9, 10, 11] ex_cube = Inr (b, h') \<and> h' = ex_cube"
    using r4 f4 by blast
  from 1 2 3 4 show ?thesis by (intro conjI)
qed

text \<open>
  Claim C4 speaks of every sequence of six pre-allocated planes. As stated it fails for
  six distinct Plane objects that hold one Vector3 as their normal: every extraction
  writes its normal into that one vector, so after GetPlanesToRef the plane of slot 0
  has the normal of the bottom plane, (0, 1, 0) for the scaling, while GetNearPlaneToRef
  called on that slot with the same matrix leaves the near plane, with the normal
  (0, 0, 1).
\<close>

theorem GetPlanesToRef_shared_normal_counterexample:
  "is_Matrix ex_shared 0 ex_scale \<and> six_planes ex_shared [2, 3, 4, 5, 6, 7] \<and>
   distinct [2, 3, 4, 5, 6, 7 :: nat] \<and>
   GetPlanesToRef 0 [2, 3, 4, 5, 6, 7] ex_shared =
     Inr [MatrixObj ex_scale, Vector3Obj \<lparr>x = 0, y = 1, z = 0\<rparr>,
      PlaneObj \<lparr>normal = 1, d = 1 / 2\<rparr>, PlaneObj \<lparr>normal = 1, d = 1 / 2\<rparr>,
      PlaneObj \<lparr>normal = 1, d = 1 / 2\<rparr>, PlaneObj \<lparr>normal = 1, d = 1 / 2\<rparr>,
      PlaneObj \<lparr>normal = 1, d = 1 / 2\<rparr>, PlaneObj \<lparr>normal = 1, d = 1 / 2\<rparr>] \<and>
   GetNearPlaneToRef 0 ([2, 3, 4, 5, 6, 7] ! 0) ex_shared =
     Inr [MatrixObj ex_scale, Vector3Obj \<lparr>x = 0, y = 0, z = 1\<rparr>,
      PlaneObj \<lparr>normal = 1, d = 1 / 2\<rparr>, PlaneObj \<lparr>normal = 1, d = 0\<rparr>,
      PlaneObj \<lparr>normal = 1, d = 0\<rparr>, PlaneObj \<lparr>normal = 1, d = 0\<rparr>,
      PlaneObj \<lparr>normal = 1, d = 0\<rparr>, PlaneObj \<lparr>normal = 1, d = 0\<rparr>] \<and>
   plane_of [MatrixObj ex_scale, Vector3Obj \<lparr>x = 0, y = 1, z = 0\<rparr>,
      PlaneObj \<lparr>normal = 1, d = 1 / 2\<rparr>, PlaneObj \<lparr>normal = 1, d = 1 / 2\<rparr>,
      PlaneObj \<lparr>normal = 1, d = 1 / 2\<rparr>, PlaneObj \<lparr>normal = 1, d = 1 / 2\<rparr>,
      PlaneObj \<lparr>normal = 1, d = 1 / 2\<rparr>, PlaneObj \<lparr>normal = 1, d = 1 / 2\<rparr>] ([2, 3, 4, 5, 6, 7] ! 0) = plane_value 0 1 0 (1 / 2) \<and>
   plane_of [MatrixObj ex_scale, Vector3Obj \<lparr>x = 0, y = 0, z = 1\<rparr>,
      PlaneObj \<lparr>normal = 1, d = 1 / 2\<rparr>, PlaneObj \<lparr>normal = 1, d = 0\<rparr>,
      PlaneObj \<lparr>normal = 1, d = 0\<rparr>, PlaneObj \<lparr>normal = 1, d = 0\<rparr>,
      PlaneObj \<lparr>normal = 1, d = 0\<rparr>, PlaneObj \<lparr>normal = 1, d = 0\<rparr>] ([2, 3, 4, 5, 6, 7] ! 0) = plane_value 0 0 1 (1 / 2) \<and>
   normalized (spec_near ex_scale) = plane_value 0 0 1 (1 / 2) \<and>
   plane_value 0 1 0 (1 / 2) \<noteq> plane_value 0 0 1 (1 / 2)"
proof -
  note M = is_MatrixD [OF ex_shared_typed(1)]
  have 1: "GetPlanesToRef 0 [2, 3, 4, 5, 6, 7] ex_shared =
     Inr [MatrixObj ex_scale, Vector3Obj \<lparr>x = 0, y = 1, z = 0\<rparr>,
      PlaneObj \<lparr>normal = 1, d = 1 / 2\<rparr>, PlaneObj \<lparr>normal = 1, d = 1 / 2\<rparr>,
      PlaneObj \<lparr>normal = 1, d = 1 / 2\<rparr>, PlaneObj \<lparr>normal = 1, d = 1 / 2\<rparr>,
      PlaneObj \<lparr>normal = 1, d = 1 / 2\<rparr>, PlaneObj \<lparr>normal = 1, d = 1 / 2\<rparr>]"
    using GetPlanesToRef_eq [OF M ex_shared_typed(3)] by (simp only: ex_shared_all)
  have 2: "GetNearPlaneToRef 0 ([2, 3, 4, 5, 6, 7] ! 0) ex_shared =
     Inr [MatrixObj ex_scale, Vector3Obj \<lparr>x = 0, y = 0, z = 1\<rparr>,
      PlaneObj \<lparr>normal = 1, d = 1 / 2\<rparr>, PlaneObj \<lparr>normal = 1, d = 0\<rparr>,
      PlaneObj \<lparr>normal = 1, d = 0\<rparr>, PlaneObj \<lparr>normal = 1, d = 0\<rparr>,
      PlaneObj \<lparr>normal = 1, d = 0\<rparr>, PlaneObj \<lparr>normal = 1, d = 0\<rparr>]"
    using GetNearPlaneToRef_eq [OF M ex_shared_typed(2)]
    by (simp add: ex_scale_planes ex_shared_near)
  have 3: "plane_of [MatrixObj ex_scale, Vector3Obj \<lparr>x = 0, y = 1, z = 0\<rparr>,
      PlaneObj \<lparr>normal = 1, d = 1 / 2\<rparr>, PlaneObj \<lparr>normal = 1, d = 1 / 2\<rparr>,
      PlaneObj \<lparr>normal = 1, d = 1 / 2\<rparr>, PlaneObj \<lparr>normal = 1, d = 1 / 2\<rparr>,
      PlaneObj \<lparr>normal = 1, d = 1 / 2\<rparr>, PlaneObj \<lparr>normal = 1, d = 1 / 2\<rparr>] ([2, 3, 4, 5, 6, 7] ! 0) = plane_value 0 1 0 (1 / 2)"
    "plane_of [MatrixObj ex_scale, Vector3Obj \<lparr>x = 0, y = 0, z = 1\<rparr>,
      PlaneObj \<lparr>normal = 1, d = 1 / 2\<rparr>, PlaneObj \<lparr>normal = 1, d = 0\<rparr>,
      PlaneObj \<lparr>normal = 1, d = 0\<rparr>, PlaneObj \<lparr>normal = 1, d = 0\<rparr>,
      PlaneObj \<lparr>normal = 1, d = 0\<rparr>, PlaneObj \<lparr>normal = 1, d = 0\<rparr>] ([2, 3, 4, 5, 6, 7] ! 0) = plane_value 0 0 1 (1 / 2)"
    by (simp_all add: plane_of_def lookup_def plane_value_def)
  have 4: "plane_value 0 1 0 (1 / 2) \<noteq> plane_value 0 0 1 (1 / 2)"
    by (simp add: plane_value_def)
  have 5: "distinct [2, 3, 4, 5, 6, 7 :: nat]" by simp
  show ?thesis
    apply (intro conjI)
            apply (rule ex_shared_typed(1))
           apply (rule ex_shared_typed(3))
          apply (rule 5)
         apply (rule 1)
        apply (rule 2)
       apply (rule 3(1))
      apply (rule 3(2))
     apply (rule ex_scale_planes(1))
    apply (rule 4)
    done
qed

text \<open>
  Claim C4, amended: for a matrix and six pre-allocated planes that are separate (no two
  slots share the Plane object or the Vector3 of the normal), GetPlanesToRef overwrites
  slot 0 with the near plane, slot 1 with the far plane, slot 2 with the left plane,
  slot 3 with the right plane, slot 4 with the top plane and slot 5 with the bottom
  plane, and the final value of each slot is the one that the corresponding single-plane
  extraction gives when called with the same matrix on that slot.
\<close>

theorem GetPlanesToRef_slot_for_slot:
  assumes "is_Matrix h t M" and "six_planes h a" and "separate h a"
  shows "\<exists>h'. GetPlanesToRef t a h = Inr h' \<and>
    plane_of h' (a ! 0) = normalized (spec_near M) \<and>
    plane_of h' (a ! 1) = normalized (spec_far M) \<and>
    plane_of h' (a ! 2) = normalized (spec_left M) \<and>
    plane_of h' (a ! 3) = normalized (spec_right M) \<and>
    plane_of h' (a ! 4) = normalized (spec_top M) \<and>
    plane_of h' (a ! 5) = normalized (spec_bottom M) \<and>
    (\<exists>h0. GetNearPlaneToRef t (a ! 0) h = Inr h0 \<and> plane_of h0 (a ! 0) = plane_of h' (a ! 0)) \<and>
    (\<exists>h1. GetFarPlaneToRef t (a ! 1) h = Inr h1 \<and> plane_of h1 (a ! 1) = plane_of h' (a ! 1)) \<and>
    (\<exists>h2. GetLeftPlaneToRef t (a ! 2) h = Inr h2 \<and> plane_of h2 (a ! 2) = plane_of h' (a ! 2)) \<and>
    (\<exists>h3. GetRightPlaneToRef t (a ! 3) h = Inr h3 \<and> plane_of h3 (a ! 3) = plane_of h' (a ! 3)) \<and>
    (\<exists>h4. GetTopPlaneToRef t (a ! 4) h = Inr h4 \<and> plane_of h4 (a ! 4) = plane_of h' (a ! 4)) \<and>
    (\<exists>h5. GetBottomPlaneToRef t (a ! 5) h = Inr h5 \<and> plane_of h5 (a ! 5) = plane_of h' (a ! 5))"
proof -
  note M = is_MatrixD [OF assms(1)]
  note P = six_planesD [OF assms(2)]
  note W = write_all_slots [OF assms(2,3), of M]
  have all: "GetPlanesToRef t a h = Inr (write_all M a h)"
    using M assms(2) by (rule GetPlanesToRef_eq)
  have 0: "\<exists>h0. GetNearPlaneToRef t (a ! 0) h = Inr h0 \<and>
      plane_of h0 (a ! 0) = plane_of (write_all M a h) (a ! 0)"
    using GetNearPlaneToRef_eq [OF M P(2)] W(1)
      plane_of_put_plane [OF P(2), of "normalized (spec_near M)"]
    by simp
  have 1: "\<exists>h1. GetFarPlaneToRef t (a ! 1) h = Inr h1 \<and>
      plane_of h1 (a ! 1) = plane_of (write_all M a h) (a ! 1)"
    using GetFarPlaneToRef_eq [OF M P(3)] W(2)
      plane_of_put_plane [OF P(3), of "normalized (spec_far M)"]
    by simp
  have 2: "\<exists>h2. GetLeftPlaneToRef t (a ! 2) h = Inr h2 \<and>
      plane_of h2 (a ! 2) = plane_of (write_all M a h) (a ! 2)"
    using GetLeftPlaneToRef_eq [OF M P(4)] W(3)
      plane_of_put_plane [OF P(4), of "normalized (spec_left M)"]
    by simp
  have 3: "\<exists>h3. GetRightPlaneToRef t (a ! 3) h = Inr h3 \<and>
      plane_of h3 (a ! 3) = plane_of (write_all M a h) (a ! 3)"
    using GetRightPlaneToRef_eq [OF M P(5)] W(4)
      plane_of_put_plane [OF P(5), of "normalized (spec_right M)"]
    by simp
  have 4: "\<exists>h4. GetTopPlaneToRef t (a ! 4) h = Inr h4 \<and>
      plane_of h4 (a ! 4) = plane_of (write_all M a h) (a ! 4)"
    using GetTopPlaneToRef_eq [OF M P(6)] W(5)
      plane_of_put_plane [OF P(6), of "normalized (spec_top M)"]
    by simp
  have 5: "\<exists>h5. GetBottomPlaneToRef t (a ! 5) h = Inr h5 \<and>
      plane_of h5 (a ! 5) = plane_of (write_all M a h) (a ! 5)"
    using GetBottomPlaneToRef_eq [OF M P(7)] W(6)
      plane_of_put_plane [OF P(7), of "normalized (spec_bottom M)"]
    by simp
  from all W 0 1 2 3 4 5 show ?thesis by blast
qed

theorem GetPlanesToRef_slot_for_slot_witness:
  "is_Matrix ex_store 0 ex_scale \<and> six_planes ex_store [9, 10, 11, 12, 13, 14] \<and>
   separate ex_store [9, 10, 11, 12, 13, 14] \<and>
   (\<exists>h'. GetPlanesToRef 0 [9, 10, 11, 12, 13, 14] ex_store = Inr h' \<and>
      plane_of h' 9 = plane_value 0 0 1 (1 / 2) \<and>
      plane_of h' 10 = plane_value 0 0 (- 1) (1 / 2) \<and>
      plane_of h' 11 = plane_value 1 0 0 (1 / 2) \<and>
      plane_of h' 12 = plane_value (- 1) 0 0 (1 / 2) \<and>
      plane_of h' 13 = plane_value 0 (- 1) 0 (1 / 2) \<and>
      plane_of h' 14 = plane_value 0 1 0 (1 / 2) \<and>
      (\<exists>h3. GetRightPlaneToRef 0 12 ex_store = Inr h3 \<and> plane_of h3 12 = plane_of h' 12))"
proof -
  note M = ex_store_typed(1)
  note S = ex_store_typed(5)
  note D = ex_store_typed(6)
  note N = ex_scale_planes
  from GetPlanesToRef_slot_for_slot [OF M S D] obtain h' where
    "GetPlanesToRef 0 [9, 10, 11, 12, 13, 14] ex_store = Inr h'"
    "plane_of h' ([9, 10, 11, 12, 13, 14] ! 0) = normalized (spec_near ex_scale)"
    "plane_of h' ([9, 10, 11, 12, 13, 14] ! 1) = normalized (spec_far ex_scale)"
    "plane_of h' ([9, 10, 11, 12, 13, 14] ! 2) = normalized (spec_left ex_scale)"
    "plane_of h' ([9, 10, 11, 12, 13, 14] ! 3) = normalized (spec_right ex_scale)"
    "plane_of h' ([9, 10, 11, 12, 13, 14] ! 4) = normalized (spec_top ex_scale)"
    "plane_of h' ([9, 10, 11, 12, 13, 14] ! 5) = normalized (spec_bottom ex_scale)"
    "\<exists>h3. GetRightPlaneToRef 0 ([9, 10, 11, 12, 13, 14] ! 3) ex_store = Inr h3 \<and>
       plane_of h3 ([9, 10, 11, 12, 13, 14] ! 3) = plane_of h' ([9, 10, 11, 12, 13, 14] ! 3)"
    by blast
  then have "GetPlanesToRef 0 [9, 10, 11, 12, 13, 14] ex_store = Inr h' \<and>
      plane_of h' 9 = plane_value 0 0 1 (1 / 2) \<and>
      plane_of h' 10 = plane_value 0 0 (- 1) (1 / 2) \<and>
      plane_of h' 11 = plane_value 1 0 0 (1 / 2) \<and>
      plane_of h' 12 = plane_value (- 1) 0 0 (1 / 2) \<and>
      plane_of h' 13 = plane_value 0 (- 1) 0 (1 / 2) \<and>
      plane_of h' 14 = plane_value 0 1 0 (1 / 2) \<and>
      (\<exists>h3. GetRightPlaneToRef 0 12 ex_store = Inr h3 \<and> plane_of h3 12 = plane_of h' 12)"
    by (simp add: N)
  with M S D show ?thesis by blast
qed

text \<open>
  Claim C5 compares the planes of GetPlanes with what GetPlanesToRef writes into any
  caller-provided six-slot storage. As stated it fails when the caller's six planes hold
  one Vector3 as their normal: GetPlanes returns the near plane, with the normal
  (0, 0, 1) for the scaling, in slot 0, while GetPlanesToRef on that storage leaves a
  plane with the normal of the bottom plane, (0, 1, 0), there.
\<close>

theorem GetPlanes_shared_storage_counterexample:
  "is_Matrix [MatrixObj ex_scale] 0 ex_scale \<and> is_Matrix ex_shared 0 ex_scale \<and>
   six_planes ex_shared [2, 3, 4, 5, 6, 7] \<and> distinct [2, 3, 4, 5, 6, 7 :: nat] \<and>
   GetPlanes 0 [MatrixObj ex_scale] =
     Inr ([2, 4, 6, 8, 10, 12],
          [MatrixObj ex_scale,
      Vector3Obj \<lparr>x = 0, y = 0, z = 1\<rparr>, PlaneObj \<lparr>normal = 1, d = 1 / 2\<rparr>,
      Vector3Obj \<lparr>x = 0, y = 0, z = - 1\<rparr>, PlaneObj \<lparr>normal = 3, d = 1 / 2\<rparr>,
      Vector3Obj \<lparr>x = 1, y = 0, z = 0\<rparr>, PlaneObj \<lparr>normal = 5, d = 1 / 2\<rparr>,
      Vector3Obj \<lparr>x = - 1, y = 0, z = 0\<rparr>, PlaneObj \<lparr>normal = 7, d = 1 / 2\<rparr>,
      Vector3Obj \<lparr>x = 0, y = - 1, z = 0\<rparr>, PlaneObj \<lparr>normal = 9, d = 1 / 2\<rparr>,
      Vector3Obj \<lparr>x = 0, y = 1, z = 0\<rparr>, PlaneObj \<lparr>normal = 11, d = 1 / 2\<rparr>]) \<and>
   GetPlanesToRef 0 [2, 3, 4, 5, 6, 7] ex_shared =
     Inr [MatrixObj ex_scale, Vector3Obj \<lparr>x = 0, y = 1, z = 0\<rparr>,
      PlaneObj \<lparr>normal = 1, d = 1 / 2\<rparr>, PlaneObj \<lparr>normal = 1, d = 1 / 2\<rparr>,
      PlaneObj \<lparr>normal = 1, d = 1 / 2\<rparr>, PlaneObj \<lparr>normal = 1, d = 1 / 2\<rparr>,
      PlaneObj \<lparr>normal = 1, d = 1 / 2\<rparr>, PlaneObj \<lparr>normal = 1, d = 1 / 2\<rparr>] \<and>
   plane_of [MatrixObj ex_scale,
      Vector3Obj \<lparr>x = 0, y = 0, z = 1\<rparr>, PlaneObj \<lparr>normal = 1, d = 1 / 2\<rparr>,
      Vector3Obj \<lparr>x = 0, y = 0, z = - 1\<rparr>, PlaneObj \<lparr>normal = 3, d = 1 / 2\<rparr>,
      Vector3Obj \<lparr>x = 1, y = 0, z = 0\<rparr>, PlaneObj \<lparr>normal = 5, d = 1 / 2\<rparr>,
      Vector3Obj \<lparr>x = - 1, y = 0, z = 0\<rparr>, PlaneObj \<lparr>normal = 7, d = 1 / 2\<rparr>,
      Vector3Obj \<lparr>x = 0, y = - 1, z = 0\<rparr>, PlaneObj \<lparr>normal = 9, d = 1 / 2\<rparr>,
      Vector3Obj \<lparr>x = 0, y = 1, z = 0\<rparr>, PlaneObj \<lparr>normal = 11, d = 1 / 2\<rparr>] ([2, 4, 6, 8, 10, 12] ! 0) = plane_value 0 0 1 (1 / 2) \<and>
   plane_of [MatrixObj ex_scale, Vector3Obj \<lparr>x = 0, y = 1, z = 0\<rparr>,
      PlaneObj \<lparr>normal = 1, d = 1 / 2\<rparr>, PlaneObj \<lparr>normal = 1, d = 1 / 2\<rparr>,
      PlaneObj \<lparr>normal = 1, d = 1 / 2\<rparr>, PlaneObj \<lparr>normal = 1, d = 1 / 2\<rparr>,
      PlaneObj \<lparr>normal = 1, d = 1 / 2\<rparr>, PlaneObj \<lparr>normal = 1, d = 1 / 2\<rparr>] ([2, 3, 4, 5, 6, 7] ! 0) = plane_value 0 1 0 (1 / 2) \<and>
   plane_value 0 0 1 (1 / 2) \<noteq> plane_value 0 1 0 (1 / 2)"
proof -
  have M: "is_Matrix [MatrixObj ex_scale] 0 ex_scale"
    by (simp add: is_Matrix_def lookup_def ex_scale_def)
  have 1: "GetPlanes 0 [MatrixObj ex_scale] =
     Inr ([2, 4, 6, 8, 10, 12],
          [MatrixObj ex_scale,
      Vector3Obj \<lparr>x = 0, y = 0, z = 1\<rparr>, PlaneObj \<lparr>normal = 1, d = 1 / 2\<rparr>,
      Vector3Obj \<lparr>x = 0, y = 0, z = - 1\<rparr>, PlaneObj \<lparr>normal = 3, d = 1 / 2\<rparr>,
      Vector3Obj \<lparr>x = 1, y = 0, z = 0\<rparr>, PlaneObj \<lparr>normal = 5, d = 1 / 2\<rparr>,
      Vector3Obj \<lparr>x = - 1, y = 0, z = 0\<rparr>, PlaneObj \<lparr>normal = 7, d = 1 / 2\<rparr>,
      Vector3Obj \<lparr>x = 0, y = - 1, z = 0\<rparr>, PlaneObj \<lparr>normal = 9, d = 1 / 2\<rparr>,
      Vector3Obj \<lparr>x = 0, y = 1, z = 0\<rparr>, PlaneObj \<lparr>normal = 11, d = 1 / 2\<rparr>])"
    using GetPlanes_eq [OF is_MatrixD [OF M]]
    by (simp add: write_all_def all_writes_unfold plane_writes_def lookup_def ex_scale_planes
        plane_value_def)
  have 2: "GetPlanesToRef 0 [2, 3, 4, 5, 6, 7] ex_shared =
     Inr [MatrixObj ex_scale, Vector3Obj \<lparr>x = 0, y = 1, z = 0\<rparr>,
      PlaneObj \<lparr>normal = 1, d = 1 / 2\<rparr>, PlaneObj \<lparr>normal = 1, d = 1 / 2\<rparr>,
      PlaneObj \<lparr>normal = 1, d = 1 / 2\<rparr>, PlaneObj \<lparr>normal = 1, d = 1 / 2\<rparr>,
      PlaneObj \<lparr>normal = 1, d = 1 / 2\<rparr>, PlaneObj \<lparr>normal = 1, d = 1 / 2\<rparr>]"
    using GetPlanesToRef_eq [OF is_MatrixD [OF ex_shared_typed(1)] ex_shared_typed(3)]
    by (simp only: ex_shared_all)
  have 3: "plane_of [MatrixObj ex_scale,
      Vector3Obj \<lparr>x = 0, y = 0, z = 1\<rparr>, PlaneObj \<lparr>normal = 1, d = 1 / 2\<rparr>,
      Vector3Obj \<lparr>x = 0, y = 0, z = - 1\<rparr>, PlaneObj \<lparr>normal = 3, d = 1 / 2\<rparr>,
      Vector3Obj \<lparr>x = 1, y = 0, z = 0\<rparr>, PlaneObj \<lparr>normal = 5, d = 1 / 2\<rparr>,
      Vector3Obj \<lparr>x = - 1, y = 0, z = 0\<rparr>, PlaneObj \<lparr>normal = 7, d = 1 / 2\<rparr>,
      Vector3Obj \<lparr>x = 0, y = - 1, z = 0\<rparr>, PlaneObj \<lparr>normal = 9, d = 1 / 2\<rparr>,
      Vector3Obj \<lparr>x = 0, y = 1, z = 0\<rparr>, PlaneObj \<lparr>normal = 11, d = 1 / 2\<rparr>] ([2, 4, 6, 8, 10, 12] ! 0) = plane_value 0 0 1 (1 / 2)"
    "plane_of [MatrixObj ex_scale, Vector3Obj \<lparr>x = 0, y = 1, z = 0\<rparr>,
      PlaneObj \<lparr>normal = 1, d = 1 / 2\<rparr>, PlaneObj \<lparr>normal = 1, d = 1 / 2\<rparr>,
      PlaneObj \<lparr>normal = 1, d = 1 / 2\<rparr>, PlaneObj \<lparr>normal = 1, d = 1 / 2\<rparr>,
      PlaneObj \<lparr>normal = 1, d = 1 / 2\<rparr>, PlaneObj \<lparr>normal = 1, d = 1 / 2\<rparr>] ([2, 3, 4, 5, 6, 7] ! 0) = plane_value 0 1 0 (1 / 2)"
    by (simp_all add: plane_of_def lookup_def plane_value_def)
  have 4: "plane_value 0 0 1 (1 / 2) \<noteq> plane_value 0 1 0 (1 / 2)"
    by (simp add: plane_value_def)
  have 5: "distinct [2, 3, 4, 5, 6, 7 :: nat]" by simp
  show ?thesis
    apply (intro conjI)
            apply (rule M)
           apply (rule ex_shared_typed(1))
          apply (rule ex_shared_typed(3))
         apply (rule 5)
        apply (rule 1)
       apply (rule 2)
      apply (rule 3(1))
     apply (rule 3(2))
    apply (rule 4)
    done
qed

text \<open>
  Claim C5, amended: GetPlanes returns a freshly allocated sequence of exactly six planes:
  six distinct references that did not exist in the store before, each holding a Plane
  with a new Vector3 of its own as normal, while every object that existed before is as
  it was. The values of the six planes equal, slot for slot, the values that
  GetPlanesToRef writes for the same matrix into any caller-provided storage of six
  separate planes (no two slots share the Plane object or the Vector3 of the normal).
  The module has no state besides the store it is given and returns, and no reference
  to a plane is retained there: in a closed store no object holds a reference to a
  returned plane after GetPlanes, and GetPlanesToRef leaves the set of references held
  by the objects of the store as it was.
\<close>

theorem GetPlanes_allocates_and_agrees:
  assumes "is_Matrix h t M" and "is_Matrix h2 t2 M" and "six_planes h2 a"
    and "separate h2 a"
  shows "\<exists>fp h' h3. GetPlanes t h = Inr (fp, h') \<and>
    length fp = 6 \<and> distinct fp \<and> list_all (\<lambda>r. length h \<le> r) fp \<and> six_planes h' fp \<and>
    separate h' fp \<and> length h' = length h + 12 \<and> take (length h) h' = h \<and>
    (closed h \<longrightarrow> (\<forall>i<6. \<not> referenced h' (fp ! i))) \<and>
    GetPlanesToRef t2 a h2 = Inr h3 \<and>
    (\<forall>r. referenced h3 r = referenced h2 r) \<and>
    (\<forall>i<6. plane_of h' (fp ! i) = plane_of h3 (a ! i))"
proof -
  note M = is_MatrixD [OF assms(1)]
  define fp where
    "fp = [length h + 1, length h + 3, length h + 5, length h + 7, length h + 9, length h + 11]"
  define h1 where "h1 = (h @ [Vector3Obj \<lparr>x = 0, y = 0, z = 0\<rparr>, PlaneObj \<lparr>normal = length h, d = 0\<rparr>,
           Vector3Obj \<lparr>x = 0, y = 0, z = 0\<rparr>, PlaneObj \<lparr>normal = length h + 2, d = 0\<rparr>,
           Vector3Obj \<lparr>x = 0, y = 0, z = 0\<rparr>, PlaneObj \<lparr>normal = length h + 4, d = 0\<rparr>,
           Vector3Obj \<lparr>x = 0, y = 0, z = 0\<rparr>, PlaneObj \<lparr>normal = length h + 6, d = 0\<rparr>,
           Vector3Obj \<lparr>x = 0, y = 0, z = 0\<rparr>, PlaneObj \<lparr>normal = length h + 8, d = 0\<rparr>,
           Vector3Obj \<lparr>x = 0, y = 0, z = 0\<rparr>, PlaneObj \<lparr>normal = length h + 10, d = 0\<rparr>])"
  have G: "GetPlanes t h = Inr (fp, write_all M fp h1)"
    using GetPlanes_eq [OF M] by (simp only: fp_def h1_def)
  have fresh: "six_planes h1 fp" "separate h1 fp"
    unfolding h1_def fp_def by (rule fresh_six_planes, rule fresh_separate)
  have fp: "length fp = 6" "distinct fp" "list_all (\<lambda>r. length h \<le> r) fp"
    by (simp_all add: fp_def)
  have six: "six_planes (write_all M fp h1) fp"
    using fresh(1) by (simp add: six_planes_write_all)
  have sep: "separate (write_all M fp h1) fp"
    using fresh by (simp add: separate_layout [OF layout_write_all])
  have len: "length (write_all M fp h1) = length h + 12"
    by (simp add: h1_def)
  have old: "take (length h) (write_all M fp h1) = h"
    unfolding h1_def fp_def by (rule take_write_all_fresh)
  have ret: "\<forall>i<6. \<not> referenced (write_all M fp h1) (fp ! i)" if "closed h"
  proof -
    have "\<not> referenced h r" if "length h \<le> r" for r
      using closed_referenced [OF \<open>closed h\<close>, of r] that by auto
    then have "\<forall>i<6. \<not> referenced h1 (fp ! i)"
      unfolding all_less_6 h1_def fresh_referenced by (simp add: fp_def)
    then show ?thesis by (simp add: referenced_write_all [OF fresh(1)])
  qed
  have R: "GetPlanesToRef t2 a h2 = Inr (write_all M a h2)"
    using is_MatrixD [OF assms(2)] assms(3) by (rule GetPlanesToRef_eq)
  have keep: "\<forall>r. referenced (write_all M a h2) r = referenced h2 r"
    using assms(3) by (simp add: referenced_write_all)
  have "\<forall>i<6. plane_of (write_all M fp h1) (fp ! i) = plane_of (write_all M a h2) (a ! i)"
    using write_all_slot [OF fresh, of _ M] write_all_slot [OF assms(3,4), of _ M]
    by simp
  with G fp six sep len old ret R keep show ?thesis by blast
qed

theorem GetPlanes_allocates_and_agrees_witness:
  "is_Matrix [MatrixObj ex_scale] 0 ex_scale \<and> is_Matrix ex_store 0 ex_scale \<and>
   six_planes ex_store [9, 10, 11, 12, 13, 14] \<and> separate ex_store [9, 10, 11, 12, 13, 14] \<and>
   closed [MatrixObj ex_scale] \<and>
   (\<exists>fp h' h3. GetPlanes 0 [MatrixObj ex_scale] = Inr (fp, h') \<and>
      length fp = 6 \<and> distinct fp \<and> length h' = 13 \<and> take 1 h' = [MatrixObj ex_scale] \<and>
      \<not> referenced h' (fp ! 0) \<and> \<not> referenced h' (fp ! 5) \<and>
      GetPlanesToRef 0 [9, 10, 11, 12, 13, 14] ex_store = Inr h3 \<and>
      referenced h3 9 = referenced ex_store 9 \<and>
      plane_of h' (fp ! 0) = plane_of h3 9 \<and> plane_of h' (fp ! 5) = plane_of h3 14)"
proof -
  have M: "is_Matrix [MatrixObj ex_scale] 0 ex_scale"
    by (simp add: is_Matrix_def lookup_def ex_scale_def)
  have C: "closed [MatrixObj ex_scale]"
    by (simp add: closed_def refs_of_def)
  note M2 = ex_store_typed(1)
  note S = ex_store_typed(5)
  note D = ex_store_typed(6)
  from GetPlanes_allocates_and_agrees [OF M M2 S D] obtain fp h' h3 where
    "GetPlanes 0 [MatrixObj ex_scale] = Inr (fp, h')" "length fp = 6" "distinct fp"
    "length h' = length [MatrixObj ex_scale] + 12"
    "take (length [MatrixObj ex_scale]) h' = [MatrixObj ex_scale]"
    "closed [MatrixObj ex_scale] \<longrightarrow> (\<forall>i<6. \<not> referenced h' (fp ! i))"
    "GetPlanesToRef 0 [9, 10, 11, 12, 13, 14] ex_store = Inr h3"
    "\<forall>r. referenced h3 r = referenced ex_store r"
    "\<forall>i<6. plane_of h' (fp ! i) = plane_of h3 ([9, 10, 11, 12, 13, 14] ! i)"
    by blast
  with C have "GetPlanes 0 [MatrixObj ex_scale] = Inr (fp, h') \<and>
      length fp = 6 \<and> distinct fp \<and> length h' = 13 \<and> take 1 h' = [MatrixObj ex_scale] \<and>
      \<not> referenced h' (fp ! 0) \<and> \<not> referenced h' (fp ! 5) \<and>
      GetPlanesToRef 0 [9, 10, 11, 12, 13, 14] ex_store = Inr h3 \<and>
      referenced h3 9 = referenced ex_store 9 \<and>
      plane_of h' (fp ! 0) = plane_of h3 9 \<and> plane_of h' (fp ! 5) = plane_of h3 14"
    by (simp add: all_less_6)
  with M M2 S D C show ?thesis by blast
qed

end
